theory Spec2Isabelle
  imports Main "HOL-Library.Word" "HOL-Library.AList" "HOL-Library.List_Lexorder"
begin

section \<open>The reader (src/reader.ts)\<close>

subsection \<open>Buffers, errors and read traces\<close>

text \<open>
  A Node \<open>Buffer\<close> is a list of bytes. A thrown JavaScript exception is a value of
  type \<open>error\<close>; a function that can throw returns \<open>error + 'a\<close> with \<open>Inl\<close> for the
  exception. \<open>Error msg\<close> is \<open>new Error(msg)\<close>; \<open>TypeError\<close> is what the runtime throws
  when a property of \<open>undefined\<close> is read, \<open>RangeError\<close> what it throws for an invalid
  typed-array length or an out-of-range buffer read.
\<close>

type_synonym byte = "8 word"
type_synonym Buffer = "byte list"

datatype error = Error string | TypeError string | RangeError string

text \<open>
  \<open>buf.slice(start, end)\<close>: negative indices count from the end, both indices are
  clamped to the buffer, and an end before the start gives the empty buffer.
\<close>

definition Buffer_slice :: "Buffer \<Rightarrow> int \<Rightarrow> int \<Rightarrow> Buffer" where
  "Buffer_slice b start fin =
     (let n = int (length b);
          s = (if start < 0 then max (n + start) 0 else min start n);
          e = (if fin < 0 then max (n + fin) 0 else min fin n)
      in take (nat (e - s)) (drop (nat s) b))"

text \<open>\<open>buf.slice(start)\<close>: to the end of the buffer.\<close>

definition Buffer_slice_from :: "Buffer \<Rightarrow> int \<Rightarrow> Buffer" where
  "Buffer_slice_from b start = Buffer_slice b start (int (length b))"

text \<open>
  \<open>buf.toString() !== s\<close> for an ASCII constant \<open>s\<close>: the UTF-8 decoding of \<open>buf\<close> is \<open>s\<close>
  exactly when the bytes of \<open>buf\<close> are the character codes of \<open>s\<close>.
\<close>

definition toString_is :: "Buffer \<Rightarrow> string \<Rightarrow> bool" where
  "toString_is buf s = (buf = map of_char s)"

text \<open>\<open>buf.readUInt32LE(0)\<close>: throws when the buffer has fewer than four bytes.\<close>

definition readUInt32LE0 :: "Buffer \<Rightarrow> error + int" where
  "readUInt32LE0 buf =
     (case buf of
        b0 # b1 # b2 # b3 # _ \<Rightarrow>
          Inr (uint b0 + 256 * uint b1 + 65536 * uint b2 + 16777216 * uint b3)
      | _ \<Rightarrow> Inl (RangeError ''ERR_OUT_OF_RANGE''))"

text \<open>
  A call of the reader returns a value, throws, or (a page loop that makes no
  progress) does not return: its outcome is \<open>Some (Inr v)\<close>, \<open>Some (Inl e)\<close> or \<open>None\<close>.
  The envelope readers read byte ranges. To state what a call read, every reading
  function returns its outcome together with the list of \<open>(position, length)\<close>
  requests it made, in order.
\<close>

type_synonym 'a outcome = "(error + 'a) option"

type_synonym 'a io = "'a outcome \<times> (int \<times> int) list"

definition io_bind :: "'a io \<Rightarrow> ('a \<Rightarrow> 'b io) \<Rightarrow> 'b io" where
  "io_bind m f =
     (case m of
        (None, t) \<Rightarrow> (None, t)
      | (Some (Inl e), t) \<Rightarrow> (Some (Inl e), t)
      | (Some (Inr a), t) \<Rightarrow> (case f a of (r, t') \<Rightarrow> (r, t @ t')))"

definition io_pure :: "'a outcome \<Rightarrow> 'a io" where
  "io_pure r = (r, [])"

subsection \<open>The Thrift structures the reader uses\<close>

text \<open>
  The generated Thrift classes are imported from \<open>./thrift\<close>; the records below hold the
  fields \<open>reader.ts\<close> reads. An optional Thrift field that may be \<open>undefined\<close> or \<open>null\<close>
  is an \<open>option\<close>.
\<close>

record SchemaElement =
  se_type :: "int option"
  se_type_length :: "int option"
  se_repetition_type :: "int option"
  se_name :: string
  se_num_children :: "int option"
  se_converted_type :: "int option"

record ColumnMetaData =
  cm_type :: int
  cm_path_in_schema :: "string list"
  cm_codec :: int
  cm_data_page_offset :: int
  cm_total_compressed_size :: int

record ColumnChunk =
  file_path :: "string option"
  meta_data :: "ColumnMetaData option"

record RowGroup =
  rg_columns :: "ColumnChunk list"
  rg_num_rows :: int

record FileMetaData =
  version :: int
  schema :: "SchemaElement list"
  num_rows :: int
  row_groups :: "RowGroup list"
  key_value_metadata :: "(string \<times> string) list"

record DataPageHeader =
  dph_num_values :: int
  dph_encoding :: int
  dph_definition_level_encoding :: int
  dph_repetition_level_encoding :: int

record DataPageHeaderV2 =
  dph2_num_values :: int
  dph2_num_nulls :: int
  dph2_num_rows :: int
  dph2_encoding :: int
  dph2_is_compressed :: bool

record PageHeader =
  ph_type :: int
  uncompressed_page_size :: int
  compressed_page_size :: int
  data_page_header :: "DataPageHeader option"
  data_page_header_v2 :: "DataPageHeaderV2 option"

text \<open>The Thrift enumerations \<open>getThriftEnum\<close> is called with.\<close>

datatype thrift_enum =
  Type | CompressionCodec | ConvertedType | Encoding | FieldRepetitionType | PageType

subsection \<open>Declarations shared with the rest of the library\<close>

text \<open>
  A decoded value: a number (also the element of an \<open>Int32Array\<close> of levels), a
  boolean or a byte array. Floating-point values are not modelled; no claim depends
  on them.
\<close>

datatype pvalue = PNumber int | PBoolean bool | PBuffer Buffer

record CursorBuffer =
  cb_buffer :: Buffer
  cb_offset :: int
  cb_size :: int

record ParquetCodecOptions =
  bitWidth :: "int option"
  disableEnvelope :: "bool option"
  typeLength :: "int option"

record ParquetField =
  primitiveType :: "string option"
  pf_typeLength :: "int option"
  rLevelMax :: int
  dLevelMax :: int

record ParquetReadData =
  dLevels :: "pvalue list"
  rLevels :: "pvalue list"
  values' :: "pvalue list"
  rd_count :: int

record ParquetReadBuffer =
  rowCount :: int
  columnData :: "(string \<times> ParquetReadData) list"

text \<open>
  The schema definition \<open>decodeSchema\<close> builds: an object from field names to field
  definitions, with its properties in the order in which JavaScript lists them.
\<close>

datatype FieldDefinition =
  FieldDefinition
    (fd_type: "string option")
    (fd_typeLength: "int option")
    (fd_optional: bool)
    (fd_repeated: bool)
    (fd_fields: "(string \<times> FieldDefinition) list option")

type_synonym SchemaDefinition = "(string \<times> FieldDefinition) list"

text \<open>
  The order of the properties of a JavaScript object: first the keys that are array
  indices (the decimal numerals below \<open>2^32 - 1\<close> without a leading zero), in ascending
  numeric order, then the other keys in the order in which they were created.
\<close>

definition digit_of :: "char \<Rightarrow> int option" where
  "digit_of c =
     map_of [(CHR ''0'', 0), (CHR ''1'', 1), (CHR ''2'', 2), (CHR ''3'', 3), (CHR ''4'', 4),
             (CHR ''5'', 5), (CHR ''6'', 6), (CHR ''7'', 7), (CHR ''8'', 8), (CHR ''9'', 9)] c"

fun digits_value :: "string \<Rightarrow> int \<Rightarrow> int option" where
  "digits_value [] acc = Some acc"
| "digits_value (c # cs) acc =
     (case digit_of c of
        None \<Rightarrow> None
      | Some k \<Rightarrow> digits_value cs (10 * acc + k))"

definition array_index :: "string \<Rightarrow> int option" where
  "array_index key =
     (case key of
        [] \<Rightarrow> None
      | c # cs \<Rightarrow>
          if c = CHR ''0'' \<and> cs \<noteq> [] then None
          else
            (case digits_value key 0 of
               None \<Rightarrow> None
             | Some n \<Rightarrow> if n < 4294967295 then Some n else None))"

text \<open>A new property whose key is the array index \<open>n\<close>, put in its place.\<close>

fun insert_index :: "int \<Rightarrow> string \<Rightarrow> 'a \<Rightarrow> (string \<times> 'a) list \<Rightarrow> (string \<times> 'a) list" where
  "insert_index n key v [] = [(key, v)]"
| "insert_index n key v ((k, x) # rest) =
     (case array_index k of
        None \<Rightarrow> (key, v) # (k, x) # rest
      | Some m \<Rightarrow>
          if m < n then (k, x) # insert_index n key v rest
          else (key, v) # (k, x) # rest)"

text \<open>
  \<open>object[key] = v\<close>: a key already present keeps its place and gets the new value
  (\<open>AList.update\<close> does that, and puts a new key last); a new key that is an array index
  goes to its place among the array indices.
\<close>

definition object_set :: "string \<Rightarrow> 'a \<Rightarrow> (string \<times> 'a) list \<Rightarrow> (string \<times> 'a) list" where
  "object_set key v obj =
     (case (map_of obj key, array_index key) of
        (None, Some n) \<Rightarrow> insert_index n key v obj
      | _ \<Rightarrow> AList.update key v obj)"

text \<open>
  A codec's \<open>decodeValues(type, cursor, count, opts)\<close>. The codec advances the cursor it
  is given, so the model returns the cursor after the call next to the values.
\<close>

type_synonym decoder =
  "string option \<Rightarrow> CursorBuffer \<Rightarrow> int \<Rightarrow> ParquetCodecOptions
     \<Rightarrow> error + (pvalue list \<times> CursorBuffer)"

text \<open>
  \<open>reader.ts\<close> calls into modules that are not part of this development: \<open>./util\<close>,
  \<open>./codec\<close>, \<open>./compression\<close>, \<open>./schema\<close> and \<open>./shred\<close>. The functions it calls are
  the fields of the record below, and every function of the reader takes such a record
  as its first argument. \<open>'s\<close> is the class \<open>ParquetSchema\<close>, \<open>'r\<close> a materialized record.
\<close>

record ('s, 'r) Imports =
  getThriftEnum :: "thrift_enum \<Rightarrow> int option \<Rightarrow> error + string"
  getBitWidth :: "int \<Rightarrow> int"
  decodeFileMetadata :: "Buffer \<Rightarrow> error + FileMetaData"
  decodePageHeader :: "Buffer \<Rightarrow> error + (PageHeader \<times> int)"
  fieldIndexOf :: "string list list \<Rightarrow> string list \<Rightarrow> int"
  PARQUET_CODEC :: "string \<Rightarrow> decoder option"
  inflate :: "string \<Rightarrow> Buffer \<Rightarrow> int \<Rightarrow> error + Buffer"
  new_ParquetSchema :: "SchemaDefinition \<Rightarrow> error + 's"
  findField :: "'s \<Rightarrow> string list \<Rightarrow> error + ParquetField"
  Shred_materializeRecords :: "'s \<Rightarrow> ParquetReadBuffer \<Rightarrow> error + 'r list"
  fstat :: "string \<Rightarrow> error + int"
  fopen :: "string \<Rightarrow> error + nat"
  fread :: "nat \<Rightarrow> int \<Rightarrow> int \<Rightarrow> error + Buffer"
  fclose :: "nat \<Rightarrow> error option"

definition PARQUET_MAGIC :: string where
  "PARQUET_MAGIC = ''PAR1''"

definition PARQUET_VERSION :: int where
  "PARQUET_VERSION = 1"

definition PARQUET_RDLVL_TYPE :: string where
  "PARQUET_RDLVL_TYPE = ''INT32''"

definition PARQUET_RDLVL_ENCODING :: string where
  "PARQUET_RDLVL_ENCODING = ''RLE''"

subsection \<open>Decoding pages\<close>

text \<open>Sequencing of calls that can throw: the first exception ends the computation.\<close>

definition bindE :: "error + 'a \<Rightarrow> ('a \<Rightarrow> error + 'b) \<Rightarrow> error + 'b" where
  "bindE m f = (case m of Inl e \<Rightarrow> Inl e | Inr a \<Rightarrow> f a)"

text \<open>\<open>decodeValues\<close>: look the codec up by the name of the encoding and call it.\<close>

definition decodeValues ::
  "('s, 'r) Imports \<Rightarrow> string option \<Rightarrow> string \<Rightarrow> CursorBuffer \<Rightarrow> int
     \<Rightarrow> ParquetCodecOptions \<Rightarrow> error + (pvalue list \<times> CursorBuffer)" where
  "decodeValues lib type encoding cursor n opts =
     (case PARQUET_CODEC lib encoding of
        None \<Rightarrow> Inl (Error (''invalid encoding: '' @ encoding))
      | Some dec \<Rightarrow> dec type cursor n opts)"

text \<open>\<open>new Int32Array(n)\<close>: \<open>n\<close> zeros, a \<open>RangeError\<close> for a negative length.\<close>

definition new_Int32Array :: "int \<Rightarrow> error + pvalue list" where
  "new_Int32Array n =
     (if n < 0 then Inl (RangeError ''Invalid typed array length'')
      else Inr (replicate (nat n) (PNumber 0)))"

text \<open>
  The options both page decoders pass to the codec of a level stream: the bit width of
  the column's maximum level and the \<open>disableEnvelope\<close> flag.
\<close>

definition level_options :: "int \<Rightarrow> bool \<Rightarrow> ParquetCodecOptions" where
  "level_options w noEnvelope =
     \<lparr>bitWidth = Some w, disableEnvelope = Some noEnvelope, typeLength = None\<rparr>"

text \<open>
  The level stream of a page, as both page decoders read it: decoded with the given
  encoding and \<open>disableEnvelope\<close> flag when the column's maximum level is positive, all
  zeros otherwise.
\<close>

definition decodeLevels ::
  "('s, 'r) Imports \<Rightarrow> int \<Rightarrow> string \<Rightarrow> bool \<Rightarrow> CursorBuffer \<Rightarrow> int
     \<Rightarrow> error + (pvalue list \<times> CursorBuffer)" where
  "decodeLevels lib levelMax encoding noEnvelope cursor valueCount =
     (if levelMax > 0 then
        decodeValues lib (Some PARQUET_RDLVL_TYPE) encoding cursor valueCount
          (level_options (getBitWidth lib levelMax) noEnvelope)
      else bindE (new_Int32Array valueCount) (\<lambda>a. Inr (a, cursor)))"

text \<open>
  The cursor the compressed part of a page is read from: the inflated bytes of the
  page up to \<open>cursorEnd\<close>, in a cursor of their own.
\<close>

definition inflated_cursor ::
  "('s, 'r) Imports \<Rightarrow> string \<Rightarrow> CursorBuffer \<Rightarrow> int \<Rightarrow> PageHeader \<Rightarrow> error + CursorBuffer"
where
  "inflated_cursor lib compression cursor cursorEnd header =
     bindE (inflate lib compression
              (Buffer_slice (cb_buffer cursor) (cb_offset cursor) cursorEnd)
              (uncompressed_page_size header))
       (\<lambda>valuesBuf. Inr \<lparr>cb_buffer = valuesBuf, cb_offset = 0,
                           cb_size = int (length valuesBuf)\<rparr>)"

text \<open>
  \<open>decodeDataPage\<close> (data page v1). With a compression other than \<open>UNCOMPRESSED\<close> the
  page body is inflated into a cursor of its own and the chunk cursor jumps to the end
  of the page; otherwise \<open>dataCursor\<close> is the chunk cursor itself, and what the codecs
  consume moves the chunk cursor. The function returns the page and the chunk cursor
  after the call.
\<close>

definition decodeDataPage ::
  "('s, 'r) Imports \<Rightarrow> CursorBuffer \<Rightarrow> PageHeader \<Rightarrow> ParquetField \<Rightarrow> string
     \<Rightarrow> error + (ParquetReadData \<times> CursorBuffer)" where
  "decodeDataPage lib cursor header column compression =
     (let cursorEnd = cb_offset cursor + compressed_page_size header in
      case data_page_header header of
        None \<Rightarrow> Inl (TypeError ''data_page_header is undefined'')
      | Some dph \<Rightarrow>
          bindE (if compression \<noteq> ''UNCOMPRESSED''
                 then inflated_cursor lib compression cursor cursorEnd header
                 else Inr cursor)
          (\<lambda>dataCursor.
          bindE (getThriftEnum lib Encoding (Some (dph_repetition_level_encoding dph)))
          (\<lambda>rLevelEncoding.
          bindE (decodeLevels lib (rLevelMax column) rLevelEncoding False dataCursor
                   (dph_num_values dph))
          (\<lambda>(rLvls, dataCursor1).
          bindE (getThriftEnum lib Encoding (Some (dph_definition_level_encoding dph)))
          (\<lambda>dLevelEncoding.
          bindE (decodeLevels lib (dLevelMax column) dLevelEncoding False dataCursor1
                   (dph_num_values dph))
          (\<lambda>(dLvls, dataCursor2).
          bindE (getThriftEnum lib Encoding (Some (dph_encoding dph)))
          (\<lambda>valueEncoding.
          bindE (decodeValues lib (primitiveType column) valueEncoding dataCursor2
                   (int (length (filter (\<lambda>dlvl. dlvl = PNumber (dLevelMax column)) dLvls)))
                   \<lparr>bitWidth = pf_typeLength column, disableEnvelope = None,
                    typeLength = pf_typeLength column\<rparr>)
          (\<lambda>(vals, dataCursor3).
             Inr (\<lparr>dLevels = dLvls, rLevels = rLvls, values' = vals,
                   rd_count = dph_num_values dph\<rparr>,
                  if compression \<noteq> ''UNCOMPRESSED''
                  then cursor\<lparr>cb_offset := cursorEnd\<rparr>
                  else dataCursor3)))))))))"

text \<open>
  \<open>decodeDataPageV2\<close>: the level streams are read from the chunk cursor itself, with the
  RLE codec and no envelope; only the values may be compressed.
\<close>

definition decodeDataPageV2 ::
  "('s, 'r) Imports \<Rightarrow> CursorBuffer \<Rightarrow> PageHeader \<Rightarrow> ParquetField \<Rightarrow> string
     \<Rightarrow> error + (ParquetReadData \<times> CursorBuffer)" where
  "decodeDataPageV2 lib cursor header column compression =
     (let cursorEnd = cb_offset cursor + compressed_page_size header in
      case data_page_header_v2 header of
        None \<Rightarrow> Inl (TypeError ''data_page_header_v2 is undefined'')
      | Some dph \<Rightarrow>
          bindE (getThriftEnum lib Encoding (Some (dph2_encoding dph)))
          (\<lambda>valueEncoding.
          bindE (decodeLevels lib (rLevelMax column) PARQUET_RDLVL_ENCODING True cursor
                   (dph2_num_values dph))
          (\<lambda>(rLvls, cursor1).
          bindE (decodeLevels lib (dLevelMax column) PARQUET_RDLVL_ENCODING True cursor1
                   (dph2_num_values dph))
          (\<lambda>(dLvls, cursor2).
          bindE (if dph2_is_compressed dph
                 then inflated_cursor lib compression cursor2 cursorEnd header
                 else Inr cursor2)
          (\<lambda>valuesBufCursor.
          bindE (decodeValues lib (primitiveType column) valueEncoding valuesBufCursor
                   (dph2_num_values dph - dph2_num_nulls dph)
                   \<lparr>bitWidth = pf_typeLength column, disableEnvelope = None,
                    typeLength = pf_typeLength column\<rparr>)
          (\<lambda>(vals, valuesBufCursor1).
             Inr (\<lparr>dLevels = dLvls, rLevels = rLvls, values' = vals,
                   rd_count = dph2_num_values dph\<rparr>,
                  if dph2_is_compressed dph
                  then cursor2\<lparr>cb_offset := cursorEnd\<rparr>
                  else valuesBufCursor1)))))))"

text \<open>
  \<open>decodeDataPages\<close>: the state of its \<open>while\<close> loop is the chunk cursor and the pages
  decoded so far. One iteration decodes the page header (always from the start of
  \<open>cursor.buffer\<close>, as the source does), rejects a page that is neither a data page v1
  nor v2, and decodes the page.
\<close>

record PagesState =
  ps_cursor :: CursorBuffer
  rLevelPages :: "pvalue list list"
  dLevelPages :: "pvalue list list"
  valuePages :: "pvalue list list"
  ps_count :: int

definition decodeDataPages_step ::
  "('s, 'r) Imports \<Rightarrow> ParquetField \<Rightarrow> string \<Rightarrow> PagesState \<Rightarrow> error + PagesState" where
  "decodeDataPages_step lib column compression st =
     bindE (decodePageHeader lib (cb_buffer (ps_cursor st)))
     (\<lambda>(pageHeader, len).
     bindE (getThriftEnum lib PageType (Some (ph_type pageHeader)))
     (\<lambda>pageType.
        if pageType \<noteq> ''DATA_PAGE_V2'' \<and> pageType \<noteq> ''DATA_PAGE'' then
          Inl (Error (''Unsupported data page type '' @ pageType))
        else
          bindE (if pageType = ''DATA_PAGE_V2''
                 then decodeDataPageV2 lib
                        ((ps_cursor st)\<lparr>cb_offset := cb_offset (ps_cursor st) + len\<rparr>)
                        pageHeader column compression
                 else decodeDataPage lib
                        ((ps_cursor st)\<lparr>cb_offset := cb_offset (ps_cursor st) + len\<rparr>)
                        pageHeader column compression)
          (\<lambda>(pageData, cursor').
             Inr \<lparr>ps_cursor = cursor',
                  rLevelPages = rLevelPages st @ [rLevels pageData],
                  dLevelPages = dLevelPages st @ [dLevels pageData],
                  valuePages = valuePages st @ [values' pageData],
                  ps_count = ps_count st + rd_count pageData\<rparr>)))"

text \<open>
  \<open>concatValueArrays\<close> (imported from \<open>./concatValueArrays\<close>; its tests are
  \<open>test/concatValueArrays.ts\<close>): the arrays one after the other.
\<close>

definition concatValueArrays :: "'a list list \<Rightarrow> 'a list" where
  "concatValueArrays arrays = concat arrays"

definition decodeDataPages_result :: "PagesState \<Rightarrow> ParquetReadData" where
  "decodeDataPages_result st =
     \<lparr>dLevels = concatValueArrays (dLevelPages st),
      rLevels = concatValueArrays (rLevelPages st),
      values' = concatValueArrays (valuePages st),
      rd_count = ps_count st\<rparr>"

text \<open>
  The loop itself. Nothing in the loop forces the cursor forward (a header of length 0
  followed by an empty page leaves it in place), so the loop may run forever: its
  outcome is then \<open>None\<close>.
\<close>

partial_function (option) decodeDataPages_loop ::
  "('s, 'r) Imports \<Rightarrow> ParquetField \<Rightarrow> string \<Rightarrow> PagesState \<Rightarrow> ParquetReadData outcome"
where
  "decodeDataPages_loop lib column compression st =
     (if cb_offset (ps_cursor st) < cb_size (ps_cursor st) then
        (case decodeDataPages_step lib column compression st of
           Inl e \<Rightarrow> Some (Inl e)
         | Inr st' \<Rightarrow> decodeDataPages_loop lib column compression st')
      else Some (Inr (decodeDataPages_result st)))"

declare decodeDataPages_loop.simps [code]

definition decodeDataPages_init :: "Buffer \<Rightarrow> PagesState" where
  "decodeDataPages_init buffer =
     \<lparr>ps_cursor = \<lparr>cb_buffer = buffer, cb_offset = 0, cb_size = int (length buffer)\<rparr>,
      rLevelPages = [], dLevelPages = [], valuePages = [], ps_count = 0\<rparr>"

definition decodeDataPages ::
  "('s, 'r) Imports \<Rightarrow> Buffer \<Rightarrow> ParquetField \<Rightarrow> string \<Rightarrow> ParquetReadData outcome" where
  "decodeDataPages lib buffer column compression =
     decodeDataPages_loop lib column compression (decodeDataPages_init buffer)"

text \<open>
  \<open>decodeColumnChunk\<close>: the checks before the pages are decoded give the field and the
  name of the compression, or throw.
\<close>

definition decodeColumnChunk_field ::
  "('s, 'r) Imports \<Rightarrow> 's \<Rightarrow> ColumnChunk \<Rightarrow> error + (ParquetField \<times> string)" where
  "decodeColumnChunk_field lib sch colChunk =
     (case meta_data colChunk of
        None \<Rightarrow> Inl (TypeError ''meta_data is undefined'')
      | Some md \<Rightarrow>
          bindE (findField lib sch (cm_path_in_schema md))
          (\<lambda>field.
          bindE (getThriftEnum lib Type (Some (cm_type md)))
          (\<lambda>type.
             if Some type \<noteq> primitiveType field then
               Inl (Error (''chunk type not matching schema: '' @ type))
             else
               bindE (getThriftEnum lib CompressionCodec (Some (cm_codec md)))
               (\<lambda>compression. Inr (field, compression)))))"

definition decodeColumnChunk ::
  "('s, 'r) Imports \<Rightarrow> 's \<Rightarrow> ColumnChunk \<Rightarrow> Buffer \<Rightarrow> ParquetReadData outcome" where
  "decodeColumnChunk lib sch colChunk pagesBuf =
     (case decodeColumnChunk_field lib sch colChunk of
        Inl e \<Rightarrow> Some (Inl e)
      | Inr (field, compression) \<Rightarrow> decodeDataPages lib pagesBuf field compression)"

subsection \<open>Decoding the schema of the footer\<close>

text \<open>
  \<open>num_children\<close> is only compared with \<open>0\<close> and used as a loop bound; an \<open>undefined\<close>
  one fails both comparisons, as \<open>0\<close> does.
\<close>

definition num_children :: "SchemaElement \<Rightarrow> int" where
  "num_children e = (case se_num_children e of None \<Rightarrow> 0 | Some n \<Rightarrow> n)"

text \<open>
  \<open>decodeSchema(schemaElements, offset, len)\<close>: the \<open>for\<close> loop with its counter \<open>i\<close>, the
  index \<open>next\<close> and the schema built so far; a group recurses into its children. The
  result is the schema and \<open>next\<close>. Reading \<open>schemaElements[next]\<close> past the end of the
  array gives \<open>undefined\<close>, and the property access that follows throws.
\<close>

partial_function (option) decodeSchema_loop ::
  "('s, 'r) Imports \<Rightarrow> SchemaElement list \<Rightarrow> int \<Rightarrow> int \<Rightarrow> nat \<Rightarrow> SchemaDefinition
     \<Rightarrow> (SchemaDefinition \<times> nat) outcome"
where
  "decodeSchema_loop lib schemaElements len i nxt sch =
     (if i < len then
        (if length schemaElements \<le> nxt then
           Some (Inl (TypeError ''schemaElement is undefined''))
         else
           (case (if nxt > 0
                  then getThriftEnum lib FieldRepetitionType
                         (se_repetition_type (schemaElements ! nxt))
                  else Inr ''ROOT'') of
              Inl e \<Rightarrow> Some (Inl e)
            | Inr repetitionType \<Rightarrow>
                if num_children (schemaElements ! nxt) > 0 then
                  Option.bind
                    (decodeSchema_loop lib schemaElements
                       (num_children (schemaElements ! nxt)) 0 (nxt + 1) [])
                    (\<lambda>res. case res of
                       Inl e \<Rightarrow> Some (Inl e)
                     | Inr (subfields, nxt') \<Rightarrow>
                         decodeSchema_loop lib schemaElements len (i + 1) nxt'
                           (object_set (se_name (schemaElements ! nxt))
                              (FieldDefinition None None
                                 (repetitionType = ''OPTIONAL'')
                                 (repetitionType = ''REPEATED'') (Some subfields))
                              sch))
                else
                  (case bindE (getThriftEnum lib Type (se_type (schemaElements ! nxt)))
                          (\<lambda>primitive.
                             if se_converted_type (schemaElements ! nxt) \<noteq> None
                             then getThriftEnum lib ConvertedType
                                    (se_converted_type (schemaElements ! nxt))
                             else Inr primitive) of
                     Inl e \<Rightarrow> Some (Inl e)
                   | Inr logicalType \<Rightarrow>
                       decodeSchema_loop lib schemaElements len (i + 1) (nxt + 1)
                         (object_set (se_name (schemaElements ! nxt))
                            (FieldDefinition (Some logicalType)
                               (se_type_length (schemaElements ! nxt))
                               (repetitionType = ''OPTIONAL'')
                               (repetitionType = ''REPEATED'') None)
                            sch))))
      else Some (Inr (sch, nxt)))"

declare decodeSchema_loop.simps [code]

definition decodeSchema ::
  "('s, 'r) Imports \<Rightarrow> SchemaElement list \<Rightarrow> nat \<Rightarrow> int
     \<Rightarrow> (SchemaDefinition \<times> nat) outcome" where
  "decodeSchema lib schemaElements offset len =
     decodeSchema_loop lib schemaElements len 0 offset []"

subsection \<open>The envelope readers\<close>

text \<open>
  \<open>ParquetEnvelopeReader\<close>: its \<open>read\<close> function, what its \<open>close\<close> function does (\<open>None\<close>:
  resolves, \<open>Some e\<close>: rejects with \<open>e\<close>) and the file size.
\<close>

record ParquetEnvelopeReader =
  er_read :: "int \<Rightarrow> int \<Rightarrow> error + Buffer"
  er_close :: "error option"
  fileSize :: int

definition ParquetEnvelopeReader_openFile ::
  "('s, 'r) Imports \<Rightarrow> string \<Rightarrow> error + ParquetEnvelopeReader" where
  "ParquetEnvelopeReader_openFile lib filePath =
     bindE (fstat lib filePath)
     (\<lambda>fileStat_size.
     bindE (fopen lib filePath)
     (\<lambda>fileDescriptor.
        Inr \<lparr>er_read = fread lib fileDescriptor, er_close = fclose lib fileDescriptor,
             fileSize = fileStat_size\<rparr>))"

definition ParquetEnvelopeReader_openBuffer :: "Buffer \<Rightarrow> ParquetEnvelopeReader" where
  "ParquetEnvelopeReader_openBuffer buffer =
     \<lparr>er_read = (\<lambda>position len. Inr (Buffer_slice buffer position (position + len))),
      er_close = None,
      fileSize = int (length buffer)\<rparr>"

definition io_read :: "ParquetEnvelopeReader \<Rightarrow> int \<Rightarrow> int \<Rightarrow> Buffer io" where
  "io_read er position len = (Some (er_read er position len), [(position, len)])"

definition readHeader :: "ParquetEnvelopeReader \<Rightarrow> unit io" where
  "readHeader er =
     io_bind (io_read er 0 (int (length PARQUET_MAGIC)))
       (\<lambda>buf. if \<not> toString_is buf PARQUET_MAGIC
               then io_pure (Some (Inl (Error ''not valid parquet file'')))
               else io_pure (Some (Inr ())))"

definition readFooter :: "('s, 'r) Imports \<Rightarrow> ParquetEnvelopeReader \<Rightarrow> FileMetaData io" where
  "readFooter lib er =
     (let trailerLen = int (length PARQUET_MAGIC) + 4 in
      io_bind (io_read er (fileSize er - trailerLen) trailerLen)
        (\<lambda>trailerBuf.
           if \<not> toString_is (Buffer_slice_from trailerBuf 4) PARQUET_MAGIC
           then io_pure (Some (Inl (Error ''not a valid parquet file'')))
           else
             (case readUInt32LE0 trailerBuf of
                Inl e \<Rightarrow> io_pure (Some (Inl e))
              | Inr metadataSize \<Rightarrow>
                  let metadataOffset = fileSize er - metadataSize - trailerLen in
                  if metadataOffset < int (length PARQUET_MAGIC)
                  then io_pure (Some (Inl (Error ''invalid metadata size'')))
                  else
                    io_bind (io_read er metadataOffset metadataSize)
                      (\<lambda>metadataBuf. io_pure (Some (decodeFileMetadata lib metadataBuf))))))"

definition readColumnChunk ::
  "('s, 'r) Imports \<Rightarrow> ParquetEnvelopeReader \<Rightarrow> 's \<Rightarrow> ColumnChunk \<Rightarrow> ParquetReadData io"
where
  "readColumnChunk lib er sch colChunk =
     (if file_path colChunk \<noteq> None
      then io_pure (Some (Inl (Error ''external references are not supported'')))
      else
        (case meta_data colChunk of
           None \<Rightarrow> io_pure (Some (Inl (TypeError ''meta_data is undefined'')))
         | Some md \<Rightarrow>
             io_bind (io_read er (cm_data_page_offset md) (cm_total_compressed_size md))
               (\<lambda>pagesBuf. io_pure (decodeColumnChunk lib sch colChunk pagesBuf))))"

text \<open>\<open>colKey.join()\<close>: the names of the path, separated by commas.\<close>

fun join_comma :: "string list \<Rightarrow> string" where
  "join_comma [] = []"
| "join_comma [x] = x"
| "join_comma (x # y # ys) = x @ '','' @ join_comma (y # ys)"

text \<open>\<open>readRowGroup\<close>: the loop over the column chunks of the row group.\<close>

fun readRowGroup_loop ::
  "('s, 'r) Imports \<Rightarrow> ParquetEnvelopeReader \<Rightarrow> 's \<Rightarrow> string list list \<Rightarrow> ColumnChunk list
     \<Rightarrow> ParquetReadBuffer \<Rightarrow> ParquetReadBuffer io" where
  "readRowGroup_loop lib er sch columnList [] buffer = io_pure (Some (Inr buffer))"
| "readRowGroup_loop lib er sch columnList (colChunk # rest) buffer =
     (case meta_data colChunk of
        None \<Rightarrow> io_pure (Some (Inl (TypeError ''meta_data is undefined'')))
      | Some colMetadata \<Rightarrow>
          if length columnList > 0
             \<and> fieldIndexOf lib columnList (cm_path_in_schema colMetadata) < 0
          then readRowGroup_loop lib er sch columnList rest buffer
          else
            io_bind (readColumnChunk lib er sch colChunk)
              (\<lambda>data. readRowGroup_loop lib er sch columnList rest
                 (buffer\<lparr>columnData :=
                    object_set (join_comma (cm_path_in_schema colMetadata)) data
                      (columnData buffer)\<rparr>)))"

definition readRowGroup ::
  "('s, 'r) Imports \<Rightarrow> ParquetEnvelopeReader \<Rightarrow> 's \<Rightarrow> RowGroup \<Rightarrow> string list list
     \<Rightarrow> ParquetReadBuffer io" where
  "readRowGroup lib er sch rowGroup columnList =
     readRowGroup_loop lib er sch columnList (rg_columns rowGroup)
       \<lparr>rowCount = rg_num_rows rowGroup, columnData = []\<rparr>"

text \<open>
  \<open>ParquetEnvelopeBufferReader\<close>, the synchronous reader over a buffer. Its \<open>read\<close> is
  \<open>buffer.slice\<close>.
\<close>

record ParquetEnvelopeBufferReader =
  ebr_buffer :: Buffer

definition ebr_read :: "ParquetEnvelopeBufferReader \<Rightarrow> int \<Rightarrow> int \<Rightarrow> Buffer io" where
  "ebr_read er offset len =
     (Some (Inr (Buffer_slice (ebr_buffer er) offset (offset + len))), [(offset, len)])"

definition ebr_readHeader :: "ParquetEnvelopeBufferReader \<Rightarrow> unit io" where
  "ebr_readHeader er =
     io_bind (ebr_read er 0 (int (length PARQUET_MAGIC)))
       (\<lambda>buf. if \<not> toString_is buf PARQUET_MAGIC
               then io_pure (Some (Inl (Error ''not valid parquet file'')))
               else io_pure (Some (Inr ())))"

definition ebr_readFooter ::
  "('s, 'r) Imports \<Rightarrow> ParquetEnvelopeBufferReader \<Rightarrow> FileMetaData io" where
  "ebr_readFooter lib er =
     (let trailerLen = int (length PARQUET_MAGIC) + 4 in
      io_bind (ebr_read er (int (length (ebr_buffer er)) - trailerLen) trailerLen)
        (\<lambda>trailerBuf.
           if \<not> toString_is (Buffer_slice_from trailerBuf 4) PARQUET_MAGIC
           then io_pure (Some (Inl (Error ''not a valid parquet file'')))
           else
             (case readUInt32LE0 trailerBuf of
                Inl e \<Rightarrow> io_pure (Some (Inl e))
              | Inr metadataSize \<Rightarrow>
                  let metadataOffset =
                        int (length (ebr_buffer er)) - metadataSize - trailerLen in
                  if metadataOffset < int (length PARQUET_MAGIC)
                  then io_pure (Some (Inl (Error ''invalid metadata size'')))
                  else
                    io_bind (ebr_read er metadataOffset metadataSize)
                      (\<lambda>metadataBuf. io_pure (Some (decodeFileMetadata lib metadataBuf))))))"

definition ebr_readColumnChunk ::
  "('s, 'r) Imports \<Rightarrow> ParquetEnvelopeBufferReader \<Rightarrow> 's \<Rightarrow> ColumnChunk
     \<Rightarrow> ParquetReadData io" where
  "ebr_readColumnChunk lib er sch colChunk =
     (if file_path colChunk \<noteq> None
      then io_pure (Some (Inl (Error ''external references are not supported'')))
      else
        (case meta_data colChunk of
           None \<Rightarrow> io_pure (Some (Inl (TypeError ''meta_data is undefined'')))
         | Some md \<Rightarrow>
             io_bind (ebr_read er (cm_data_page_offset md) (cm_total_compressed_size md))
               (\<lambda>pagesBuf. io_pure (decodeColumnChunk lib sch colChunk pagesBuf))))"

subsection \<open>The readers\<close>

text \<open>
  The constructor of \<open>ParquetReader\<close>. \<open>metadata.schema[0]\<close> of an empty schema list is
  \<open>undefined\<close>, and reading its \<open>num_children\<close> throws.
\<close>

record 's ParquetReader =
  pr_metadata :: FileMetaData
  pr_envelopeReader :: ParquetEnvelopeReader
  pr_schema :: 's

definition decode_file_schema :: "('s, 'r) Imports \<Rightarrow> FileMetaData \<Rightarrow> 's outcome" where
  "decode_file_schema lib metadata =
     (case schema metadata of
        [] \<Rightarrow> Some (Inl (TypeError ''root is undefined''))
      | root # _ \<Rightarrow>
          (case decodeSchema lib (schema metadata) 1 (num_children root) of
             None \<Rightarrow> None
           | Some (Inl e) \<Rightarrow> Some (Inl e)
           | Some (Inr (sch, _)) \<Rightarrow> Some (new_ParquetSchema lib sch)))"

definition new_ParquetReader ::
  "('s, 'r) Imports \<Rightarrow> FileMetaData \<Rightarrow> ParquetEnvelopeReader \<Rightarrow> 's ParquetReader outcome"
where
  "new_ParquetReader lib metadata envelopeReader =
     (if version metadata \<noteq> PARQUET_VERSION then
        Some (Inl (Error ''invalid parquet version''))
      else
        (case decode_file_schema lib metadata of
           None \<Rightarrow> None
         | Some (Inl e) \<Rightarrow> Some (Inl e)
         | Some (Inr ps) \<Rightarrow>
             Some (Inr \<lparr>pr_metadata = metadata, pr_envelopeReader = envelopeReader,
                        pr_schema = ps\<rparr>)))"

text \<open>
  The body \<open>openFile\<close> and \<open>openBuffer\<close> share once the envelope reader is there: read
  the header, read the footer, construct the reader; on an exception close the
  envelope reader and throw again (if \<open>close\<close> itself rejects, that is what is thrown).
\<close>

definition open_with ::
  "('s, 'r) Imports \<Rightarrow> ParquetEnvelopeReader \<Rightarrow> 's ParquetReader io" where
  "open_with lib envelopeReader =
     (case io_bind (readHeader envelopeReader)
             (\<lambda>_. io_bind (readFooter lib envelopeReader)
                (\<lambda>metadata. io_pure (new_ParquetReader lib metadata envelopeReader))) of
        (Some (Inl err), t) \<Rightarrow>
          (case er_close envelopeReader of
             Some err' \<Rightarrow> (Some (Inl err'), t)
           | None \<Rightarrow> (Some (Inl err), t))
      | (r, t) \<Rightarrow> (r, t))"

definition ParquetReader_openFile :: "('s, 'r) Imports \<Rightarrow> string \<Rightarrow> 's ParquetReader io" where
  "ParquetReader_openFile lib filePath =
     (case ParquetEnvelopeReader_openFile lib filePath of
        Inl e \<Rightarrow> io_pure (Some (Inl e))
      | Inr envelopeReader \<Rightarrow> open_with lib envelopeReader)"

definition ParquetReader_openBuffer :: "('s, 'r) Imports \<Rightarrow> Buffer \<Rightarrow> 's ParquetReader io" where
  "ParquetReader_openBuffer lib buffer =
     open_with lib (ParquetEnvelopeReader_openBuffer buffer)"

definition getSchema :: "'s ParquetReader \<Rightarrow> 's" where
  "getSchema reader = pr_schema reader"

text \<open>The constructor of \<open>ParquetBufferReader\<close>, the synchronous reader.\<close>

record 's ParquetBufferReader =
  pbr_buffer :: Buffer
  pbr_envelopeReader :: ParquetEnvelopeBufferReader
  pbr_metadata :: FileMetaData
  pbr_schema :: 's

definition new_ParquetBufferReader ::
  "('s, 'r) Imports \<Rightarrow> Buffer \<Rightarrow> 's ParquetBufferReader io" where
  "new_ParquetBufferReader lib buffer =
     io_bind (ebr_readFooter lib \<lparr>ebr_buffer = buffer\<rparr>)
       (\<lambda>metadata.
          io_pure
            (if version metadata \<noteq> PARQUET_VERSION then
               Some (Inl (Error ''invalid parquet version''))
             else
               (case decode_file_schema lib metadata of
                  None \<Rightarrow> None
                | Some (Inl e) \<Rightarrow> Some (Inl e)
                | Some (Inr ps) \<Rightarrow>
                    Some (Inr \<lparr>pbr_buffer = buffer,
                               pbr_envelopeReader = \<lparr>ebr_buffer = buffer\<rparr>,
                               pbr_metadata = metadata, pbr_schema = ps\<rparr>))))"

definition ParquetBufferReader_openBuffer ::
  "('s, 'r) Imports \<Rightarrow> Buffer \<Rightarrow> 's ParquetBufferReader io" where
  "ParquetBufferReader_openBuffer lib buffer = new_ParquetBufferReader lib buffer"

definition pbr_getSchema :: "'s ParquetBufferReader \<Rightarrow> 's" where
  "pbr_getSchema reader = pbr_schema reader"

subsection \<open>The cursor and its asynchronous iterator\<close>

text \<open>
  What \<open>cursor.next()\<close> resolves to: \<open>null\<close>, a row, or \<open>undefined\<close> (the element past the
  end of an array).
\<close>

datatype 'r row = Null | Undefined | Row 'r

record ('s, 'r) ParquetCursor =
  c_metadata :: FileMetaData
  c_envelopeReader :: ParquetEnvelopeReader
  c_schema :: 's
  c_columnList :: "string list list"
  rowGroup :: "'r list"
  rowGroupIndex :: nat
  cursorIndex :: nat

definition new_ParquetCursor ::
  "FileMetaData \<Rightarrow> ParquetEnvelopeReader \<Rightarrow> 's \<Rightarrow> string list list
     \<Rightarrow> ('s, 'r) ParquetCursor" where
  "new_ParquetCursor metadata envelopeReader sch columnList =
     \<lparr>c_metadata = metadata, c_envelopeReader = envelopeReader, c_schema = sch,
      c_columnList = columnList, rowGroup = [], rowGroupIndex = 0, cursorIndex = 0\<rparr>"

text \<open>
  \<open>getCursor(columnList?)\<close>: a missing list is the empty list, and a column given by its
  name is the path of that one name.
\<close>

definition getCursor ::
  "'s ParquetReader \<Rightarrow> (string + string list) list option \<Rightarrow> ('s, 'r) ParquetCursor" where
  "getCursor reader columnList =
     new_ParquetCursor (pr_metadata reader) (pr_envelopeReader reader) (pr_schema reader)
       (map (\<lambda>x. case x of Inl name \<Rightarrow> [name] | Inr path \<Rightarrow> path)
          (case columnList of None \<Rightarrow> [] | Some l \<Rightarrow> l))"

text \<open>\<open>this.rowGroup[this.cursorIndex++]\<close>.\<close>

definition take_row :: "('s, 'r) ParquetCursor \<Rightarrow> 'r row outcome \<times> ('s, 'r) ParquetCursor" where
  "take_row c =
     (Some (Inr (if cursorIndex c < length (rowGroup c)
                 then Row (rowGroup c ! cursorIndex c) else Undefined)),
      c\<lparr>cursorIndex := cursorIndex c + 1\<rparr>)"

text \<open>
  \<open>ParquetCursor.next()\<close>: the outcome and the cursor after the call. The cursor is
  only assigned to once the row group has been read and materialized.
\<close>

definition ParquetCursor_next ::
  "('s, 'r) Imports \<Rightarrow> ('s, 'r) ParquetCursor
     \<Rightarrow> 'r row outcome \<times> ('s, 'r) ParquetCursor" where
  "ParquetCursor_next lib c =
     (if cursorIndex c \<ge> length (rowGroup c) then
        (if rowGroupIndex c \<ge> length (row_groups (c_metadata c)) then
           (Some (Inr Null), c)
         else
           (case fst (readRowGroup lib (c_envelopeReader c) (c_schema c)
                        (row_groups (c_metadata c) ! rowGroupIndex c) (c_columnList c)) of
              None \<Rightarrow> (None, c)
            | Some (Inl e) \<Rightarrow> (Some (Inl e), c)
            | Some (Inr rowBuffer) \<Rightarrow>
                (case Shred_materializeRecords lib (c_schema c) rowBuffer of
                   Inl e \<Rightarrow> (Some (Inl e), c)
                 | Inr rows \<Rightarrow>
                     take_row (c\<lparr>rowGroup := rows,
                                 rowGroupIndex := rowGroupIndex c + 1,
                                 cursorIndex := 0\<rparr>))))
      else take_row c)"

definition rewind :: "('s, 'r) ParquetCursor \<Rightarrow> ('s, 'r) ParquetCursor" where
  "rewind c = c\<lparr>rowGroup := [], rowGroupIndex := 0\<rparr>"

text \<open>
  The object \<open>[Symbol.asyncIterator]()\<close> returns: its three methods share the variable
  \<open>done\<close> and the cursor. A method returns an iterator result \<open>{done, value}\<close>.
\<close>

record 'r IteratorResult =
  ir_done :: bool
  ir_value :: "'r row"

record ('s, 'r) CursorIterator =
  it_done :: bool
  it_cursor :: "('s, 'r) ParquetCursor"

definition asyncIterator :: "('s, 'r) ParquetCursor \<Rightarrow> ('s, 'r) CursorIterator" where
  "asyncIterator c = \<lparr>it_done = False, it_cursor = c\<rparr>"

definition it_next ::
  "('s, 'r) Imports \<Rightarrow> ('s, 'r) CursorIterator
     \<Rightarrow> 'r IteratorResult outcome \<times> ('s, 'r) CursorIterator" where
  "it_next lib it =
     (if it_done it then (Some (Inr \<lparr>ir_done = it_done it, ir_value = Null\<rparr>), it)
      else
        (case ParquetCursor_next lib (it_cursor it) of
           (None, c) \<Rightarrow> (None, it\<lparr>it_cursor := c\<rparr>)
         | (Some (Inl e), c) \<Rightarrow> (Some (Inl e), it\<lparr>it_cursor := c\<rparr>)
         | (Some (Inr v), c) \<Rightarrow>
             if v = Null
             then (Some (Inr \<lparr>ir_done = True, ir_value = v\<rparr>), it\<lparr>it_cursor := c\<rparr>)
             else (Some (Inr \<lparr>ir_done = False, ir_value = v\<rparr>), it\<lparr>it_cursor := c\<rparr>)))"

definition it_return ::
  "('s, 'r) CursorIterator \<Rightarrow> 'r IteratorResult outcome \<times> ('s, 'r) CursorIterator" where
  "it_return it = (Some (Inr \<lparr>ir_done = True, ir_value = Null\<rparr>), it\<lparr>it_done := True\<rparr>)"

definition it_throw ::
  "('s, 'r) CursorIterator \<Rightarrow> 'r IteratorResult outcome \<times> ('s, 'r) CursorIterator" where
  "it_throw it = (Some (Inr \<lparr>ir_done = True, ir_value = Null\<rparr>), it\<lparr>it_done := True\<rparr>)"

text \<open>A step of a consumer of the iterator: one of its three methods.\<close>

datatype it_call = Next | Return | Throw

fun it_step ::
  "('s, 'r) Imports \<Rightarrow> it_call \<Rightarrow> ('s, 'r) CursorIterator
     \<Rightarrow> 'r IteratorResult outcome \<times> ('s, 'r) CursorIterator" where
  "it_step lib Next it = it_next lib it"
| "it_step lib Return it = it_return it"
| "it_step lib Throw it = it_throw it"

text \<open>The outcomes of a sequence of calls of the iterator, in order.\<close>

fun it_steps ::
  "('s, 'r) Imports \<Rightarrow> it_call list \<Rightarrow> ('s, 'r) CursorIterator
     \<Rightarrow> 'r IteratorResult outcome list" where
  "it_steps lib [] it = []"
| "it_steps lib (call # calls) it =
     fst (it_step lib call it) # it_steps lib calls (snd (it_step lib call it))"

text \<open>The outcomes of \<open>n\<close> successive calls of \<open>cursor.next()\<close>.\<close>

fun next_calls ::
  "('s, 'r) Imports \<Rightarrow> nat \<Rightarrow> ('s, 'r) ParquetCursor \<Rightarrow> 'r row outcome list" where
  "next_calls lib 0 c = []"
| "next_calls lib (Suc n) c =
     fst (ParquetCursor_next lib c) # next_calls lib n (snd (ParquetCursor_next lib c))"

text \<open>
  What the iterator makes of an outcome of \<open>cursor.next()\<close>: \<open>null\<close> ends the iteration,
  anything else is yielded.
\<close>

definition yielded :: "'r row outcome \<Rightarrow> 'r IteratorResult outcome" where
  "yielded out =
     (case out of
        None \<Rightarrow> None
      | Some (Inl e) \<Rightarrow> Some (Inl e)
      | Some (Inr v) \<Rightarrow> Some (Inr \<lparr>ir_done = (v = Null), ir_value = v\<rparr>))"

text \<open>
  A cursor is exhausted when it has handed out the last row of its last row group.
\<close>

definition exhausted :: "('s, 'r) ParquetCursor \<Rightarrow> bool" where
  "exhausted c =
     (cursorIndex c \<ge> length (rowGroup c)
      \<and> rowGroupIndex c \<ge> length (row_groups (c_metadata c)))"

section \<open>Schema, shredder and assembler\<close>

text \<open>
  The schema class, the shredder and the assembler (\<open>src/schema.ts\<close>, \<open>src/shred.ts\<close>)
  are not among the sources of this development; only their tests are. The definitions
  of this section follow the specification's sections 3, 4.1, 4.2 and 4.3, and each says
  so.
\<close>

subsection \<open>Schema construction\<close>

datatype repetition = REQUIRED | OPTIONAL | REPEATED

text \<open>
  Modelled from the spec: the schema node of \<open>src/schema.ts\<close> (section 3). A node is a leaf
  with its type or a group with its children; both carry the name, the repetition and
  the derived \<open>rLevelMax\<close> and \<open>dLevelMax\<close>. The path of a node is the list of the names
  from the root down to it.
\<close>

datatype node =
    Leaf (nname: string) (nrep: repetition) (rmax: nat) (dmax: nat) (ptype: string)
  | Group (nname: string) (nrep: repetition) (rmax: nat) (dmax: nat) (children: "node list")

text \<open>Modelled from the spec: the error kinds of section 7.\<close>

datatype error_kind = SchemaMismatch | CorruptStream | Unsupported | IO | InvalidConfig

type_synonym ParquetSchema = "node list"

text \<open>Modelled from the spec: the recognized primitive types (section 6).\<close>

definition primitive_types :: "string list" where
  "primitive_types =
     [''BOOLEAN'', ''INT32'', ''INT64'', ''INT96'', ''FLOAT'', ''DOUBLE'',
      ''BYTE_ARRAY'', ''FIXED_LEN_BYTE_ARRAY'']"

text \<open>Modelled from the spec: the recognized logical types (section 6).\<close>

definition logical_types :: "string list" where
  "logical_types =
     [''UTF8'', ''DATE'', ''TIMESTAMP_MICROS'', ''TIMESTAMP_MILLIS'', ''INTERVAL'', ''BSON'']"

text \<open>
  Modelled from the spec: the repetition of a field description (section 4.1). A field
  that sets both flags behaves as \<open>REPEATED\<close>.
\<close>

definition repetition_of :: "bool \<Rightarrow> bool \<Rightarrow> repetition" where
  "repetition_of opt rep = (if rep then REPEATED else if opt then OPTIONAL else REQUIRED)"

text \<open>
  Modelled from the spec: the errors of schema construction for a leaf (section 4.1): an
  unknown type, and a missing \<open>typeLength\<close> for \<open>FIXED_LEN_BYTE_ARRAY\<close> or \<open>INTERVAL\<close>.
\<close>

definition check_leaf :: "string option \<Rightarrow> int option \<Rightarrow> error_kind + string" where
  "check_leaf ty tlen =
     (case ty of
        None \<Rightarrow> Inl InvalidConfig
      | Some t \<Rightarrow>
          if t \<notin> set primitive_types \<and> t \<notin> set logical_types then Inl InvalidConfig
          else if (t = ''FIXED_LEN_BYTE_ARRAY'' \<or> t = ''INTERVAL'') \<and> tlen = None
          then Inl InvalidConfig
          else Inr t)"

text \<open>
  Modelled from the spec: schema construction of \<open>src/schema.ts\<close> (sections 3 and 4.1).
  \<open>rLevelMax\<close> counts the \<open>REPEATED\<close> nodes among a node and its ancestors, \<open>dLevelMax\<close>
  those that are \<open>OPTIONAL\<close> or \<open>REPEATED\<close>; a name used twice at one level is an error.
\<close>

fun buildField :: "string \<Rightarrow> FieldDefinition \<Rightarrow> nat \<Rightarrow> nat \<Rightarrow> error_kind + node"
and buildFields :: "(string \<times> FieldDefinition) list \<Rightarrow> nat \<Rightarrow> nat \<Rightarrow> error_kind + node list"
where
  "buildField name (FieldDefinition ty tlen opt rep None) r d =
     (case check_leaf ty tlen of
        Inl e \<Rightarrow> Inl e
      | Inr t \<Rightarrow>
          Inr (Leaf name (repetition_of opt rep)
                 (if repetition_of opt rep = REPEATED then r + 1 else r)
                 (if repetition_of opt rep = REQUIRED then d else d + 1) t))"
| "buildField name (FieldDefinition ty tlen opt rep (Some fs)) r d =
     (case buildFields fs
             (if repetition_of opt rep = REPEATED then r + 1 else r)
             (if repetition_of opt rep = REQUIRED then d else d + 1) of
        Inl e \<Rightarrow> Inl e
      | Inr ch \<Rightarrow>
          Inr (Group name (repetition_of opt rep)
                 (if repetition_of opt rep = REPEATED then r + 1 else r)
                 (if repetition_of opt rep = REQUIRED then d else d + 1) ch))"
| "buildFields [] r d = Inr []"
| "buildFields ((name, fd) # rest) r d =
     (case buildField name fd r d of
        Inl e \<Rightarrow> Inl e
      | Inr x \<Rightarrow>
          (case buildFields rest r d of
             Inl e \<Rightarrow> Inl e
           | Inr xs \<Rightarrow>
               if name \<in> set (map nname xs) then Inl InvalidConfig else Inr (x # xs)))"

text \<open>Modelled from the spec: the constructor of \<open>ParquetSchema\<close> (section 4.1).\<close>

definition buildSchema :: "SchemaDefinition \<Rightarrow> error_kind + ParquetSchema" where
  "buildSchema defn = buildFields defn 0 0"

text \<open>
  Modelled from the spec: the flat list of leaves in depth-first declaration order
  (section 4.1). A leaf is given by its branch: the nodes from a top-level field down
  to the leaf.
\<close>

fun branches :: "node \<Rightarrow> node list list" where
  "branches (Leaf n rep r d t) = [[Leaf n rep r d t]]"
| "branches (Group n rep r d ch) = map ((#) (Group n rep r d ch)) (concat (map branches ch))"

text \<open>Modelled from the spec: the leaf list of a schema (section 4.1).\<close>

definition fieldList :: "ParquetSchema \<Rightarrow> node list list" where
  "fieldList sch = concat (map branches sch)"

subsection \<open>Records and column streams\<close>

text \<open>
  Modelled from the spec: a record as the shredder receives it (section 4.2): \<open>null\<close> or
  \<open>undefined\<close>, a primitive value, an array, or an object from names to values. The
  conversion between a logical value and its primitive representation is not
  modelled: a column holds the leaf values of the records as they are.
\<close>

datatype 'v jsval = Nul | Prim 'v | Arr "'v jsval list" | Obj "(string \<times> 'v jsval) list"

text \<open>
  Modelled from the spec: one emitted position of a column (section 3): its definition
  level, its repetition level and, where the leaf is defined, its value.
\<close>

type_synonym 'v entry = "nat \<times> nat \<times> 'v option"

text \<open>Modelled from the spec: the column stream of section 3.\<close>

record 'v ColumnStream =
  cs_values :: "'v list"
  cs_dLevels :: "nat list"
  cs_rLevels :: "nat list"
  cs_count :: nat

text \<open>
  Modelled from the spec: the write buffer of \<open>src/shred.ts\<close> (sections 3 and 4.2): the
  row count and one column stream per leaf, keyed by the path of the leaf.
\<close>

record 'v ParquetWriteBuffer =
  wb_rowCount :: nat
  wb_columnData :: "(string list \<times> 'v ColumnStream) list"

text \<open>Modelled from the spec: a fresh write buffer (section 3), every stream empty.\<close>

definition new_ParquetWriteBuffer :: "ParquetSchema \<Rightarrow> 'v ParquetWriteBuffer" where
  "new_ParquetWriteBuffer sch =
     \<lparr>wb_rowCount = 0,
      wb_columnData =
        map (\<lambda>b. (map nname b,
                   \<lparr>cs_values = [], cs_dLevels = [], cs_rLevels = [], cs_count = 0\<rparr>))
          (fieldList sch)\<rparr>"

subsection \<open>The shredder\<close>

text \<open>
  Modelled from the spec: the values of a field in a container (section 4.2 and the
  open questions of section 9). An absent container has none; an absent or null field
  has none, which is a \<open>SchemaMismatch\<close> for a required field of a present container;
  an array is the list of its elements and a \<open>SchemaMismatch\<close> for a field that is not
  repeated; any other value is the one value of the field, also for a repeated field.
\<close>

definition field_values :: "node \<Rightarrow> 'v jsval \<Rightarrow> error_kind + 'v jsval list" where
  "field_values f container =
     (case container of
        Nul \<Rightarrow> Inr []
      | Obj kvs \<Rightarrow>
          (case map_of kvs (nname f) of
             None \<Rightarrow> if nrep f = REQUIRED then Inl SchemaMismatch else Inr []
           | Some Nul \<Rightarrow> if nrep f = REQUIRED then Inl SchemaMismatch else Inr []
           | Some (Arr xs) \<Rightarrow> if nrep f = REPEATED then Inr xs else Inl SchemaMismatch
           | Some v \<Rightarrow> Inr [v])
      | _ \<Rightarrow> Inl SchemaMismatch)"

text \<open>
  Modelled from the spec: the emissions of the parts of a walk, one after the other; the
  first failure is the failure of the walk (section 4.2).
\<close>

fun collect :: "(error_kind + 'a list) list \<Rightarrow> error_kind + 'a list" where
  "collect [] = Inr []"
| "collect (x # xs) =
     (case x of
        Inl e \<Rightarrow> Inl e
      | Inr a \<Rightarrow> (case collect xs of Inl e \<Rightarrow> Inl e | Inr b \<Rightarrow> Inr (a @ b)))"

text \<open>
  Modelled from the spec: the emission of a defined leaf value (section 4.2, rules 1 and
  2); a leaf value that is not primitive is a \<open>SchemaMismatch\<close>.
\<close>

definition leaf_entry :: "nat \<Rightarrow> nat \<Rightarrow> 'v jsval \<Rightarrow> error_kind + 'v entry list" where
  "leaf_entry d r x = (case x of Prim p \<Rightarrow> Inr [(d, r, Some p)] | _ \<Rightarrow> Inl SchemaMismatch)"

text \<open>
  Modelled from the spec: the walk down the path of one leaf (section 4.2). \<open>r\<close> is the
  repetition level inherited from the outer context, \<open>d\<close> the definition level of the
  deepest node entered so far. A node without values gives one placeholder at \<open>(d, r)\<close>
  (rules 3 and 4). The first value of a node is walked with the inherited \<open>r\<close>, every
  further one with the \<open>rLevelMax\<close> of the node; below a value, \<open>d\<close> is the \<open>dLevelMax\<close> of
  the node (rules 1 and 2).
\<close>

fun shredBranch :: "node list \<Rightarrow> 'v jsval \<Rightarrow> nat \<Rightarrow> nat \<Rightarrow> error_kind + 'v entry list" where
  "shredBranch [] container r d = Inr []"
| "shredBranch (Leaf n rep rm dm t # rest) container r d =
     (case field_values (Leaf n rep rm dm t) container of
        Inl e \<Rightarrow> Inl e
      | Inr [] \<Rightarrow> Inr [(d, r, None)]
      | Inr (x # xs) \<Rightarrow> collect (leaf_entry dm r x # map (leaf_entry dm rm) xs))"
| "shredBranch (Group n rep rm dm ch # rest) container r d =
     (case field_values (Group n rep rm dm ch) container of
        Inl e \<Rightarrow> Inl e
      | Inr [] \<Rightarrow> shredBranch rest Nul r d
      | Inr (x # xs) \<Rightarrow>
          collect (shredBranch rest x r dm # map (\<lambda>y. shredBranch rest y rm dm) xs))"

text \<open>
  Modelled from the spec: appending the emissions of one record to a column stream
  (sections 3 and 4.2): a value for every position at \<open>dLevelMax\<close>, a level pair for
  every position.
\<close>

definition append_entries :: "'v entry list \<Rightarrow> 'v ColumnStream \<Rightarrow> 'v ColumnStream" where
  "append_entries es col =
     \<lparr>cs_values = cs_values col @ List.map_filter (\<lambda>(d, r, v). v) es,
      cs_dLevels = cs_dLevels col @ map (\<lambda>(d, r, v). d) es,
      cs_rLevels = cs_rLevels col @ map (\<lambda>(d, r, v). r) es,
      cs_count = cs_count col + length es\<rparr>"

text \<open>
  Modelled from the spec: the leaves of a record, processed in schema order (section
  4.2); a failure on any leaf fails the record.
\<close>

fun shredLeaves ::
  "node list list \<Rightarrow> 'v jsval \<Rightarrow> error_kind + (string list \<times> 'v entry list) list" where
  "shredLeaves [] record = Inr []"
| "shredLeaves (b # bs) record =
     (case shredBranch b record 0 0 of
        Inl e \<Rightarrow> Inl e
      | Inr es \<Rightarrow>
          (case shredLeaves bs record of
             Inl e \<Rightarrow> Inl e
           | Inr rest \<Rightarrow> Inr ((map nname b, es) # rest)))"

text \<open>
  Modelled from the spec: \<open>shredRecord(schema, record, buffer)\<close> of \<open>src/shred.ts\<close> (section
  4.2): it appends the record's contribution to every leaf column and increments the
  row count by one; a record that fails leaves no buffer.
\<close>

definition shredRecord ::
  "ParquetSchema \<Rightarrow> 'v jsval \<Rightarrow> 'v ParquetWriteBuffer \<Rightarrow> error_kind + 'v ParquetWriteBuffer"
where
  "shredRecord sch record buffer =
     (case shredLeaves (fieldList sch) record of
        Inl e \<Rightarrow> Inl e
      | Inr shredded \<Rightarrow>
          Inr \<lparr>wb_rowCount = wb_rowCount buffer + 1,
               wb_columnData =
                 map (\<lambda>(path, col).
                        (path, case map_of shredded path of
                                 None \<Rightarrow> col
                               | Some es \<Rightarrow> append_entries es col))
                   (wb_columnData buffer)\<rparr>)"

text \<open>
  Modelled from the spec: shredding the records of a sequence in order into one buffer
  (section 8, invariant 1: \<open>shred(S, [R_1, ..., R_n])\<close>).
\<close>

fun shredRecords ::
  "ParquetSchema \<Rightarrow> 'v jsval list \<Rightarrow> 'v ParquetWriteBuffer \<Rightarrow> error_kind + 'v ParquetWriteBuffer"
where
  "shredRecords sch [] buffer = Inr buffer"
| "shredRecords sch (record # records) buffer =
     (case shredRecord sch record buffer of
        Inl e \<Rightarrow> Inl e
      | Inr buffer' \<Rightarrow> shredRecords sch records buffer')"

subsection \<open>The assembler\<close>

text \<open>
  Modelled from the spec: reading the positions of a column stream (section 4.3): a
  position at \<open>dLevelMax\<close> consumes one value. A level above its maximum, a position
  without its value, a value left over and streams of different lengths are a
  \<open>CorruptStream\<close>.
\<close>

fun entries_of ::
  "nat \<Rightarrow> nat \<Rightarrow> nat list \<Rightarrow> nat list \<Rightarrow> 'v list \<Rightarrow> error_kind + 'v entry list" where
  "entries_of dm rm [] [] [] = Inr []"
| "entries_of dm rm (d # ds) (r # rs) vs =
     (if d > dm \<or> r > rm then Inl CorruptStream
      else if d = dm then
        (case vs of
           [] \<Rightarrow> Inl CorruptStream
         | v # vs' \<Rightarrow>
             (case entries_of dm rm ds rs vs' of
                Inl e \<Rightarrow> Inl e
              | Inr es \<Rightarrow> Inr ((d, r, Some v) # es)))
      else
        (case entries_of dm rm ds rs vs of
           Inl e \<Rightarrow> Inl e
         | Inr es \<Rightarrow> Inr ((d, r, None) # es)))"
| "entries_of dm rm ds rs vs = Inl CorruptStream"

text \<open>
  Modelled from the spec: the rows of a column (sections 3 and 4.3): a row starts at
  each position with \<open>rLevel = 0\<close> and runs until the next one. The first component holds
  the positions before the first row start.
\<close>

fun split_rows :: "'v entry list \<Rightarrow> 'v entry list \<times> 'v entry list list" where
  "split_rows [] = ([], [])"
| "split_rows ((d, r, v) # es) =
     (case split_rows es of
        (pending, rows) \<Rightarrow>
          if r = 0 then ([], ((d, r, v) # pending) # rows)
          else ((d, r, v) # pending, rows))"

text \<open>
  Modelled from the spec: the rows of a column, a \<open>CorruptStream\<close> when the column does
  not start with a row start (section 4.3).
\<close>

definition rows_of :: "'v entry list \<Rightarrow> error_kind + 'v entry list list" where
  "rows_of es =
     (case split_rows es of
        ([], rows) \<Rightarrow> Inr rows
      | _ \<Rightarrow> Inl CorruptStream)"

text \<open>
  Modelled from the spec: the position of a pair among the arrays of its repeated
  ancestors (section 4.3). The consumer keeps one counter per repetition level. A pair
  with level \<open>r\<close> continues the arrays of the ancestors with \<open>rLevelMax \<le> r\<close>, with a new
  element in the array at level \<open>r\<close>, and starts new arrays at the ancestors with
  \<open>rLevelMax > r\<close>: the counter at \<open>r\<close> goes up by one, the counters above \<open>r\<close> go back to 0.
\<close>

definition bump :: "nat list \<Rightarrow> nat \<Rightarrow> nat list" where
  "bump cs r = take r cs @ [cs ! r + 1] @ replicate (length cs - r - 1) 0"

text \<open>Modelled from the spec: an array extended to a given length (section 4.3).\<close>

definition pad :: "nat \<Rightarrow> 'a \<Rightarrow> 'a list \<Rightarrow> 'a list" where
  "pad n x xs = xs @ replicate (n - length xs) x"

text \<open>Modelled from the spec: the array under a name, empty when there is none (section 4.3).\<close>

definition array_at :: "(string \<times> 'v jsval) list \<Rightarrow> string \<Rightarrow> 'v jsval list" where
  "array_at kvs name = (case map_of kvs name of Some (Arr xs) \<Rightarrow> xs | _ \<Rightarrow> [])"

text \<open>Modelled from the spec: the object under a name, empty when there is none (section 4.3).\<close>

definition object_at :: "(string \<times> 'v jsval) list \<Rightarrow> string \<Rightarrow> 'v jsval" where
  "object_at kvs name = (case map_of kvs name of Some v \<Rightarrow> v | None \<Rightarrow> Obj [])"

text \<open>Modelled from the spec: the value placed for a position (section 4.3).\<close>

definition prim_of :: "'v option \<Rightarrow> 'v jsval" where
  "prim_of v = (case v of Some p \<Rightarrow> Prim p | None \<Rightarrow> Nul)"

text \<open>
  Modelled from the spec: placing one pair (section 4.3): descend the schema from the
  root along the branch of the leaf; \<open>idx\<close> holds the array position at each repeated
  node of the branch. At a node whose \<open>dLevelMax\<close> is above the definition level of the
  pair nothing is placed and the subtree stays absent (the canonicalization of section
  9: an empty repeated container is assembled as absent).
\<close>

fun place :: "node list \<Rightarrow> nat list \<Rightarrow> nat \<Rightarrow> 'v option \<Rightarrow> 'v jsval \<Rightarrow> 'v jsval" where
  "place [] idx d v rec = rec"
| "place (Leaf n rep rm dm t # rest) idx d v rec =
     (if d < dm then rec
      else
        (case rec of
           Obj kvs \<Rightarrow>
             if rep = REPEATED then
               (case idx of
                  [] \<Rightarrow> rec
                | i # idx' \<Rightarrow>
                    Obj (AList.update n
                           (Arr ((pad (i + 1) Nul (array_at kvs n))[i := prim_of v])) kvs))
             else Obj (AList.update n (prim_of v) kvs)
         | _ \<Rightarrow> rec))"
| "place (Group n rep rm dm ch # rest) idx d v rec =
     (if d < dm then rec
      else
        (case rec of
           Obj kvs \<Rightarrow>
             if rep = REPEATED then
               (case idx of
                  [] \<Rightarrow> rec
                | i # idx' \<Rightarrow>
                    Obj (AList.update n
                           (Arr ((pad (i + 1) (Obj []) (array_at kvs n))
                                   [i := place rest idx' d v
                                           (pad (i + 1) (Obj []) (array_at kvs n) ! i)]))
                           kvs))
             else Obj (AList.update n (place rest idx d v (object_at kvs n)) kvs)
         | _ \<Rightarrow> rec))"

text \<open>
  Modelled from the spec: placing the pairs of one row of one leaf, in order (section
  4.3). The counter at level 0 counts the rows; the array positions are the counters
  above it.
\<close>

fun place_all :: "node list \<Rightarrow> nat list \<Rightarrow> 'v entry list \<Rightarrow> 'v jsval \<Rightarrow> 'v jsval" where
  "place_all b cs [] rec = rec"
| "place_all b cs ((d, r, v) # es) rec =
     place_all b (bump cs r) es (place b (tl (bump cs r)) d v rec)"

text \<open>
  Modelled from the spec: the rows of the stream of one leaf (section 4.3); a stream
  whose count is not the length of its level lists, or whose number of rows is not the
  row count, is a \<open>CorruptStream\<close>.
\<close>

definition leaf_rows ::
  "node list \<Rightarrow> 'v ColumnStream \<Rightarrow> nat \<Rightarrow> error_kind + 'v entry list list" where
  "leaf_rows b col n =
     (if cs_count col \<noteq> length (cs_dLevels col) then Inl CorruptStream
      else
        (case entries_of (dmax (last b)) (rmax (last b))
                (cs_dLevels col) (cs_rLevels col) (cs_values col) of
           Inl e \<Rightarrow> Inl e
         | Inr es \<Rightarrow>
             (case rows_of es of
                Inl e \<Rightarrow> Inl e
              | Inr rows \<Rightarrow> if length rows \<noteq> n then Inl CorruptStream else Inr rows)))"

text \<open>
  Modelled from the spec: the leaves to assemble, in schema order, each with its rows
  (section 4.3): the leaves of the schema that have a stream in the buffer.
\<close>

fun selected_rows ::
  "node list list \<Rightarrow> 'v ParquetWriteBuffer
     \<Rightarrow> error_kind + (node list \<times> 'v entry list list) list" where
  "selected_rows [] buffer = Inr []"
| "selected_rows (b # bs) buffer =
     (case map_of (wb_columnData buffer) (map nname b) of
        None \<Rightarrow> selected_rows bs buffer
      | Some col \<Rightarrow>
          (case leaf_rows b col (wb_rowCount buffer) of
             Inl e \<Rightarrow> Inl e
           | Inr rows \<Rightarrow>
               (case selected_rows bs buffer of
                  Inl e \<Rightarrow> Inl e
                | Inr rest \<Rightarrow> Inr ((b, rows) # rest))))"

text \<open>
  Modelled from the spec: the record of row \<open>i\<close> (section 4.3): for each leaf, the pairs of
  the row are placed into the record, which starts empty.
\<close>

definition assemble_row :: "(node list \<times> 'v entry list list) list \<Rightarrow> nat \<Rightarrow> 'v jsval" where
  "assemble_row cols i =
     fold (\<lambda>(b, rows) rec.
             place_all b (replicate (rmax (last b) + 1) 0) (rows ! i) rec)
       cols (Obj [])"

text \<open>
  Modelled from the spec: \<open>materializeRecords(schema, buffer)\<close> of \<open>src/shred.ts\<close> (section
  4.3): exactly \<open>rowCount\<close> records, or a \<open>CorruptStream\<close>.
\<close>

definition materializeRecords ::
  "ParquetSchema \<Rightarrow> 'v ParquetWriteBuffer \<Rightarrow> error_kind + 'v jsval list" where
  "materializeRecords sch buffer =
     (case selected_rows (fieldList sch) buffer of
        Inl e \<Rightarrow> Inl e
      | Inr cols \<Rightarrow> Inr (map (assemble_row cols) [0..<wb_rowCount buffer]))"

section \<open>The level and value codecs\<close>

text \<open>
  The codecs (\<open>src/codec\<close>) are not among the sources either. The reader is verified for
  any codec table; the definitions of this section follow sections 4.4 and 4.5 of the
  specification and give the codec table of the example library below.
\<close>

text \<open>Modelled from the spec: a little-endian number (sections 4.4 and 4.5).\<close>

fun le_nat :: "Buffer \<Rightarrow> nat" where
  "le_nat [] = 0"
| "le_nat (b # bs) = unat b + 256 * le_nat bs"

text \<open>
  Modelled from the spec: the varint header of a frame of \<open>src/codec/rle.ts\<close> (section 4.4):
  seven bits per byte, least significant group first, the high bit set on every byte
  but the last.
\<close>

fun varint :: "Buffer \<Rightarrow> (nat \<times> Buffer) option" where
  "varint [] = None"
| "varint (b # bs) =
     (if unat b < 128 then Some (unat b, bs)
      else (case varint bs of
              None \<Rightarrow> None
            | Some (n, rest) \<Rightarrow> Some (unat b - 128 + 128 * n, rest)))"

text \<open>Modelled from the spec: the bits of a byte, least significant first (section 4.4).\<close>

definition bits_of :: "byte \<Rightarrow> bool list" where
  "bits_of b = map (\<lambda>i. odd (unat b div 2 ^ i)) [0, 1, 2, 3, 4, 5, 6, 7]"

text \<open>Modelled from the spec: the number with the given bits, least significant first.\<close>

fun bits_nat :: "bool list \<Rightarrow> nat" where
  "bits_nat [] = 0"
| "bits_nat (x # xs) = (if x then 1 else 0) + 2 * bits_nat xs"

text \<open>Modelled from the spec: \<open>n\<close> groups of \<open>w\<close> bits each (section 4.4).\<close>

fun bit_groups :: "nat \<Rightarrow> nat \<Rightarrow> bool list \<Rightarrow> bool list list" where
  "bit_groups 0 w bs = []"
| "bit_groups (Suc n) w bs = take w bs # bit_groups n w (drop w bs)"

text \<open>
  Modelled from the spec: a bit-packed group of \<open>src/codec/rle.ts\<close> (section 4.4): \<open>n\<close>
  values of \<open>w\<close> bits, least significant bit first within a byte, packed across byte
  boundaries.
\<close>

definition unpack :: "nat \<Rightarrow> nat \<Rightarrow> Buffer \<Rightarrow> nat list" where
  "unpack w n bytes = map bits_nat (bit_groups n w (concat (map bits_of bytes)))"

text \<open>
  Modelled from the spec: the frames of a level stream of \<open>src/codec/rle.ts\<close> (section
  4.4), read until \<open>needed\<close> values are there. A header with least bit 0 starts a run of
  length \<open>H >> 1\<close> of the next value, read as \<open>ceil(W/8)\<close> little-endian bytes; a header with
  least bit 1 starts a bit-packed group of \<open>(H >> 1) * 8\<close> values. A run of length 0 and
  a stream that ends early are corrupt (\<open>None\<close>). Every frame takes at least its header
  byte, so the count of frames is bounded by the first argument, which the decoder sets
  to the length of the stream.
\<close>

fun rle_frames :: "nat \<Rightarrow> nat \<Rightarrow> Buffer \<Rightarrow> nat \<Rightarrow> (nat list \<times> Buffer) option" where
  "rle_frames fuel w bs 0 = Some ([], bs)"
| "rle_frames 0 w bs (Suc n) = None"
| "rle_frames (Suc fuel) w bs (Suc n) =
     (case varint bs of
        None \<Rightarrow> None
      | Some (h, bs1) \<Rightarrow>
          if even h then
            (if h div 2 = 0 \<or> length bs1 < (w + 7) div 8 then None
             else
               (case rle_frames fuel w (drop ((w + 7) div 8) bs1) (Suc n - h div 2) of
                  None \<Rightarrow> None
                | Some (vs, rest) \<Rightarrow>
                    Some (replicate (h div 2) (le_nat (take ((w + 7) div 8) bs1)) @ vs,
                          rest)))
          else
            (if length bs1 < (h div 2) * w then None
             else
               (case rle_frames fuel w (drop ((h div 2) * w) bs1)
                       (Suc n - (h div 2) * 8) of
                  None \<Rightarrow> None
                | Some (vs, rest) \<Rightarrow>
                    Some (unpack w ((h div 2) * 8) (take ((h div 2) * w) bs1) @ vs,
                          rest))))"

text \<open>The bytes of a cursor from its offset on.\<close>

definition cursor_bytes :: "CursorBuffer \<Rightarrow> Buffer" where
  "cursor_bytes cursor = drop (nat (cb_offset cursor)) (cb_buffer cursor)"

text \<open>
  Modelled from the spec: \<open>decodeValues\<close> of \<open>src/codec/rle.ts\<close> (section 4.4). With bit
  width 0 every value is 0 and no bytes are read. With the envelope, the stream is the
  bytes the 32-bit little-endian length prefix announces, and decoding has to consume
  exactly those; without it, the stream is read from the cursor on. The result has
  exactly \<open>count\<close> values.
\<close>

definition rle_decodeValues :: decoder where
  "rle_decodeValues type cursor n opts =
     (case bitWidth opts of
        None \<Rightarrow> Inl (Error ''bitWidth is required'')
      | Some w \<Rightarrow>
          if n < 0 \<or> w < 0 then Inl (Error ''CorruptStream'')
          else if w = 0 then Inr (replicate (nat n) (PNumber 0), cursor)
          else if disableEnvelope opts = Some True then
            (case rle_frames (length (cursor_bytes cursor)) (nat w) (cursor_bytes cursor)
                    (nat n) of
               None \<Rightarrow> Inl (Error ''CorruptStream'')
             | Some (vs, rest) \<Rightarrow>
                 Inr (map (\<lambda>v. PNumber (int v)) (take (nat n) vs),
                      cursor\<lparr>cb_offset := cb_offset cursor
                                + int (length (cursor_bytes cursor) - length rest)\<rparr>))
          else if length (cursor_bytes cursor) < 4
                  \<or> length (cursor_bytes cursor) < 4 + le_nat (take 4 (cursor_bytes cursor))
          then Inl (Error ''CorruptStream'')
          else
            (case rle_frames (le_nat (take 4 (cursor_bytes cursor))) (nat w)
                    (take (le_nat (take 4 (cursor_bytes cursor)))
                       (drop 4 (cursor_bytes cursor)))
                    (nat n) of
               Some (vs, []) \<Rightarrow>
                 Inr (map (\<lambda>v. PNumber (int v)) (take (nat n) vs),
                      cursor\<lparr>cb_offset := cb_offset cursor + 4
                                + int (le_nat (take 4 (cursor_bytes cursor)))\<rparr>)
             | _ \<Rightarrow> Inl (Error ''CorruptStream'')))"

text \<open>
  Modelled from the spec: the PLAIN values of \<open>src/codec/plain.ts\<close> (section 4.5), for the
  types \<open>INT32\<close> and \<open>INT64\<close> (4 and 8 little-endian bytes, two's complement) and
  \<open>BYTE_ARRAY\<close> (a 4-byte little-endian length, then that many bytes).
\<close>

fun plain_values :: "string \<Rightarrow> nat \<Rightarrow> Buffer \<Rightarrow> (pvalue list \<times> Buffer) option" where
  "plain_values type 0 bs = Some ([], bs)"
| "plain_values type (Suc n) bs =
     (if type = ''INT32'' \<or> type = ''INT64'' then
        (let k = (if type = ''INT32'' then 4 else 8) in
         if length bs < k then None
         else
           (case plain_values type n (drop k bs) of
              None \<Rightarrow> None
            | Some (vs, rest) \<Rightarrow>
                Some (PNumber (if le_nat (take k bs) < 2 ^ (8 * k - 1)
                               then int (le_nat (take k bs))
                               else int (le_nat (take k bs)) - 2 ^ (8 * k)) # vs,
                      rest)))
      else if type = ''BYTE_ARRAY'' then
        (if length bs < 4 \<or> length bs < 4 + le_nat (take 4 bs) then None
         else
           (case plain_values type n (drop (4 + le_nat (take 4 bs)) bs) of
              None \<Rightarrow> None
            | Some (vs, rest) \<Rightarrow>
                Some (PBuffer (take (le_nat (take 4 bs)) (drop 4 bs)) # vs, rest)))
      else None)"

text \<open>Modelled from the spec: \<open>decodeValues\<close> of \<open>src/codec/plain.ts\<close> (section 4.5).\<close>

definition plain_decodeValues :: decoder where
  "plain_decodeValues type cursor n opts =
     (case type of
        None \<Rightarrow> Inl (Error ''unsupported type'')
      | Some t \<Rightarrow>
          if n < 0 then Inl (Error ''CorruptStream'')
          else
            (case plain_values t (nat n) (cursor_bytes cursor) of
               None \<Rightarrow> Inl (Error ''CorruptStream'')
             | Some (vs, rest) \<Rightarrow>
                 Inr (vs, cursor\<lparr>cb_offset := cb_offset cursor
                                   + int (length (cursor_bytes cursor) - length rest)\<rparr>)))"

text \<open>
  Modelled from the spec: the PLAIN encoding of a \<open>BYTE_ARRAY\<close> value (section 4.5): its
  length as 4 little-endian bytes, then its bytes.
\<close>

definition plain_BYTE_ARRAY :: "Buffer \<Rightarrow> Buffer" where
  "plain_BYTE_ARRAY b =
     [word_of_nat (length b), word_of_nat (length b div 256),
      word_of_nat (length b div 65536), word_of_nat (length b div 16777216)] @ b"

section \<open>An instance of the imported functions\<close>

text \<open>
  The theorems about the reader hold for every record of imported functions. To run
  the reader on concrete bytes, this section gives one such record. The enumeration
  tables are those of the Parquet format definition; the codecs are the ones above;
  the schema class and the assembler are the ones of the previous section. The two
  Thrift decoders are stand-ins with a fixed layout, since the Thrift compact protocol
  is outside this development: a footer is one byte for the version, optionally followed
  by one byte for the type of a single required column \<open>a\<close>; a page header is two bytes,
  the page type and the number of values, for a page with PLAIN values and RLE levels.
\<close>

definition thrift_names :: "thrift_enum \<Rightarrow> (int \<times> string) list" where
  "thrift_names klass =
     (case klass of
        Type \<Rightarrow>
          [(0, ''BOOLEAN''), (1, ''INT32''), (2, ''INT64''), (3, ''INT96''), (4, ''FLOAT''),
           (5, ''DOUBLE''), (6, ''BYTE_ARRAY''), (7, ''FIXED_LEN_BYTE_ARRAY'')]
      | CompressionCodec \<Rightarrow>
          [(0, ''UNCOMPRESSED''), (1, ''SNAPPY''), (2, ''GZIP''), (3, ''LZO''),
           (4, ''BROTLI''), (5, ''LZ4'')]
      | ConvertedType \<Rightarrow>
          [(0, ''UTF8''), (6, ''DATE''), (9, ''TIMESTAMP_MILLIS''),
           (10, ''TIMESTAMP_MICROS''), (20, ''BSON''), (21, ''INTERVAL'')]
      | Encoding \<Rightarrow>
          [(0, ''PLAIN''), (2, ''PLAIN_DICTIONARY''), (3, ''RLE''), (4, ''BIT_PACKED'')]
      | FieldRepetitionType \<Rightarrow> [(0, ''REQUIRED''), (1, ''OPTIONAL''), (2, ''REPEATED'')]
      | PageType \<Rightarrow>
          [(0, ''DATA_PAGE''), (1, ''INDEX_PAGE''), (2, ''DICTIONARY_PAGE''),
           (3, ''DATA_PAGE_V2'')])"

definition ex_getThriftEnum :: "thrift_enum \<Rightarrow> int option \<Rightarrow> error + string" where
  "ex_getThriftEnum klass v =
     (case v of
        None \<Rightarrow> Inl (Error ''Invalid ENUM value'')
      | Some n \<Rightarrow>
          (case map_of (thrift_names klass) n of
             None \<Rightarrow> Inl (Error ''Invalid ENUM value'')
           | Some name \<Rightarrow> Inr name))"

text \<open>The number of bits of a level: 0 for 0, 1 for 1, 2 for 2 and 3, and so on.\<close>

fun bit_width :: "nat \<Rightarrow> nat" where
  "bit_width n = (if n = 0 then 0 else Suc (bit_width (n div 2)))"

definition ex_getBitWidth :: "int \<Rightarrow> int" where
  "ex_getBitWidth v = int (bit_width (nat v))"

definition root_element :: "int \<Rightarrow> SchemaElement" where
  "root_element n =
     \<lparr>se_type = None, se_type_length = None, se_repetition_type = None,
      se_name = ''root'', se_num_children = Some n, se_converted_type = None\<rparr>"

definition column_element :: "string \<Rightarrow> int \<Rightarrow> SchemaElement" where
  "column_element name t =
     \<lparr>se_type = Some t, se_type_length = None, se_repetition_type = Some 0,
      se_name = name, se_num_children = None, se_converted_type = None\<rparr>"

definition ex_decodeFileMetadata :: "Buffer \<Rightarrow> error + FileMetaData" where
  "ex_decodeFileMetadata buf =
     (case buf of
        [v] \<Rightarrow>
          Inr \<lparr>version = uint v, schema = [root_element 0], num_rows = 0,
               row_groups = [], key_value_metadata = []\<rparr>
      | [v, t] \<Rightarrow>
          Inr \<lparr>version = uint v, schema = [root_element 1, column_element ''a'' (uint t)],
               num_rows = 0, row_groups = [], key_value_metadata = []\<rparr>
      | _ \<Rightarrow> Inl (Error ''cannot decode FileMetaData''))"

definition ex_decodePageHeader :: "Buffer \<Rightarrow> error + (PageHeader \<times> int)" where
  "ex_decodePageHeader buf =
     (case buf of
        t # n # body \<Rightarrow>
          Inr (\<lparr>ph_type = uint t,
                uncompressed_page_size = int (length body),
                compressed_page_size = int (length body),
                data_page_header =
                  Some \<lparr>dph_num_values = uint n, dph_encoding = 0,
                        dph_definition_level_encoding = 3,
                        dph_repetition_level_encoding = 3\<rparr>,
                data_page_header_v2 =
                  Some \<lparr>dph2_num_values = uint n, dph2_num_nulls = 0,
                        dph2_num_rows = uint n, dph2_encoding = 0,
                        dph2_is_compressed = False\<rparr>\<rparr>, 2)
      | _ \<Rightarrow> Inl (Error ''cannot decode PageHeader''))"

definition ex_fieldIndexOf :: "string list list \<Rightarrow> string list \<Rightarrow> int" where
  "ex_fieldIndexOf arr elem =
     (if elem \<in> set arr then int (length (takeWhile (\<lambda>x. x \<noteq> elem) arr)) else - 1)"

definition ex_codecs :: "string \<Rightarrow> decoder option" where
  "ex_codecs encoding =
     (if encoding = ''PLAIN'' then Some plain_decodeValues
      else if encoding = ''RLE'' then Some rle_decodeValues
      else None)"

definition ex_inflate :: "string \<Rightarrow> Buffer \<Rightarrow> int \<Rightarrow> error + Buffer" where
  "ex_inflate method buf n =
     (if method = ''UNCOMPRESSED'' then Inr buf
      else Inl (Error (''invalid compression method: '' @ method)))"

definition ex_new_ParquetSchema :: "SchemaDefinition \<Rightarrow> error + ParquetSchema" where
  "ex_new_ParquetSchema defn =
     (case buildSchema defn of
        Inl e \<Rightarrow> Inl (Error ''invalid schema'')
      | Inr sch \<Rightarrow> Inr sch)"

text \<open>
  The primitive type a logical type is stored as (section 4.5 of the specification).
\<close>

definition primitive_of :: "string \<Rightarrow> string" where
  "primitive_of t =
     (if t = ''UTF8'' \<or> t = ''BSON'' then ''BYTE_ARRAY''
      else if t = ''DATE'' then ''INT32''
      else if t = ''TIMESTAMP_MICROS'' \<or> t = ''TIMESTAMP_MILLIS'' then ''INT64''
      else if t = ''INTERVAL'' then ''FIXED_LEN_BYTE_ARRAY''
      else t)"

fun find_node :: "node list \<Rightarrow> string list \<Rightarrow> node option" where
  "find_node fs [] = None"
| "find_node [] (name # path) = None"
| "find_node (f # fs) (name # path) =
     (if nname f = name then
        (if path = [] then Some f
         else (case f of Group n rep r d ch \<Rightarrow> find_node ch path | _ \<Rightarrow> None))
      else find_node fs (name # path))"

definition ex_findField :: "ParquetSchema \<Rightarrow> string list \<Rightarrow> error + ParquetField" where
  "ex_findField sch path =
     (case find_node sch path of
        None \<Rightarrow> Inl (TypeError ''field is undefined'')
      | Some f \<Rightarrow>
          Inr \<lparr>primitiveType =
                 (case f of Leaf n rep r d t \<Rightarrow> Some (primitive_of t) | _ \<Rightarrow> None),
               pf_typeLength = None, rLevelMax = int (rmax f), dLevelMax = int (dmax f)\<rparr>)"

text \<open>The levels of a decoded column as natural numbers.\<close>

fun level_list :: "pvalue list \<Rightarrow> nat list option" where
  "level_list [] = Some []"
| "level_list (PNumber n # vs) =
     (if n < 0 then None else map_option ((#) (nat n)) (level_list vs))"
| "level_list (_ # vs) = None"

fun read_columns ::
  "node list list \<Rightarrow> (string \<times> ParquetReadData) list
     \<Rightarrow> (string list \<times> pvalue ColumnStream) list option" where
  "read_columns [] cols = Some []"
| "read_columns (b # bs) cols =
     (case map_of cols (join_comma (map nname b)) of
        None \<Rightarrow> read_columns bs cols
      | Some rd \<Rightarrow>
          (case (level_list (dLevels rd), level_list (rLevels rd), read_columns bs cols) of
             (Some ds, Some rs, Some rest) \<Rightarrow>
               Some ((map nname b,
                      \<lparr>cs_values = values' rd, cs_dLevels = ds, cs_rLevels = rs,
                       cs_count = nat (rd_count rd)\<rparr>) # rest)
           | _ \<Rightarrow> None))"

definition ex_materializeRecords ::
  "ParquetSchema \<Rightarrow> ParquetReadBuffer \<Rightarrow> error + pvalue jsval list" where
  "ex_materializeRecords sch buffer =
     (case read_columns (fieldList sch) (columnData buffer) of
        None \<Rightarrow> Inl (Error ''CorruptStream'')
      | Some cols \<Rightarrow>
          (case materializeRecords sch
                  \<lparr>wb_rowCount = nat (rowCount buffer), wb_columnData = cols\<rparr> of
             Inl e \<Rightarrow> Inl (Error ''CorruptStream'')
           | Inr records \<Rightarrow> Inr records))"

text \<open>
  The file functions over a table of files: a file descriptor is the position of the
  file in the table, and a read that does not get all its bytes fails.
\<close>

definition ex_fstat :: "(string \<times> Buffer) list \<Rightarrow> string \<Rightarrow> error + int" where
  "ex_fstat files path =
     (case map_of files path of
        None \<Rightarrow> Inl (Error ''ENOENT'')
      | Some content \<Rightarrow> Inr (int (length content)))"

definition ex_fopen :: "(string \<times> Buffer) list \<Rightarrow> string \<Rightarrow> error + nat" where
  "ex_fopen files path =
     (if path \<in> set (map fst files)
      then Inr (length (takeWhile (\<lambda>x. x \<noteq> path) (map fst files)))
      else Inl (Error ''ENOENT''))"

definition ex_fread :: "(string \<times> Buffer) list \<Rightarrow> nat \<Rightarrow> int \<Rightarrow> int \<Rightarrow> error + Buffer" where
  "ex_fread files fd position len =
     (if fd < length files \<and> 0 \<le> position \<and> 0 \<le> len
         \<and> position + len \<le> int (length (snd (files ! fd)))
      then Inr (take (nat len) (drop (nat position) (snd (files ! fd))))
      else Inl (Error ''read failed''))"

definition example_lib ::
  "(string \<times> Buffer) list \<Rightarrow> (ParquetSchema, pvalue jsval) Imports" where
  "example_lib files =
     \<lparr>getThriftEnum = ex_getThriftEnum,
      getBitWidth = ex_getBitWidth,
      decodeFileMetadata = ex_decodeFileMetadata,
      decodePageHeader = ex_decodePageHeader,
      fieldIndexOf = ex_fieldIndexOf,
      PARQUET_CODEC = ex_codecs,
      inflate = ex_inflate,
      new_ParquetSchema = ex_new_ParquetSchema,
      findField = ex_findField,
      Shred_materializeRecords = ex_materializeRecords,
      fstat = ex_fstat files,
      fopen = ex_fopen files,
      fread = ex_fread files,
      fclose = (\<lambda>fd. None)\<rparr>"


section \<open>Shredding a sequence of records, and statistics\<close>

text \<open>
  Modelled from the spec: \<open>shred(S, [R_1, ..., R_n])\<close> of section 8, invariant 1: the
  records shredded in order into a fresh write buffer.
\<close>

definition shred :: "ParquetSchema \<Rightarrow> 'v jsval list \<Rightarrow> error_kind + 'v ParquetWriteBuffer" where
  "shred sch records = shredRecords sch records (new_ParquetWriteBuffer sch)"

text \<open>
  Modelled from the spec: the round trip of section 8, invariant 1:
  \<open>materializeRecords(S, shred(S, [R_1, ..., R_n]))\<close>.
\<close>

definition round_trip :: "ParquetSchema \<Rightarrow> 'v jsval list \<Rightarrow> error_kind + 'v jsval list" where
  "round_trip sch records =
     (case shred sch records of
        Inl e \<Rightarrow> Inl e
      | Inr buffer \<Rightarrow> materializeRecords sch buffer)"

text \<open>
  Modelled from the spec: the statistics accumulator of a leaf (sections 2 and 4.7),
  which the shredder feeds with every position it emits: the number of positions below
  \<open>dLevelMax\<close>, the distinct values emitted so far, and the smallest and the largest
  emitted value. The values of a \<open>UTF8\<close> column are their bytes, compared byte-wise.
\<close>

record StatisticsAccumulator =
  acc_null_count :: nat
  acc_distinct :: "Buffer list"
  acc_min :: "Buffer option"
  acc_max :: "Buffer option"

definition new_StatisticsAccumulator :: StatisticsAccumulator where
  "new_StatisticsAccumulator =
     \<lparr>acc_null_count = 0, acc_distinct = [], acc_min = None, acc_max = None\<rparr>"

text \<open>Modelled from the spec: feeding one position to the accumulator (section 4.7).\<close>

definition feed :: "nat \<Rightarrow> Buffer entry \<Rightarrow> StatisticsAccumulator \<Rightarrow> StatisticsAccumulator" where
  "feed dm e acc =
     (case e of
        (d, r, v) \<Rightarrow>
          (case v of
             None \<Rightarrow> acc\<lparr>acc_null_count := acc_null_count acc + (if d < dm then 1 else 0)\<rparr>
           | Some x \<Rightarrow>
               \<lparr>acc_null_count = acc_null_count acc + (if d < dm then 1 else 0),
                acc_distinct =
                  (if x \<in> set (acc_distinct acc) then acc_distinct acc
                   else x # acc_distinct acc),
                acc_min =
                  (case acc_min acc of
                     None \<Rightarrow> Some x
                   | Some m \<Rightarrow> Some (if x < m then x else m)),
                acc_max =
                  (case acc_max acc of
                     None \<Rightarrow> Some x
                   | Some m \<Rightarrow> Some (if m < x then x else m))\<rparr>))"

text \<open>
  Modelled from the spec: the statistics serialized into the metadata of a column chunk
  (section 4.7); \<open>min_value\<close> and \<open>max_value\<close> are in the PLAIN encoding, which for
  \<open>BYTE_ARRAY\<close> includes the length prefix.
\<close>

record Statistics =
  null_count :: nat
  distinct_count :: nat
  min_value :: "Buffer option"
  max_value :: "Buffer option"

definition serialize_statistics :: "StatisticsAccumulator \<Rightarrow> Statistics" where
  "serialize_statistics acc =
     \<lparr>null_count = acc_null_count acc,
      distinct_count = length (acc_distinct acc),
      min_value = map_option plain_BYTE_ARRAY (acc_min acc),
      max_value = map_option plain_BYTE_ARRAY (acc_max acc)\<rparr>"

text \<open>
  Modelled from the spec: the statistics of a \<open>UTF8\<close> column over a row group (section
  4.7): the accumulator fed with the positions of the column, in order, then
  serialized.
\<close>

definition column_statistics :: "nat \<Rightarrow> Buffer entry list \<Rightarrow> Statistics" where
  "column_statistics dm es =
     serialize_statistics (fold (feed dm) es new_StatisticsAccumulator)"

text \<open>The values a column emits, in order.\<close>

definition emitted :: "'v entry list \<Rightarrow> 'v list" where
  "emitted es = List.map_filter (\<lambda>(d, r, v). v) es"

text \<open>The bytes of a string of ASCII characters.\<close>

definition utf8 :: "string \<Rightarrow> Buffer" where
  "utf8 s = map of_char s"


section \<open>Conforming records and their canonical form\<close>

text \<open>
  The round trip of section 8, invariant 1, is stated for the records that conform to a
  schema, and up to two canonicalizations. The specification names both notions and
  leaves them to the shredder and the assembler of sections 4.2 and 4.3; the definitions
  of this section spell them out.
\<close>








subsection \<open>Notions of the proof of the round trip\<close>




text \<open>The positions seen from below \<open>k\<close> repeated nodes: the repetition levels less \<open>k\<close>.\<close>

definition lower :: "nat \<Rightarrow> 'v entry list \<Rightarrow> 'v entry list" where
  "lower k es = map (\<lambda>(d, r, v). (d, r - k, v)) es"

text \<open>
  A position of a leaf with the maxima \<open>rm\<close> and \<open>dm\<close>, emitted below a node with the
  definition level \<open>d\<close>: the levels are in range and the value is there at \<open>dm\<close> only.
\<close>

definition entry_ok :: "nat \<Rightarrow> nat \<Rightarrow> nat \<Rightarrow> 'v entry \<Rightarrow> bool" where
  "entry_ok d rm dm e =
     (d \<le> fst e \<and> fst e \<le> dm \<and> fst (snd e) \<le> rm \<and> (snd (snd e) \<noteq> None) = (fst e = dm))"

text \<open>
  The positions of one value of a node with \<open>L\<close> repeated ancestors: the first carries the
  repetition level \<open>r\<close>, the others a level above \<open>L\<close>.
\<close>

definition chunk :: "nat \<Rightarrow> nat \<Rightarrow> nat \<Rightarrow> nat \<Rightarrow> nat \<Rightarrow> 'v entry list \<Rightarrow> bool" where
  "chunk L r d rm dm es =
     (es \<noteq> [] \<and> fst (snd (hd es)) = r \<and> list_all (\<lambda>e. L < fst (snd e)) (tl es)
      \<and> list_all (entry_ok d rm dm) es)"




section \<open>Example inputs\<close>

text \<open>
  The concrete inputs the general theorems below are instantiated at, over the example
  library. A column \<open>a\<close> of type \<open>INT32\<close>, required and at the top level:
\<close>

definition int32_column :: ParquetField where
  "int32_column =
     \<lparr>primitiveType = Some ''INT32'', pf_typeLength = None, rLevelMax = 0, dLevelMax = 0\<rparr>"

text \<open>A repeated \<open>INT32\<close> column at the top level: both maximum levels are 1.\<close>

definition repeated_int32 :: ParquetField where
  "repeated_int32 =
     \<lparr>primitiveType = Some ''INT32'', pf_typeLength = None, rLevelMax = 1, dLevelMax = 1\<rparr>"

text \<open>
  A page of three positions of that column, with repetition levels 0, 1, 0 (one
  bit-packed group) and definition levels 1, 1, 0 (a run of two and a run of one), and
  the two values 7 and -1. In the body of the data page v1 each level stream follows
  its length; the body of the data page v2 has the level streams alone.
\<close>

definition v1_body :: Buffer where
  "v1_body = [2, 0, 0, 0, 3, 2] @ [4, 0, 0, 0, 4, 1, 2, 0] @ [7, 0, 0, 0, 255, 255, 255, 255]"

definition v2_body :: Buffer where
  "v2_body = [3, 2] @ [4, 1, 2, 0] @ [7, 0, 0, 0, 255, 255, 255, 255]"

definition page_header :: "nat \<Rightarrow> PageHeader" where
  "page_header n =
     \<lparr>ph_type = 0, uncompressed_page_size = int n, compressed_page_size = int n,
      data_page_header =
        Some \<lparr>dph_num_values = 3, dph_encoding = 0, dph_definition_level_encoding = 3,
              dph_repetition_level_encoding = 3\<rparr>,
      data_page_header_v2 =
        Some \<lparr>dph2_num_values = 3, dph2_num_nulls = 1, dph2_num_rows = 2,
              dph2_encoding = 0, dph2_is_compressed = False\<rparr>\<rparr>"

definition cursor_at :: "Buffer \<Rightarrow> int \<Rightarrow> CursorBuffer" where
  "cursor_at buf n = \<lparr>cb_buffer = buf, cb_offset = n, cb_size = int (length buf)\<rparr>"

definition example_page :: ParquetReadData where
  "example_page =
     \<lparr>dLevels = [PNumber 1, PNumber 1, PNumber 0],
      rLevels = [PNumber 0, PNumber 1, PNumber 0],
      values' = [PNumber 7, PNumber (- 1)], rd_count = 3\<rparr>"

text \<open>
  A file whose trailer is well formed (a footer of one byte, version 1, and the magic)
  but whose first four bytes are not the magic.
\<close>

definition bad_magic_file :: Buffer where
  "bad_magic_file = [88, 88, 88, 88, 1, 1, 0, 0, 0, 80, 65, 82, 49]"

text \<open>A footer of version 1 whose schema list is empty, and footers with one column.\<close>

definition empty_schema_footer :: FileMetaData where
  "empty_schema_footer =
     \<lparr>version = 1, schema = [], num_rows = 0, row_groups = [], key_value_metadata = []\<rparr>"

definition one_column_footer :: "int \<Rightarrow> FileMetaData" where
  "one_column_footer v =
     \<lparr>version = v, schema = [root_element 1, column_element ''a'' 2], num_rows = 0,
      row_groups = [], key_value_metadata = []\<rparr>"

text \<open>
  A file whose footer has the given version and the one column \<open>a\<close> of type \<open>INT64\<close>, in
  the layout of the stand-in footer decoder: the magic, the two bytes of the footer,
  the length of the footer and the magic.
\<close>

definition version_file :: "byte \<Rightarrow> Buffer" where
  "version_file v = [80, 65, 82, 49, v, 2, 2, 0, 0, 0, 80, 65, 82, 49]"

text \<open>
  A column chunk of column \<open>a\<close> with two pages, in the layout of the stand-in page header
  decoder: a data page v1 with the one value 7, then a page whose header declares a
  \<open>DICTIONARY_PAGE\<close> and whose body is the four bytes of the number 9.
\<close>

definition two_pages :: Buffer where
  "two_pages = [0, 1, 7, 0, 0, 0] @ [2, 1, 9, 0, 0, 0]"

text \<open>
  A column chunk that refers to another file, and the chunk of column \<open>a\<close> in the file
  \<open>file_a\<close>: one data page v1 with the value 7, at offset 4.
\<close>

definition external_chunk :: ColumnChunk where
  "external_chunk = \<lparr>file_path = Some ''other.parquet'', meta_data = None\<rparr>"

definition chunk_a_metadata :: ColumnMetaData where
  "chunk_a_metadata =
     \<lparr>cm_type = 1, cm_path_in_schema = [''a''], cm_codec = 0, cm_data_page_offset = 4,
      cm_total_compressed_size = 6\<rparr>"

definition chunk_a :: ColumnChunk where
  "chunk_a = \<lparr>file_path = None, meta_data = Some chunk_a_metadata\<rparr>"

definition schema_a :: ParquetSchema where
  "schema_a = [Leaf ''a'' REQUIRED 0 0 ''INT32'']"

definition file_a :: Buffer where
  "file_a = [80, 65, 82, 49, 0, 1, 7, 0, 0, 0]"

text \<open>
  A cursor over a file with one row group of two rows and no columns: each row is the
  empty record.
\<close>

definition two_rows_footer :: FileMetaData where
  "two_rows_footer =
     \<lparr>version = 1, schema = [root_element 0], num_rows = 2,
      row_groups = [\<lparr>rg_columns = [], rg_num_rows = 2\<rparr>], key_value_metadata = []\<rparr>"

definition two_rows_cursor :: "(ParquetSchema, pvalue jsval) ParquetCursor" where
  "two_rows_cursor =
     new_ParquetCursor two_rows_footer (ParquetEnvelopeReader_openBuffer []) [] []"


text \<open>
  The scenario S1 of the specification (section 8): the schema of the Dremel example,
  as a schema description and as the schema built from it, the records A and B, and
  the column streams the specification lists.
\<close>

datatype atom = Int64 int | Utf8 string

definition S1_definition :: SchemaDefinition where
  "S1_definition =
     [(''DocId'', FieldDefinition (Some ''INT64'') None False False None),
      (''Links'', FieldDefinition None None True False (Some
         [(''Backward'', FieldDefinition (Some ''INT64'') None False True None),
          (''Forward'', FieldDefinition (Some ''INT64'') None False True None)])),
      (''Name'', FieldDefinition None None False True (Some
         [(''Language'', FieldDefinition None None False True (Some
            [(''Code'', FieldDefinition (Some ''UTF8'') None False False None),
             (''Country'', FieldDefinition (Some ''UTF8'') None True False None)])),
          (''Url'', FieldDefinition (Some ''UTF8'') None True False None)]))]"

definition S1_schema :: ParquetSchema where
  "S1_schema =
     [Leaf ''DocId'' REQUIRED 0 0 ''INT64'',
      Group ''Links'' OPTIONAL 0 1
        [Leaf ''Backward'' REPEATED 1 2 ''INT64'',
         Leaf ''Forward'' REPEATED 1 2 ''INT64''],
      Group ''Name'' REPEATED 1 1
        [Group ''Language'' REPEATED 2 2
           [Leaf ''Code'' REQUIRED 2 2 ''UTF8'',
            Leaf ''Country'' OPTIONAL 2 3 ''UTF8''],
         Leaf ''Url'' OPTIONAL 1 2 ''UTF8'']]"

definition record_A :: "atom jsval" where
  "record_A =
     Obj [(''DocId'', Prim (Int64 10)),
          (''Links'', Obj [(''Forward'', Arr [Prim (Int64 20), Prim (Int64 40), Prim (Int64 60)])]),
          (''Name'', Arr
             [Obj [(''Language'', Arr
                      [Obj [(''Code'', Prim (Utf8 ''en-us'')), (''Country'', Prim (Utf8 ''us''))],
                       Obj [(''Code'', Prim (Utf8 ''en''))]]),
                   (''Url'', Prim (Utf8 ''http://A''))],
              Obj [(''Url'', Prim (Utf8 ''http://B''))],
              Obj [(''Language'', Arr
                      [Obj [(''Code'', Prim (Utf8 ''en-gb'')),
                            (''Country'', Prim (Utf8 ''gb''))]])]])]"

definition record_B :: "atom jsval" where
  "record_B =
     Obj [(''DocId'', Prim (Int64 20)),
          (''Links'', Obj [(''Backward'', Arr [Prim (Int64 10), Prim (Int64 30)]),
                          (''Forward'', Arr [Prim (Int64 80)])]),
          (''Name'', Arr [Obj [(''Url'', Prim (Utf8 ''http://C''))]])]"

definition S1_buffer :: "atom ParquetWriteBuffer" where
  "S1_buffer =
     \<lparr>wb_rowCount = 2,
      wb_columnData =
        [([''DocId''],
          \<lparr>cs_values = [Int64 10, Int64 20], cs_dLevels = [0, 0], cs_rLevels = [0, 0],
           cs_count = 2\<rparr>),
         ([''Links'', ''Backward''],
          \<lparr>cs_values = [Int64 10, Int64 30], cs_dLevels = [1, 2, 2], cs_rLevels = [0, 0, 1],
           cs_count = 3\<rparr>),
         ([''Links'', ''Forward''],
          \<lparr>cs_values = [Int64 20, Int64 40, Int64 60, Int64 80], cs_dLevels = [2, 2, 2, 2],
           cs_rLevels = [0, 1, 1, 0], cs_count = 4\<rparr>),
         ([''Name'', ''Language'', ''Code''],
          \<lparr>cs_values = [Utf8 ''en-us'', Utf8 ''en'', Utf8 ''en-gb''],
           cs_dLevels = [2, 2, 1, 2, 1], cs_rLevels = [0, 2, 1, 1, 0], cs_count = 5\<rparr>),
         ([''Name'', ''Language'', ''Country''],
          \<lparr>cs_values = [Utf8 ''us'', Utf8 ''gb''], cs_dLevels = [3, 2, 1, 3, 1],
           cs_rLevels = [0, 2, 1, 1, 0], cs_count = 5\<rparr>),
         ([''Name'', ''Url''],
          \<lparr>cs_values = [Utf8 ''http://A'', Utf8 ''http://B'', Utf8 ''http://C''],
           cs_dLevels = [2, 2, 1, 2], cs_rLevels = [0, 1, 1, 0], cs_count = 4\<rparr>)]\<rparr>"

text \<open>
  The scenario S2 of the specification: an optional group with a repeated and an
  optional leaf, the four input records and the four records expected back.
\<close>

definition S2_definition :: SchemaDefinition where
  "S2_definition =
     [(''fruit'', FieldDefinition None None True False (Some
         [(''color'', FieldDefinition (Some ''UTF8'') None False True None),
          (''type'', FieldDefinition (Some ''UTF8'') None True False None)]))]"

definition S2_schema :: ParquetSchema where
  "S2_schema =
     [Group ''fruit'' OPTIONAL 0 1
        [Leaf ''color'' REPEATED 1 2 ''UTF8'', Leaf ''type'' OPTIONAL 0 2 ''UTF8'']]"

definition S2_records :: "atom jsval list" where
  "S2_records =
     [Obj [],
      Obj [(''fruit'', Obj [])],
      Obj [(''fruit'', Obj [(''color'', Arr [])])],
      Obj [(''fruit'', Obj [(''color'', Arr [Prim (Utf8 ''red''), Prim (Utf8 ''blue'')]),
                           (''type'', Prim (Utf8 ''x''))])]]"

definition S2_materialized :: "atom jsval list" where
  "S2_materialized =
     [Obj [],
      Obj [(''fruit'', Obj [])],
      Obj [(''fruit'', Obj [])],
      Obj [(''fruit'', Obj [(''color'', Arr [Prim (Utf8 ''red''), Prim (Utf8 ''blue'')]),
                           (''type'', Prim (Utf8 ''x''))])]]"

text \<open>
  The scenario S5 of the specification: an optional \<open>UTF8\<close> column over 4000 rows, in
  which every other row is null and the others cycle through four names.
\<close>

definition S5_rows :: "Buffer entry list" where
  "S5_rows =
     concat (replicate 500
       [(1, 0, Some (utf8 ''apples'')), (0, 0, None),
        (1, 0, Some (utf8 ''oranges'')), (0, 0, None),
        (1, 0, Some (utf8 ''kiwi'')), (0, 0, None),
        (1, 0, Some (utf8 ''banana'')), (0, 0, None)])"





section \<open>Properties of the reader\<close>

subsection \<open>Sequencing\<close>

lemma io_bind_simps:
  "io_bind (None, t) f = (None, t)"
  "io_bind (Some (Inl e), t) f = (Some (Inl e), t)"
  "io_bind (Some (Inr a), t) f = (fst (f a), t @ snd (f a))"
  by (simp_all add: io_bind_def split: prod.splits)

lemma fst_io_bind:
  "fst (io_bind m f) =
     (case fst m of None \<Rightarrow> None | Some (Inl e) \<Rightarrow> Some (Inl e) | Some (Inr a) \<Rightarrow> fst (f a))"
  by (cases m) (auto simp: io_bind_def split: option.splits sum.splits prod.splits)

lemma fst_io_pure: "fst (io_pure r) = r"
  by (simp add: io_pure_def)

lemma bindE_Inr: "bindE m f = Inr b \<longleftrightarrow> (\<exists>a. m = Inr a \<and> f a = Inr b)"
  by (cases m) (simp_all add: bindE_def)

subsection \<open>Evaluating the codecs\<close>

text \<open>
  The recursion equations of the codecs in a form that computes on numerals.
\<close>

lemma replicate_pos: "0 < n \<Longrightarrow> replicate n x = x # replicate (n - 1) x"
  by (cases n) simp_all

lemma plain_values_pos:
  "0 < n \<Longrightarrow> plain_values type n bs =
     (if type = ''INT32'' \<or> type = ''INT64'' then
        (let k = (if type = ''INT32'' then 4 else 8) in
         if length bs < k then None
         else
           (case plain_values type (n - 1) (drop k bs) of
              None \<Rightarrow> None
            | Some (vs, rest) \<Rightarrow>
                Some (PNumber (if le_nat (take k bs) < 2 ^ (8 * k - 1)
                               then int (le_nat (take k bs))
                               else int (le_nat (take k bs)) - 2 ^ (8 * k)) # vs,
                      rest)))
      else if type = ''BYTE_ARRAY'' then
        (if length bs < 4 \<or> length bs < 4 + le_nat (take 4 bs) then None
         else
           (case plain_values type (n - 1) (drop (4 + le_nat (take 4 bs)) bs) of
              None \<Rightarrow> None
            | Some (vs, rest) \<Rightarrow>
                Some (PBuffer (take (le_nat (take 4 bs)) (drop 4 bs)) # vs, rest)))
      else None)"
  by (cases n) simp_all

lemma bit_groups_pos:
  "0 < n \<Longrightarrow> bit_groups n w bs = take w bs # bit_groups (n - 1) w (drop w bs)"
  by (cases n) simp_all

lemma rle_frames_pos:
  "0 < n \<Longrightarrow> 0 < fuel \<Longrightarrow> rle_frames fuel w bs n =
     (case varint bs of
        None \<Rightarrow> None
      | Some (h, bs1) \<Rightarrow>
          if even h then
            (if h div 2 = 0 \<or> length bs1 < (w + 7) div 8 then None
             else
               (case rle_frames (fuel - 1) w (drop ((w + 7) div 8) bs1) (n - h div 2) of
                  None \<Rightarrow> None
                | Some (vs, rest) \<Rightarrow>
                    Some (replicate (h div 2) (le_nat (take ((w + 7) div 8) bs1)) @ vs,
                          rest)))
          else
            (if length bs1 < (h div 2) * w then None
             else
               (case rle_frames (fuel - 1) w (drop ((h div 2) * w) bs1)
                       (n - (h div 2) * 8) of
                  None \<Rightarrow> None
                | Some (vs, rest) \<Rightarrow>
                    Some (unpack w ((h div 2) * 8) (take ((h div 2) * w) bs1) @ vs,
                          rest))))"
  by (cases n; cases fuel; hypsubst_thin) (simp_all cong: option.case_cong if_cong split: prod.splits)

lemmas example_eval =
  page_header_def bindE_def example_lib_def
  ex_getThriftEnum_def thrift_names_def decodeLevels_def repeated_int32_def
  decodeValues_def ex_codecs_def rle_decodeValues_def cursor_at_def cursor_bytes_def
  ex_getBitWidth_def PARQUET_RDLVL_TYPE_def PARQUET_RDLVL_ENCODING_def rle_frames_pos unpack_def
  bits_of_def bit_groups_pos plain_decodeValues_def plain_values_pos example_page_def
  replicate_pos level_options_def

text \<open>The codecs of the example library return exactly the number of values asked for.\<close>

lemma bit_groups_length: "length (bit_groups n w bs) = n"
  by (induction n arbitrary: bs) simp_all

lemma unpack_length: "length (unpack w n bytes) = n"
  by (simp add: unpack_def bit_groups_length)

lemma rle_frames_length: "rle_frames fuel w bs n = Some (vs, rest) \<Longrightarrow> n \<le> length vs"
proof (induction fuel w bs n arbitrary: vs rest rule: rle_frames.induct)
  case (3 fuel w bs n)
  from "3.prems" obtain h bs1 where v: "varint bs = Some (h, bs1)"
    by (auto split: option.splits)
  show ?case
  proof (cases "even h")
    case True
    with "3.prems" v obtain vs' where
      r: "rle_frames fuel w (drop ((w + 7) div 8) bs1) (Suc n - h div 2) = Some (vs', rest)"
      and vs: "vs = replicate (h div 2) (le_nat (take ((w + 7) div 8) bs1)) @ vs'"
      and c: "\<not> (h div 2 = 0 \<or> length bs1 < (w + 7) div 8)"
      by (auto split: option.splits if_splits)
    from "3.IH"(1) [OF v refl True c r] vs show ?thesis by simp
  next
    case False
    with "3.prems" v obtain vs' where
      r: "rle_frames fuel w (drop ((h div 2) * w) bs1) (Suc n - (h div 2) * 8) = Some (vs', rest)"
      and vs: "vs = unpack w ((h div 2) * 8) (take ((h div 2) * w) bs1) @ vs'"
      and c: "\<not> length bs1 < (h div 2) * w"
      by (auto split: option.splits if_splits)
    from "3.IH"(2) [OF v refl False c r] vs show ?thesis by (simp add: unpack_length)
  qed
qed simp_all

lemma plain_values_length: "plain_values t n bs = Some (vs, rest) \<Longrightarrow> length vs = n"
  by (induction t n bs arbitrary: vs rest rule: plain_values.induct)
     (auto simp: Let_def split: if_splits option.splits)

lemma example_codecs_exact':
  assumes "PARQUET_CODEC (example_lib files) encoding = Some dec"
      and "dec type cur n opts = Inr (vs, cur')"
  shows "int (length vs) = n"
proof -
  from assms(1) have "dec = plain_decodeValues \<or> dec = rle_decodeValues"
    by (auto simp: example_lib_def ex_codecs_def split: if_splits)
  then show ?thesis
  proof
    assume "dec = plain_decodeValues"
    with assms(2) show ?thesis
      by (auto simp: plain_decodeValues_def split: option.splits if_splits
          dest: plain_values_length)
  next
    assume "dec = rle_decodeValues"
    with assms(2) show ?thesis
      by (auto simp: rle_decodeValues_def split: option.splits if_splits list.splits
          dest!: rle_frames_length)
  qed
qed

lemma example_codecs_exact:
  "\<forall>encoding dec type cur n opts vs cur'.
     PARQUET_CODEC (example_lib files) encoding = Some dec \<longrightarrow>
     dec type cur n opts = Inr (vs, cur') \<longrightarrow> int (length vs) = n"
  using example_codecs_exact' by blast

subsection \<open>The level streams of a page\<close>

lemma decodeLevels_exact:
  assumes codecs: "\<forall>encoding dec type cur n opts vs cur'.
                     PARQUET_CODEC lib encoding = Some dec \<longrightarrow>
                     dec type cur n opts = Inr (vs, cur') \<longrightarrow> int (length vs) = n"
      and "decodeLevels lib levelMax encoding noEnvelope cur n = Inr (vs, cur')"
  shows "int (length vs) = n
         \<and> (0 < levelMax \<longrightarrow>
              decodeValues lib (Some ''INT32'') encoding cur n
                (level_options (getBitWidth lib levelMax) noEnvelope) = Inr (vs, cur'))
         \<and> (\<not> 0 < levelMax \<longrightarrow> cur' = cur)"
proof (cases "0 < levelMax")
  case True
  with assms(2) have d: "decodeValues lib (Some ''INT32'') encoding cur n
                (level_options (getBitWidth lib levelMax) noEnvelope) = Inr (vs, cur')"
    by (simp add: decodeLevels_def PARQUET_RDLVL_TYPE_def level_options_def)
  then obtain dec where "PARQUET_CODEC lib encoding = Some dec"
     and "dec (Some ''INT32'') cur n (level_options (getBitWidth lib levelMax) noEnvelope)
            = Inr (vs, cur')"
    by (auto simp: decodeValues_def split: option.splits)
  with codecs have "int (length vs) = n" by blast
  with d True show ?thesis by simp
next
  case False
  with assms(2) show ?thesis
    by (auto simp: decodeLevels_def new_Int32Array_def bindE_def split: if_splits)
qed

lemma v1_page:
  "decodeDataPage (example_lib []) (cursor_at v1_body 0) (page_header 22) repeated_int32
     ''UNCOMPRESSED'' = Inr (example_page, cursor_at v1_body 22)"
  by (simp add: decodeDataPage_def v1_body_def example_eval)

lemma v2_page:
  "decodeDataPageV2 (example_lib []) (cursor_at v2_body 0) (page_header 14) repeated_int32
     ''UNCOMPRESSED'' = Inr (example_page, cursor_at v2_body 14)"
  by (simp add: decodeDataPageV2_def v2_body_def example_eval)

text \<open>
  Claim C4. The page decoder honours both framings of the level streams. Let every
  codec of the table return exactly the number of values it is asked for. If
  \<open>decodeDataPage\<close> (data page v1) returns a page, then each level stream of a column
  with a positive maximum level is what the codec named in the page header returns for
  \<open>num_values\<close> values with \<open>disableEnvelope = false\<close>, the repetition levels read from the
  data cursor and the definition levels from where the repetition levels ended. If
  \<open>decodeDataPageV2\<close> returns a page, each such stream is what the \<open>RLE\<close> codec returns
  for \<open>num_values\<close> values with \<open>disableEnvelope = true\<close>, read from the chunk cursor. In
  both cases each of the two level streams of the page has exactly \<open>num_values\<close>
  entries.
\<close>

theorem page_level_framings:
  assumes codecs: "\<forall>encoding dec type cur n opts vs cur'.
                     PARQUET_CODEC lib encoding = Some dec \<longrightarrow>
                     dec type cur n opts = Inr (vs, cur') \<longrightarrow> int (length vs) = n"
  shows "(decodeDataPage lib cursor header column compression = Inr (page, cursor') \<longrightarrow>
           (\<exists>dph dataCursor rEnc dEnc cursor1 cursor2.
              data_page_header header = Some dph
              \<and> (if compression \<noteq> ''UNCOMPRESSED''
                  then inflated_cursor lib compression cursor
                         (cb_offset cursor + compressed_page_size header) header
                  else Inr cursor) = Inr dataCursor
              \<and> getThriftEnum lib Encoding (Some (dph_repetition_level_encoding dph)) = Inr rEnc
              \<and> getThriftEnum lib Encoding (Some (dph_definition_level_encoding dph)) = Inr dEnc
              \<and> (0 < rLevelMax column \<longrightarrow>
                   decodeValues lib (Some ''INT32'') rEnc dataCursor (dph_num_values dph)
                     (level_options (getBitWidth lib (rLevelMax column)) False)
                   = Inr (rLevels page, cursor1))
              \<and> (\<not> 0 < rLevelMax column \<longrightarrow> cursor1 = dataCursor)
              \<and> (0 < dLevelMax column \<longrightarrow>
                   decodeValues lib (Some ''INT32'') dEnc cursor1 (dph_num_values dph)
                     (level_options (getBitWidth lib (dLevelMax column)) False)
                   = Inr (dLevels page, cursor2))
              \<and> int (length (rLevels page)) = dph_num_values dph
              \<and> int (length (dLevels page)) = dph_num_values dph))
       \<and> (decodeDataPageV2 lib cursor header column compression = Inr (page, cursor') \<longrightarrow>
           (\<exists>dph cursor1 cursor2.
              data_page_header_v2 header = Some dph
              \<and> (0 < rLevelMax column \<longrightarrow>
                   decodeValues lib (Some ''INT32'') ''RLE'' cursor (dph2_num_values dph)
                     (level_options (getBitWidth lib (rLevelMax column)) True)
                   = Inr (rLevels page, cursor1))
              \<and> (\<not> 0 < rLevelMax column \<longrightarrow> cursor1 = cursor)
              \<and> (0 < dLevelMax column \<longrightarrow>
                   decodeValues lib (Some ''INT32'') ''RLE'' cursor1 (dph2_num_values dph)
                     (level_options (getBitWidth lib (dLevelMax column)) True)
                   = Inr (dLevels page, cursor2))
              \<and> int (length (rLevels page)) = dph2_num_values dph
              \<and> int (length (dLevels page)) = dph2_num_values dph))"
proof (intro conjI impI)
  assume "decodeDataPage lib cursor header column compression = Inr (page, cursor')"
  then obtain dph dataCursor rEnc dEnc rl dl cursor1 cursor2 where
    h: "data_page_header header = Some dph"
    and dc: "(if compression \<noteq> ''UNCOMPRESSED''
              then inflated_cursor lib compression cursor
                     (cb_offset cursor + compressed_page_size header) header
              else Inr cursor) = Inr dataCursor"
    and re: "getThriftEnum lib Encoding (Some (dph_repetition_level_encoding dph)) = Inr rEnc"
    and rs: "decodeLevels lib (rLevelMax column) rEnc False dataCursor (dph_num_values dph)
               = Inr (rl, cursor1)"
    and de: "getThriftEnum lib Encoding (Some (dph_definition_level_encoding dph)) = Inr dEnc"
    and ds: "decodeLevels lib (dLevelMax column) dEnc False cursor1 (dph_num_values dph)
               = Inr (dl, cursor2)"
    and pg: "rLevels page = rl" "dLevels page = dl"
    unfolding decodeDataPage_def Let_def
    by (auto simp: bindE_Inr split: option.splits)
  from decodeLevels_exact [OF codecs rs] decodeLevels_exact [OF codecs ds] h dc re de pg
  show "\<exists>dph dataCursor rEnc dEnc cursor1 cursor2.
              data_page_header header = Some dph
              \<and> (if compression \<noteq> ''UNCOMPRESSED''
                  then inflated_cursor lib compression cursor
                         (cb_offset cursor + compressed_page_size header) header
                  else Inr cursor) = Inr dataCursor
              \<and> getThriftEnum lib Encoding (Some (dph_repetition_level_encoding dph)) = Inr rEnc
              \<and> getThriftEnum lib Encoding (Some (dph_definition_level_encoding dph)) = Inr dEnc
              \<and> (0 < rLevelMax column \<longrightarrow>
                   decodeValues lib (Some ''INT32'') rEnc dataCursor (dph_num_values dph)
                     (level_options (getBitWidth lib (rLevelMax column)) False)
                   = Inr (rLevels page, cursor1))
              \<and> (\<not> 0 < rLevelMax column \<longrightarrow> cursor1 = dataCursor)
              \<and> (0 < dLevelMax column \<longrightarrow>
                   decodeValues lib (Some ''INT32'') dEnc cursor1 (dph_num_values dph)
                     (level_options (getBitWidth lib (dLevelMax column)) False)
                   = Inr (dLevels page, cursor2))
              \<and> int (length (rLevels page)) = dph_num_values dph
              \<and> int (length (dLevels page)) = dph_num_values dph"
    by blast
next
  assume "decodeDataPageV2 lib cursor header column compression = Inr (page, cursor')"
  then obtain dph rl dl cursor1 cursor2 where
    h: "data_page_header_v2 header = Some dph"
    and rs: "decodeLevels lib (rLevelMax column) ''RLE'' True cursor (dph2_num_values dph)
               = Inr (rl, cursor1)"
    and ds: "decodeLevels lib (dLevelMax column) ''RLE'' True cursor1 (dph2_num_values dph)
               = Inr (dl, cursor2)"
    and pg: "rLevels page = rl" "dLevels page = dl"
    unfolding decodeDataPageV2_def Let_def PARQUET_RDLVL_ENCODING_def
    by (auto simp: bindE_Inr split: option.splits)
  from decodeLevels_exact [OF codecs rs] decodeLevels_exact [OF codecs ds] h pg
  show "\<exists>dph cursor1 cursor2.
              data_page_header_v2 header = Some dph
              \<and> (0 < rLevelMax column \<longrightarrow>
                   decodeValues lib (Some ''INT32'') ''RLE'' cursor (dph2_num_values dph)
                     (level_options (getBitWidth lib (rLevelMax column)) True)
                   = Inr (rLevels page, cursor1))
              \<and> (\<not> 0 < rLevelMax column \<longrightarrow> cursor1 = cursor)
              \<and> (0 < dLevelMax column \<longrightarrow>
                   decodeValues lib (Some ''INT32'') ''RLE'' cursor1 (dph2_num_values dph)
                     (level_options (getBitWidth lib (dLevelMax column)) True)
                   = Inr (dLevels page, cursor2))
              \<and> int (length (rLevels page)) = dph2_num_values dph
              \<and> int (length (dLevels page)) = dph2_num_values dph"
    by blast
qed

theorem page_level_framings_witness:
  "decodeDataPage (example_lib []) (cursor_at v1_body 0) (page_header 22) repeated_int32
     ''UNCOMPRESSED'' = Inr (example_page, cursor_at v1_body 22)
   \<and> (\<exists>cursor1 cursor2.
         decodeValues (example_lib []) (Some ''INT32'') ''RLE'' (cursor_at v1_body 0) 3
           (level_options 1 False) = Inr ([PNumber 0, PNumber 1, PNumber 0], cursor1)
         \<and> decodeValues (example_lib []) (Some ''INT32'') ''RLE'' cursor1 3
             (level_options 1 False) = Inr ([PNumber 1, PNumber 1, PNumber 0], cursor2))
   \<and> decodeDataPageV2 (example_lib []) (cursor_at v2_body 0) (page_header 14) repeated_int32
       ''UNCOMPRESSED'' = Inr (example_page, cursor_at v2_body 14)
   \<and> (\<exists>cursor1 cursor2.
         decodeValues (example_lib []) (Some ''INT32'') ''RLE'' (cursor_at v2_body 0) 3
           (level_options 1 True) = Inr ([PNumber 0, PNumber 1, PNumber 0], cursor1)
         \<and> decodeValues (example_lib []) (Some ''INT32'') ''RLE'' cursor1 3
             (level_options 1 True) = Inr ([PNumber 1, PNumber 1, PNumber 0], cursor2))"
proof -
  let ?L = "example_lib [] :: (ParquetSchema, pvalue jsval) Imports"
  have w: "getBitWidth ?L 1 = 1"
    by (simp add: example_lib_def ex_getBitWidth_def)
  have enc: "getThriftEnum ?L Encoding (Some 3) = Inr ''RLE''"
    by (simp add: example_lib_def ex_getThriftEnum_def thrift_names_def)
  from page_level_framings [OF example_codecs_exact, of "[]" "cursor_at v1_body 0"
      "page_header 22" repeated_int32 "''UNCOMPRESSED''" example_page "cursor_at v1_body 22"]
    v1_page
  obtain dph dataCursor rEnc dEnc cursor1 cursor2 where
    "data_page_header (page_header 22) = Some dph"
    "(if ''UNCOMPRESSED'' \<noteq> ''UNCOMPRESSED''
      then inflated_cursor ?L ''UNCOMPRESSED'' (cursor_at v1_body 0)
             (cb_offset (cursor_at v1_body 0) + compressed_page_size (page_header 22))
             (page_header 22)
      else Inr (cursor_at v1_body 0)) = Inr dataCursor"
    "getThriftEnum ?L Encoding (Some (dph_repetition_level_encoding dph)) = Inr rEnc"
    "getThriftEnum ?L Encoding (Some (dph_definition_level_encoding dph)) = Inr dEnc"
    "0 < rLevelMax repeated_int32 \<longrightarrow>
       decodeValues ?L (Some ''INT32'') rEnc dataCursor (dph_num_values dph)
         (level_options (getBitWidth ?L (rLevelMax repeated_int32)) False)
       = Inr (rLevels example_page, cursor1)"
    "0 < dLevelMax repeated_int32 \<longrightarrow>
       decodeValues ?L (Some ''INT32'') dEnc cursor1 (dph_num_values dph)
         (level_options (getBitWidth ?L (dLevelMax repeated_int32)) False)
       = Inr (dLevels example_page, cursor2)"
    by blast
  with w enc have a:
    "\<exists>cursor1 cursor2.
         decodeValues ?L (Some ''INT32'') ''RLE'' (cursor_at v1_body 0) 3
           (level_options 1 False) = Inr ([PNumber 0, PNumber 1, PNumber 0], cursor1)
         \<and> decodeValues ?L (Some ''INT32'') ''RLE'' cursor1 3
             (level_options 1 False) = Inr ([PNumber 1, PNumber 1, PNumber 0], cursor2)"
    by (auto simp: page_header_def repeated_int32_def example_page_def)
  from page_level_framings [OF example_codecs_exact, of "[]" "cursor_at v2_body 0"
      "page_header 14" repeated_int32 "''UNCOMPRESSED''" example_page "cursor_at v2_body 14"]
    v2_page
  obtain dph cursor1 cursor2 where
    "data_page_header_v2 (page_header 14) = Some dph"
    "0 < rLevelMax repeated_int32 \<longrightarrow>
       decodeValues ?L (Some ''INT32'') ''RLE'' (cursor_at v2_body 0) (dph2_num_values dph)
         (level_options (getBitWidth ?L (rLevelMax repeated_int32)) True)
       = Inr (rLevels example_page, cursor1)"
    "0 < dLevelMax repeated_int32 \<longrightarrow>
       decodeValues ?L (Some ''INT32'') ''RLE'' cursor1 (dph2_num_values dph)
         (level_options (getBitWidth ?L (dLevelMax repeated_int32)) True)
       = Inr (dLevels example_page, cursor2)"
    by blast
  with w have b:
    "\<exists>cursor1 cursor2.
         decodeValues ?L (Some ''INT32'') ''RLE'' (cursor_at v2_body 0) 3
           (level_options 1 True) = Inr ([PNumber 0, PNumber 1, PNumber 0], cursor1)
         \<and> decodeValues ?L (Some ''INT32'') ''RLE'' cursor1 3
             (level_options 1 True) = Inr ([PNumber 1, PNumber 1, PNumber 0], cursor2)"
    by (auto simp: page_header_def repeated_int32_def example_page_def)
  from v1_page a v2_page b show ?thesis by blast
qed

subsection \<open>Unsupported pages\<close>

text \<open>
  The header the loop of \<open>decodeDataPages\<close> decodes is the one at the start of the
  chunk, in every iteration. When that header declares a page type other than
  \<open>DATA_PAGE\<close> and \<open>DATA_PAGE_V2\<close>, decoding the chunk fails in the first iteration.
\<close>

lemma unsupported_first_header:
  assumes "buffer \<noteq> []"
      and "decodePageHeader lib buffer = Inr (pageHeader, len)"
      and "getThriftEnum lib PageType (Some (ph_type pageHeader)) = Inr pageType"
      and "pageType \<noteq> ''DATA_PAGE''" and "pageType \<noteq> ''DATA_PAGE_V2''"
  shows "decodeDataPages lib buffer column compression
           = Some (Inl (Error (''Unsupported data page type '' @ pageType)))"
  unfolding decodeDataPages_def using assms
  by (subst decodeDataPages_loop.simps)
     (simp add: decodeDataPages_init_def decodeDataPages_step_def bindE_def)

lemma dictionary_page_first:
  "decodeDataPages (example_lib []) [2, 0] int32_column ''UNCOMPRESSED''
     = Some (Inl (Error ''Unsupported data page type DICTIONARY_PAGE''))"
  using unsupported_first_header [of "[2, 0]" "example_lib []" _ 2 "''DICTIONARY_PAGE''"
      int32_column "''UNCOMPRESSED''"]
  by (simp add: example_lib_def ex_decodePageHeader_def ex_getThriftEnum_def thrift_names_def)

lemma two_pages_second_header:
  "bindE (decodePageHeader (example_lib []) (drop 6 two_pages))
     (\<lambda>(pageHeader, len).
        getThriftEnum (example_lib []) PageType (Some (ph_type pageHeader)))
     = Inr ''DICTIONARY_PAGE''"
  by (simp add: two_pages_def example_lib_def ex_decodePageHeader_def ex_getThriftEnum_def
      thrift_names_def bindE_def)

lemma two_pages_first_step:
  "decodeDataPages_step (example_lib []) int32_column ''UNCOMPRESSED''
     (decodeDataPages_init two_pages)
     = Inr \<lparr>ps_cursor = cursor_at two_pages 6, rLevelPages = [[PNumber 0]],
            dLevelPages = [[PNumber 0]], valuePages = [[PNumber 7]], ps_count = 1\<rparr>"
  by (simp add: two_pages_def decodeDataPages_init_def decodeDataPages_step_def
      decodeDataPage_def int32_column_def ex_decodePageHeader_def new_Int32Array_def
      example_eval)

lemma two_pages_decoded:
  "decodeDataPages (example_lib []) two_pages int32_column ''UNCOMPRESSED''
     = Some (Inr \<lparr>dLevels = [PNumber 0, PNumber 0], rLevels = [PNumber 0, PNumber 0],
                  values' = [PNumber 7, PNumber 9], rd_count = 2\<rparr>)"
  apply (simp add: decodeDataPages_def)
  apply (subst decodeDataPages_loop.simps)
  apply (simp add: two_pages_first_step)
  apply (simp add: decodeDataPages_init_def two_pages_def)
  apply (subst decodeDataPages_loop.simps)
  apply (simp add: decodeDataPages_step_def decodeDataPage_def int32_column_def
      ex_decodePageHeader_def new_Int32Array_def example_eval)
  apply (subst decodeDataPages_loop.simps)
  apply (simp add: decodeDataPages_result_def concatValueArrays_def)
  done

text \<open>
  Claim C7. The claim does not hold of \<open>decodeDataPages\<close>: only a page type declared by
  the header at the start of the chunk is rejected. The loop calls
  \<open>Util.decodePageHeader(cursor.buffer)\<close>, which decodes from the start of the buffer
  whatever the offset of the cursor is, so every iteration sees the header of the first
  page. In the chunk \<open>two_pages\<close> the first page is a data page that ends at offset 6,
  where the header of a \<open>DICTIONARY_PAGE\<close> follows: decoding the chunk does not fail, and
  the bytes of the second page come back as a value of the column. A chunk that starts
  with the same \<open>DICTIONARY_PAGE\<close> header is rejected.
\<close>

theorem later_page_type_unchecked:
  "decodeDataPages_step (example_lib []) int32_column ''UNCOMPRESSED''
     (decodeDataPages_init two_pages)
     = Inr \<lparr>ps_cursor = cursor_at two_pages 6, rLevelPages = [[PNumber 0]],
            dLevelPages = [[PNumber 0]], valuePages = [[PNumber 7]], ps_count = 1\<rparr>
   \<and> bindE (decodePageHeader (example_lib []) (drop 6 two_pages))
       (\<lambda>(pageHeader, len).
          getThriftEnum (example_lib []) PageType (Some (ph_type pageHeader)))
       = Inr ''DICTIONARY_PAGE''
   \<and> decodeDataPages (example_lib []) two_pages int32_column ''UNCOMPRESSED''
       = Some (Inr \<lparr>dLevels = [PNumber 0, PNumber 0], rLevels = [PNumber 0, PNumber 0],
                    values' = [PNumber 7, PNumber 9], rd_count = 2\<rparr>)
   \<and> decodeDataPages (example_lib []) [2, 0] int32_column ''UNCOMPRESSED''
       = Some (Inl (Error ''Unsupported data page type DICTIONARY_PAGE''))"
  using two_pages_first_step two_pages_second_header two_pages_decoded dictionary_page_first
  by simp

subsection \<open>External column chunks\<close>

lemma chunk_a_field:
  "decodeColumnChunk_field (example_lib []) schema_a chunk_a = Inr (int32_column, ''UNCOMPRESSED'')"
  by (simp add: decodeColumnChunk_field_def chunk_a_def chunk_a_metadata_def schema_a_def
      example_lib_def ex_findField_def primitive_of_def ex_getThriftEnum_def thrift_names_def
      bindE_def int32_column_def)

lemma pages_a:
  "decodeDataPages (example_lib []) [0, 1, 7, 0, 0, 0] int32_column ''UNCOMPRESSED''
     = Some (Inr \<lparr>dLevels = [PNumber 0], rLevels = [PNumber 0], values' = [PNumber 7],
                  rd_count = 1\<rparr>)"
  apply (simp add: decodeDataPages_def decodeDataPages_init_def)
  apply (subst decodeDataPages_loop.simps)
  apply (simp add: decodeDataPages_step_def decodeDataPage_def int32_column_def
      ex_decodePageHeader_def new_Int32Array_def example_eval)
  apply (subst decodeDataPages_loop.simps)
  apply (simp add: decodeDataPages_result_def concatValueArrays_def)
  done

lemma decode_chunk_a:
  "decodeColumnChunk (example_lib []) schema_a chunk_a [0, 1, 7, 0, 0, 0]
     = Some (Inr \<lparr>dLevels = [PNumber 0], rLevels = [PNumber 0], values' = [PNumber 7],
                  rd_count = 1\<rparr>)"
  by (simp add: decodeColumnChunk_def chunk_a_field pages_a)

text \<open>
  Claim C9. For a column chunk whose \<open>file_path\<close> is set, \<open>readColumnChunk\<close> of both
  envelope readers throws \<open>external references are not supported\<close> and reads nothing
  (its read trace is empty). For a chunk without \<open>file_path\<close> it reads the bytes of the
  chunk, once, and returns what \<open>decodeColumnChunk\<close> makes of them.
\<close>

theorem readColumnChunk_external:
  "(file_path colChunk \<noteq> None \<longrightarrow>
      readColumnChunk lib er sch colChunk
        = (Some (Inl (Error ''external references are not supported'')), [])
    \<and> ebr_readColumnChunk lib ber sch colChunk
        = (Some (Inl (Error ''external references are not supported'')), []))
   \<and> (file_path colChunk = None \<and> meta_data colChunk = Some md \<longrightarrow>
      readColumnChunk lib er sch colChunk
        = ((case er_read er (cm_data_page_offset md) (cm_total_compressed_size md) of
              Inl e \<Rightarrow> Some (Inl e)
            | Inr pagesBuf \<Rightarrow> decodeColumnChunk lib sch colChunk pagesBuf),
           [(cm_data_page_offset md, cm_total_compressed_size md)])
    \<and> ebr_readColumnChunk lib ber sch colChunk
        = (decodeColumnChunk lib sch colChunk
             (Buffer_slice (ebr_buffer ber) (cm_data_page_offset md)
                (cm_data_page_offset md + cm_total_compressed_size md)),
           [(cm_data_page_offset md, cm_total_compressed_size md)]))"
  by (auto simp: readColumnChunk_def ebr_readColumnChunk_def io_pure_def io_read_def
      ebr_read_def io_bind_simps split: sum.splits)

theorem readColumnChunk_external_witness:
  "file_path external_chunk \<noteq> None
   \<and> readColumnChunk (example_lib []) (ParquetEnvelopeReader_openBuffer file_a) schema_a
       external_chunk
       = (Some (Inl (Error ''external references are not supported'')), [])
   \<and> ebr_readColumnChunk (example_lib []) \<lparr>ebr_buffer = file_a\<rparr> schema_a external_chunk
       = (Some (Inl (Error ''external references are not supported'')), [])
   \<and> file_path chunk_a = None
   \<and> readColumnChunk (example_lib []) (ParquetEnvelopeReader_openBuffer file_a) schema_a chunk_a
       = (Some (Inr \<lparr>dLevels = [PNumber 0], rLevels = [PNumber 0], values' = [PNumber 7],
                     rd_count = 1\<rparr>), [(4, 6)])
   \<and> ebr_readColumnChunk (example_lib []) \<lparr>ebr_buffer = file_a\<rparr> schema_a chunk_a
       = (Some (Inr \<lparr>dLevels = [PNumber 0], rLevels = [PNumber 0], values' = [PNumber 7],
                     rd_count = 1\<rparr>), [(4, 6)])"
proof -
  let ?L = "example_lib [] :: (ParquetSchema, pvalue jsval) Imports"
  let ?er = "ParquetEnvelopeReader_openBuffer file_a"
  let ?ber = "\<lparr>ebr_buffer = file_a\<rparr>"
  have ext: "file_path external_chunk \<noteq> None"
    by (simp add: external_chunk_def)
  have a: "file_path chunk_a = None \<and> meta_data chunk_a = Some chunk_a_metadata"
    by (simp add: chunk_a_def)
  have slice: "Buffer_slice file_a 4 10 = [0, 1, 7, 0, 0, 0]"
    by (simp add: Buffer_slice_def file_a_def)
  have rd: "er_read ?er 4 6 = Inr [0, 1, 7, 0, 0, 0]"
    using slice by (simp add: ParquetEnvelopeReader_openBuffer_def)
  have e12: "readColumnChunk ?L ?er schema_a external_chunk
             = (Some (Inl (Error ''external references are not supported'')), [])
        \<and> ebr_readColumnChunk ?L ?ber schema_a external_chunk
             = (Some (Inl (Error ''external references are not supported'')), [])"
    by (rule readColumnChunk_external [THEN conjunct1, THEN mp, OF ext])
  have e34: "readColumnChunk ?L ?er schema_a chunk_a
        = ((case er_read ?er (cm_data_page_offset chunk_a_metadata)
                   (cm_total_compressed_size chunk_a_metadata) of
              Inl e \<Rightarrow> Some (Inl e)
            | Inr pagesBuf \<Rightarrow> decodeColumnChunk ?L schema_a chunk_a pagesBuf),
           [(cm_data_page_offset chunk_a_metadata, cm_total_compressed_size chunk_a_metadata)])
      \<and> ebr_readColumnChunk ?L ?ber schema_a chunk_a
        = (decodeColumnChunk ?L schema_a chunk_a
             (Buffer_slice (ebr_buffer ?ber) (cm_data_page_offset chunk_a_metadata)
                (cm_data_page_offset chunk_a_metadata
                 + cm_total_compressed_size chunk_a_metadata)),
           [(cm_data_page_offset chunk_a_metadata, cm_total_compressed_size chunk_a_metadata)])"
    by (rule readColumnChunk_external [THEN conjunct2, THEN mp, OF a])
  have off: "cm_data_page_offset chunk_a_metadata = 4"
    and sz: "cm_total_compressed_size chunk_a_metadata = 6"
    by (simp_all add: chunk_a_metadata_def)
  have e3a: "readColumnChunk ?L ?er schema_a chunk_a
       = (Some (Inr \<lparr>dLevels = [PNumber 0], rLevels = [PNumber 0], values' = [PNumber 7],
                     rd_count = 1\<rparr>), [(4, 6)])"
    using e34 [THEN conjunct1] by (simp add: off sz rd decode_chunk_a)
  have e4a: "ebr_readColumnChunk ?L ?ber schema_a chunk_a
       = (Some (Inr \<lparr>dLevels = [PNumber 0], rLevels = [PNumber 0], values' = [PNumber 7],
                     rd_count = 1\<rparr>), [(4, 6)])"
    using e34 [THEN conjunct2] by (simp add: off sz slice decode_chunk_a)
  have fa: "file_path chunk_a = None" by (simp add: chunk_a_def)
  show ?thesis
    using ext e12 fa e3a e4a by simp
qed

subsection \<open>The version of the footer\<close>

lemma decodeSchema_loop_returns:
  "\<exists>r. decodeSchema_loop lib elems len i nxt sch = Some r
       \<and> (\<forall>s n. r = Inr (s, n) \<longrightarrow> nxt \<le> n)"
proof (induction "length elems - nxt" arbitrary: len i nxt sch rule: less_induct)
  case less
  show ?case
  proof (cases "i < len \<and> nxt < length elems")
    case False
    then show ?thesis
      by (subst decodeSchema_loop.simps) auto
  next
    case True
    then have lt: "i < len" "nxt < length elems" by auto
    let ?e = "elems ! nxt"
    let ?rep = "if nxt > 0 then getThriftEnum lib FieldRepetitionType (se_repetition_type ?e)
                else Inr ''ROOT''"
    show ?thesis
    proof (cases ?rep)
      case (Inl e)
      then show ?thesis using lt
        by (subst decodeSchema_loop.simps) auto
    next
      case (Inr rt)
      show ?thesis
      proof (cases "num_children ?e > 0")
        case group: True
        have m1: "length elems - (nxt + 1) < length elems - nxt" using lt by arith
        from less [OF m1] obtain r1 where
          r1: "decodeSchema_loop lib elems (num_children ?e) 0 (nxt + 1) [] = Some r1"
          and r1n: "\<forall>s n. r1 = Inr (s, n) \<longrightarrow> nxt + 1 \<le> n"
          by blast
        show ?thesis
        proof (cases r1)
          case (Inl e)
          then show ?thesis using lt Inr group r1
            by (subst decodeSchema_loop.simps) auto
        next
          case r1r: (Inr p)
          obtain sub n1 where p: "p = (sub, n1)" by (cases p)
          with r1n r1r have n1: "nxt + 1 \<le> n1" by simp
          then have m2: "length elems - n1 < length elems - nxt" using lt by arith
          from less [OF m2] obtain r2 where
            r2: "decodeSchema_loop lib elems len (i + 1) n1
                   (object_set (se_name ?e)
                      (FieldDefinition None None (rt = ''OPTIONAL'') (rt = ''REPEATED'')
                         (Some sub)) sch) = Some r2"
            and r2n: "\<forall>s n. r2 = Inr (s, n) \<longrightarrow> n1 \<le> n"
            by blast
          have "decodeSchema_loop lib elems len i nxt sch = Some r2"
            using lt Inr group r1 r1r p r2
            by (subst decodeSchema_loop.simps) simp
          moreover have "\<forall>s n. r2 = Inr (s, n) \<longrightarrow> nxt \<le> n"
            using r2n n1 by auto
          ultimately show ?thesis by blast
        qed
      next
        case leaf: False
        let ?lt = "bindE (getThriftEnum lib Type (se_type ?e))
                     (\<lambda>primitive.
                        if se_converted_type ?e \<noteq> None
                        then getThriftEnum lib ConvertedType (se_converted_type ?e)
                        else Inr primitive)"
        show ?thesis
        proof (cases ?lt)
          case (Inl e)
          then show ?thesis using lt Inr leaf
            by (subst decodeSchema_loop.simps) auto
        next
          case lt': (Inr logicalType)
          have m1: "length elems - (nxt + 1) < length elems - nxt" using lt by arith
          from less [OF m1] obtain r2 where
            r2: "decodeSchema_loop lib elems len (i + 1) (nxt + 1)
                   (object_set (se_name ?e)
                      (FieldDefinition (Some logicalType) (se_type_length ?e)
                         (rt = ''OPTIONAL'') (rt = ''REPEATED'') None) sch) = Some r2"
            and r2n: "\<forall>s n. r2 = Inr (s, n) \<longrightarrow> nxt + 1 \<le> n"
            by blast
          have "decodeSchema_loop lib elems len i nxt sch = Some r2"
            using lt Inr leaf lt' r2
            by (subst decodeSchema_loop.simps) simp
          moreover have "\<forall>s n. r2 = Inr (s, n) \<longrightarrow> nxt \<le> n"
            using r2n by auto
          ultimately show ?thesis by blast
        qed
      qed
    qed
  qed
qed

lemma decode_file_schema_returns: "\<exists>r. decode_file_schema lib metadata = Some r"
proof (cases "schema metadata")
  case Nil
  then show ?thesis by (simp add: decode_file_schema_def)
next
  case (Cons root rest)
  obtain r where "decodeSchema lib (schema metadata) 1 (num_children root) = Some r"
    using decodeSchema_loop_returns [of lib "schema metadata" "num_children root" 0 1 "[]"]
    by (auto simp: decodeSchema_def)
  then show ?thesis using Cons
    by (cases r) (auto simp: decode_file_schema_def)
qed

lemma new_ParquetReader_version:
  "version metadata \<noteq> 1 \<Longrightarrow>
     new_ParquetReader lib metadata er = Some (Inl (Error ''invalid parquet version''))"
  by (simp add: new_ParquetReader_def PARQUET_VERSION_def)

lemma fst_open_with:
  "fst (open_with lib er) =
     (case fst (io_bind (readHeader er)
             (\<lambda>_. io_bind (readFooter lib er)
                (\<lambda>metadata. io_pure (new_ParquetReader lib metadata er)))) of
        Some (Inl err) \<Rightarrow> (case er_close er of Some err' \<Rightarrow> Some (Inl err') | None \<Rightarrow> Some (Inl err))
      | r \<Rightarrow> r)"
  by (auto simp: open_with_def split: prod.splits option.splits sum.splits)

lemma readHeader_returns: "\<exists>r. fst (readHeader er) = Some r"
  by (auto simp: readHeader_def fst_io_bind io_read_def fst_io_pure split: sum.splits)

lemma open_with_version:
  assumes "fst (readFooter lib er) = Some (Inr metadata)" and "version metadata \<noteq> 1"
  shows "\<exists>e. fst (open_with lib er) = Some (Inl e)"
proof -
  obtain r where r: "fst (readHeader er) = Some r" using readHeader_returns by blast
  show ?thesis
    using assms r new_ParquetReader_version [OF assms(2), of lib er]
    by (cases r; cases "er_close er") (auto simp: fst_open_with fst_io_bind fst_io_pure)
qed

lemma buffer_reader_version:
  assumes "fst (ebr_readFooter lib \<lparr>ebr_buffer = buffer\<rparr>) = Some (Inr metadata)"
      and "version metadata \<noteq> 1"
  shows "fst (new_ParquetBufferReader lib buffer) = Some (Inl (Error ''invalid parquet version''))"
  using assms
  by (simp add: new_ParquetBufferReader_def fst_io_bind fst_io_pure PARQUET_VERSION_def)

lemma new_ParquetReader_returns:
  "\<exists>r. new_ParquetReader lib metadata er = Some r"
proof -
  obtain r where "decode_file_schema lib metadata = Some r"
    using decode_file_schema_returns by blast
  then show ?thesis
    by (cases r) (auto simp: new_ParquetReader_def)
qed

lemma open_with_reader:
  assumes "fst (readHeader er) = Some (Inr ())"
      and "fst (readFooter lib er) = Some (Inr metadata)"
  shows "(\<exists>r. fst (open_with lib er) = Some r)
         \<and> (\<forall>reader. fst (open_with lib er) = Some (Inr reader) \<longleftrightarrow>
                new_ParquetReader lib metadata er = Some (Inr reader))"
proof -
  obtain r where r: "new_ParquetReader lib metadata er = Some r"
    using new_ParquetReader_returns by blast
  show ?thesis
    using assms r
    by (cases r; cases "er_close er") (auto simp: fst_open_with fst_io_bind fst_io_pure)
qed

lemma buffer_reader_version_one:
  assumes "fst (ebr_readFooter lib \<lparr>ebr_buffer = buffer\<rparr>) = Some (Inr metadata)"
      and "version metadata = 1"
  shows "(\<exists>r. fst (new_ParquetBufferReader lib buffer) = Some r)
         \<and> (\<forall>reader. fst (new_ParquetBufferReader lib buffer) = Some (Inr reader) \<longleftrightarrow>
               (\<exists>root rest sch nxt ps.
                  schema metadata = root # rest
                  \<and> decodeSchema lib (schema metadata) 1 (num_children root)
                      = Some (Inr (sch, nxt))
                  \<and> new_ParquetSchema lib sch = Inr ps
                  \<and> reader = \<lparr>pbr_buffer = buffer,
                               pbr_envelopeReader = \<lparr>ebr_buffer = buffer\<rparr>,
                               pbr_metadata = metadata, pbr_schema = ps\<rparr>
                  \<and> pbr_getSchema reader = ps))"
proof -
  obtain r where r: "decode_file_schema lib metadata = Some r"
    using decode_file_schema_returns by blast
  have c: "fst (new_ParquetBufferReader lib buffer)
             = (case decode_file_schema lib metadata of
                  None \<Rightarrow> None
                | Some (Inl e) \<Rightarrow> Some (Inl e)
                | Some (Inr ps) \<Rightarrow>
                    Some (Inr \<lparr>pbr_buffer = buffer,
                               pbr_envelopeReader = \<lparr>ebr_buffer = buffer\<rparr>,
                               pbr_metadata = metadata, pbr_schema = ps\<rparr>))"
    using assms
    by (simp add: new_ParquetBufferReader_def fst_io_bind fst_io_pure PARQUET_VERSION_def)
  have "\<exists>r. fst (new_ParquetBufferReader lib buffer) = Some r"
    using c r by (cases r) auto
  moreover have "\<forall>reader. fst (new_ParquetBufferReader lib buffer) = Some (Inr reader) \<longleftrightarrow>
               (\<exists>root rest sch nxt ps.
                  schema metadata = root # rest
                  \<and> decodeSchema lib (schema metadata) 1 (num_children root)
                      = Some (Inr (sch, nxt))
                  \<and> new_ParquetSchema lib sch = Inr ps
                  \<and> reader = \<lparr>pbr_buffer = buffer,
                               pbr_envelopeReader = \<lparr>ebr_buffer = buffer\<rparr>,
                               pbr_metadata = metadata, pbr_schema = ps\<rparr>
                  \<and> pbr_getSchema reader = ps)"
    unfolding c
    by (auto simp: decode_file_schema_def pbr_getSchema_def
        split: list.splits option.splits sum.splits prod.splits)
  ultimately show ?thesis by blast
qed

lemma new_ParquetReader_version_one:
  assumes "version metadata = 1"
  shows "\<forall>reader. new_ParquetReader lib metadata er = Some (Inr reader) \<longleftrightarrow>
            (\<exists>root rest sch nxt ps.
               schema metadata = root # rest
               \<and> decodeSchema lib (schema metadata) 1 (num_children root) = Some (Inr (sch, nxt))
               \<and> new_ParquetSchema lib sch = Inr ps
               \<and> reader = \<lparr>pr_metadata = metadata, pr_envelopeReader = er, pr_schema = ps\<rparr>
               \<and> getSchema reader = ps)"
  using assms
  by (auto simp: new_ParquetReader_def PARQUET_VERSION_def decode_file_schema_def getSchema_def
      split: list.splits option.splits sum.splits prod.splits)

lemma openFile_open_with:
  "ParquetEnvelopeReader_openFile lib filePath = Inr er \<Longrightarrow>
     ParquetReader_openFile lib filePath = open_with lib er"
  by (simp add: ParquetReader_openFile_def)

text \<open>
  Claim C6. With a footer whose version is not 1, the constructor of \<open>ParquetReader\<close>
  throws \<open>invalid parquet version\<close>, \<open>openFile\<close> and \<open>openBuffer\<close> (which are \<open>open_with\<close>
  on their envelope reader) fail once the footer has been read, and the constructor of
  \<open>ParquetBufferReader\<close> throws the same error. With version 1 each of the two
  constructors returns; it returns a reader exactly when the schema list of the footer
  is not empty and \<open>decodeSchema\<close> and the constructor of \<open>ParquetSchema\<close> accept it, and
  that reader exposes the decoded schema; and \<open>openFile\<close> and \<open>openBuffer\<close>, once header
  and footer have been read, return a reader exactly when the constructor of
  \<open>ParquetReader\<close> does, and it is that reader.
\<close>

theorem version_gate:
  "(version metadata \<noteq> 1 \<longrightarrow>
      new_ParquetReader lib metadata er = Some (Inl (Error ''invalid parquet version''))
      \<and> (fst (readFooter lib er) = Some (Inr metadata) \<longrightarrow>
           (\<exists>e. fst (open_with lib er) = Some (Inl e)))
      \<and> (fst (ebr_readFooter lib \<lparr>ebr_buffer = buffer\<rparr>) = Some (Inr metadata) \<longrightarrow>
           fst (new_ParquetBufferReader lib buffer)
             = Some (Inl (Error ''invalid parquet version''))))
   \<and> (version metadata = 1 \<longrightarrow>
      (\<exists>r. new_ParquetReader lib metadata er = Some r)
      \<and> (\<forall>reader. new_ParquetReader lib metadata er = Some (Inr reader) \<longleftrightarrow>
            (\<exists>root rest sch nxt ps.
               schema metadata = root # rest
               \<and> decodeSchema lib (schema metadata) 1 (num_children root) = Some (Inr (sch, nxt))
               \<and> new_ParquetSchema lib sch = Inr ps
               \<and> reader = \<lparr>pr_metadata = metadata, pr_envelopeReader = er, pr_schema = ps\<rparr>
               \<and> getSchema reader = ps))
      \<and> (fst (readHeader er) = Some (Inr ()) \<longrightarrow>
           fst (readFooter lib er) = Some (Inr metadata) \<longrightarrow>
           (\<exists>r. fst (open_with lib er) = Some r)
           \<and> (\<forall>reader. fst (open_with lib er) = Some (Inr reader) \<longleftrightarrow>
                 new_ParquetReader lib metadata er = Some (Inr reader)))
      \<and> (fst (ebr_readFooter lib \<lparr>ebr_buffer = buffer\<rparr>) = Some (Inr metadata) \<longrightarrow>
           (\<exists>r. fst (new_ParquetBufferReader lib buffer) = Some r)
           \<and> (\<forall>reader. fst (new_ParquetBufferReader lib buffer) = Some (Inr reader) \<longleftrightarrow>
                 (\<exists>root rest sch nxt ps.
                    schema metadata = root # rest
                    \<and> decodeSchema lib (schema metadata) 1 (num_children root)
                        = Some (Inr (sch, nxt))
                    \<and> new_ParquetSchema lib sch = Inr ps
                    \<and> reader = \<lparr>pbr_buffer = buffer,
                                 pbr_envelopeReader = \<lparr>ebr_buffer = buffer\<rparr>,
                                 pbr_metadata = metadata, pbr_schema = ps\<rparr>
                    \<and> pbr_getSchema reader = ps))))
   \<and> ParquetReader_openBuffer lib buffer
       = open_with lib (ParquetEnvelopeReader_openBuffer buffer)
   \<and> (ParquetEnvelopeReader_openFile lib filePath = Inr er \<longrightarrow>
        ParquetReader_openFile lib filePath = open_with lib er)"
  (is "(_ \<longrightarrow> ?A1 \<and> ?A2 \<and> ?A3) \<and> (_ \<longrightarrow> ?B1 \<and> ?B2 \<and> ?B3 \<and> ?B4) \<and> ?C \<and> ?D")
proof -
  have a: "version metadata \<noteq> 1 \<longrightarrow> ?A1 \<and> ?A2 \<and> ?A3"
  proof
    assume v: "version metadata \<noteq> 1"
    have a1: ?A1
      using v by (rule new_ParquetReader_version)
    have a2: ?A2
      by (intro impI) (rule open_with_version, assumption, rule v)
    have a3: ?A3
      by (intro impI) (rule buffer_reader_version, assumption, rule v)
    show "?A1 \<and> ?A2 \<and> ?A3"
      by (rule conjI [OF a1 conjI [OF a2 a3]])
  qed
  have b: "version metadata = 1 \<longrightarrow> ?B1 \<and> ?B2 \<and> ?B3 \<and> ?B4"
  proof
    assume v: "version metadata = 1"
    have b1: ?B1
      by (rule new_ParquetReader_returns)
    have b2: ?B2
      using v by (rule new_ParquetReader_version_one)
    have b3: ?B3
      by (intro impI) (rule open_with_reader, assumption+)
    have b4: ?B4
      by (intro impI) (rule buffer_reader_version_one, assumption, rule v)
    show "?B1 \<and> ?B2 \<and> ?B3 \<and> ?B4"
      by (rule conjI [OF b1 conjI [OF b2 conjI [OF b3 b4]]])
  qed
  have c: ?C
    by (simp add: ParquetReader_openBuffer_def)
  have d: ?D
    by (intro impI) (rule openFile_open_with)
  show ?thesis
    by (rule conjI [OF a conjI [OF b conjI [OF c d]]])
qed

lemma decodeSchema_one_column:
  "decodeSchema (example_lib []) [root_element 1, column_element ''a'' 2] 1 1
     = Some (Inr ([(''a'', FieldDefinition (Some ''INT64'') None False False None)], 2))"
  by code_simp

lemma buildSchema_one_column:
  "new_ParquetSchema (example_lib [])
     [(''a'', FieldDefinition (Some ''INT64'') None False False None)]
     = Inr [Leaf ''a'' REQUIRED 0 0 ''INT64'']"
  by code_simp

lemma version_file_footers:
  "fst (readFooter (example_lib []) (ParquetEnvelopeReader_openBuffer (version_file v)))
     = Some (Inr (one_column_footer (uint v)))"
  "fst (ebr_readFooter (example_lib []) \<lparr>ebr_buffer = version_file v\<rparr>)
     = Some (Inr (one_column_footer (uint v)))"
  "fst (readHeader (ParquetEnvelopeReader_openBuffer (version_file v))) = Some (Inr ())"
  by (simp_all add: readFooter_def ebr_readFooter_def readHeader_def io_read_def ebr_read_def
      ParquetEnvelopeReader_openBuffer_def fst_io_bind fst_io_pure PARQUET_MAGIC_def
      Buffer_slice_def Buffer_slice_from_def version_file_def toString_is_def
      readUInt32LE0_def example_lib_def ex_decodeFileMetadata_def one_column_footer_def
      Let_def)

theorem version_gate_witness:
  "new_ParquetReader (example_lib []) (one_column_footer 2)
     (ParquetEnvelopeReader_openBuffer (version_file 2))
     = Some (Inl (Error ''invalid parquet version''))
   \<and> (\<exists>e. fst (ParquetReader_openBuffer (example_lib []) (version_file 2)) = Some (Inl e))
   \<and> fst (new_ParquetBufferReader (example_lib []) (version_file 2))
       = Some (Inl (Error ''invalid parquet version''))
   \<and> map_option (map_sum id getSchema)
        (new_ParquetReader (example_lib []) (one_column_footer 1)
           (ParquetEnvelopeReader_openBuffer (version_file 1)))
       = Some (Inr [Leaf ''a'' REQUIRED 0 0 ''INT64''])
   \<and> map_option (map_sum id getSchema)
        (fst (ParquetReader_openBuffer (example_lib []) (version_file 1)))
       = Some (Inr [Leaf ''a'' REQUIRED 0 0 ''INT64''])
   \<and> map_option (map_sum id pbr_getSchema)
        (fst (new_ParquetBufferReader (example_lib []) (version_file 1)))
       = Some (Inr [Leaf ''a'' REQUIRED 0 0 ''INT64''])"
proof -
  let ?L = "example_lib [] :: (ParquetSchema, pvalue jsval) Imports"
  let ?e1 = "ParquetEnvelopeReader_openBuffer (version_file 1)"
  let ?e2 = "ParquetEnvelopeReader_openBuffer (version_file 2)"
  let ?m1 = "one_column_footer 1"
  let ?m2 = "one_column_footer 2"
  let ?sch = "[Leaf ''a'' REQUIRED 0 0 ''INT64'']"
  have v2: "version ?m2 \<noteq> 1" and v1: "version ?m1 = 1"
    by (simp_all add: one_column_footer_def)
  have f2: "fst (readFooter ?L ?e2) = Some (Inr ?m2)"
    and b2: "fst (ebr_readFooter ?L \<lparr>ebr_buffer = version_file 2\<rparr>) = Some (Inr ?m2)"
    using version_file_footers [of 2] by simp_all
  have f1: "fst (readFooter ?L ?e1) = Some (Inr ?m1)"
    and b1: "fst (ebr_readFooter ?L \<lparr>ebr_buffer = version_file 1\<rparr>) = Some (Inr ?m1)"
    and h1: "fst (readHeader ?e1) = Some (Inr ())"
    using version_file_footers [of 1] by simp_all
  note t2 = version_gate [where metadata = ?m2 and lib = ?L and er = ?e2
      and buffer = "version_file 2" and filePath = "[]"]
  note t1 = version_gate [where metadata = ?m1 and lib = ?L and er = ?e1
      and buffer = "version_file 1" and filePath = "[]"]
  note ta = t2 [THEN conjunct1, THEN mp, OF v2]
  note tb = t1 [THEN conjunct2, THEN conjunct1, THEN mp, OF v1]
  have a2: "new_ParquetReader ?L ?m2 ?e2 = Some (Inl (Error ''invalid parquet version''))"
    by (rule ta [THEN conjunct1])
  have o2: "ParquetReader_openBuffer ?L (version_file 2) = open_with ?L ?e2"
    by (rule t2 [THEN conjunct2, THEN conjunct2, THEN conjunct1])
  have "\<exists>e. fst (open_with ?L ?e2) = Some (Inl e)"
    by (rule ta [THEN conjunct2, THEN conjunct1, THEN mp, OF f2])
  with o2 have c2: "\<exists>e. fst (ParquetReader_openBuffer ?L (version_file 2)) = Some (Inl e)"
    by simp
  have d2: "fst (new_ParquetBufferReader ?L (version_file 2))
              = Some (Inl (Error ''invalid parquet version''))"
    by (rule ta [THEN conjunct2, THEN conjunct2, THEN mp, OF b2])
  let ?rd = "\<lparr>pr_metadata = ?m1, pr_envelopeReader = ?e1, pr_schema = ?sch\<rparr>"
  let ?brd = "\<lparr>pbr_buffer = version_file 1,
               pbr_envelopeReader = \<lparr>ebr_buffer = version_file 1\<rparr>,
               pbr_metadata = ?m1, pbr_schema = ?sch\<rparr>"
  have s: "schema ?m1 = root_element 1 # [column_element ''a'' 2]"
    and ds: "decodeSchema ?L (schema ?m1) 1 (num_children (root_element 1))
            = Some (Inr ([(''a'', FieldDefinition (Some ''INT64'') None False False None)], 2))"
    and ns: "new_ParquetSchema ?L [(''a'', FieldDefinition (Some ''INT64'') None False False None)]
            = Inr ?sch"
    using decodeSchema_one_column buildSchema_one_column
    by (simp_all add: one_column_footer_def num_children_def root_element_def)
  have iff: "new_ParquetReader ?L ?m1 ?e1 = Some (Inr ?rd) \<longleftrightarrow>
          (\<exists>root rest sch nxt ps.
             schema ?m1 = root # rest
             \<and> decodeSchema ?L (schema ?m1) 1 (num_children root) = Some (Inr (sch, nxt))
             \<and> new_ParquetSchema ?L sch = Inr ps
             \<and> ?rd = \<lparr>pr_metadata = ?m1, pr_envelopeReader = ?e1, pr_schema = ps\<rparr>
             \<and> getSchema ?rd = ps)"
    by (rule tb [THEN conjunct2, THEN conjunct1, THEN spec])
  have "schema ?m1 = root_element 1 # [column_element ''a'' 2]
        \<and> decodeSchema ?L (schema ?m1) 1 (num_children (root_element 1))
            = Some (Inr ([(''a'', FieldDefinition (Some ''INT64'') None False False None)], 2))
        \<and> new_ParquetSchema ?L [(''a'', FieldDefinition (Some ''INT64'') None False False None)]
            = Inr ?sch
        \<and> ?rd = \<lparr>pr_metadata = ?m1, pr_envelopeReader = ?e1, pr_schema = ?sch\<rparr>
        \<and> getSchema ?rd = ?sch"
    using s ds ns by (simp add: getSchema_def)
  then have a1: "new_ParquetReader ?L ?m1 ?e1 = Some (Inr ?rd)"
    unfolding iff by blast
  have oiff: "fst (open_with ?L ?e1) = Some (Inr ?rd) \<longleftrightarrow>
                new_ParquetReader ?L ?m1 ?e1 = Some (Inr ?rd)"
    by (rule tb [THEN conjunct2, THEN conjunct2, THEN conjunct1, THEN mp, OF h1, THEN mp, OF f1,
          THEN conjunct2, THEN spec])
  have o1: "ParquetReader_openBuffer ?L (version_file 1) = open_with ?L ?e1"
    by (rule t1 [THEN conjunct2, THEN conjunct2, THEN conjunct1])
  from oiff a1 o1 have c1: "fst (ParquetReader_openBuffer ?L (version_file 1)) = Some (Inr ?rd)"
    by simp
  have biff: "fst (new_ParquetBufferReader ?L (version_file 1)) = Some (Inr ?brd) \<longleftrightarrow>
          (\<exists>root rest sch nxt ps.
             schema ?m1 = root # rest
             \<and> decodeSchema ?L (schema ?m1) 1 (num_children root) = Some (Inr (sch, nxt))
             \<and> new_ParquetSchema ?L sch = Inr ps
             \<and> ?brd = \<lparr>pbr_buffer = version_file 1,
                         pbr_envelopeReader = \<lparr>ebr_buffer = version_file 1\<rparr>,
                         pbr_metadata = ?m1, pbr_schema = ps\<rparr>
             \<and> pbr_getSchema ?brd = ps)"
    by (rule tb [THEN conjunct2, THEN conjunct2, THEN conjunct2, THEN mp, OF b1,
          THEN conjunct2, THEN spec])
  have "schema ?m1 = root_element 1 # [column_element ''a'' 2]
        \<and> decodeSchema ?L (schema ?m1) 1 (num_children (root_element 1))
            = Some (Inr ([(''a'', FieldDefinition (Some ''INT64'') None False False None)], 2))
        \<and> new_ParquetSchema ?L [(''a'', FieldDefinition (Some ''INT64'') None False False None)]
            = Inr ?sch
        \<and> ?brd = \<lparr>pbr_buffer = version_file 1,
                     pbr_envelopeReader = \<lparr>ebr_buffer = version_file 1\<rparr>,
                     pbr_metadata = ?m1, pbr_schema = ?sch\<rparr>
        \<and> pbr_getSchema ?brd = ?sch"
    using s ds ns by (simp add: pbr_getSchema_def)
  then have e1: "fst (new_ParquetBufferReader ?L (version_file 1)) = Some (Inr ?brd)"
    unfolding biff by blast
  have a1': "map_option (map_sum id getSchema) (new_ParquetReader ?L ?m1 ?e1) = Some (Inr ?sch)"
    using a1 by (simp add: getSchema_def)
  have c1': "map_option (map_sum id getSchema) (fst (ParquetReader_openBuffer ?L (version_file 1)))
               = Some (Inr ?sch)"
    using c1 by (simp add: getSchema_def)
  have e1': "map_option (map_sum id pbr_getSchema)
               (fst (new_ParquetBufferReader ?L (version_file 1))) = Some (Inr ?sch)"
    using e1 by (simp add: pbr_getSchema_def)
  show ?thesis
    by (rule conjI [OF a2 conjI [OF c2 conjI [OF d2 conjI [OF a1' conjI [OF c1' e1']]]]])
qed

text \<open>
  A footer of version 1 that the constructor rejects: its schema list is empty, and
  reading \<open>num_children\<close> of \<open>metadata.schema[0]\<close> throws.
\<close>

theorem version_one_fails_counterexample:
  "version empty_schema_footer = 1
   \<and> new_ParquetReader (example_lib []) empty_schema_footer (ParquetEnvelopeReader_openBuffer [])
       = Some (Inl (TypeError ''root is undefined''))"
  by (simp add: empty_schema_footer_def new_ParquetReader_def PARQUET_VERSION_def
      decode_file_schema_def)

subsection \<open>The magic at the start of the file\<close>

lemma openBuffer_bad_magic:
  "fst (ParquetReader_openBuffer (example_lib []) bad_magic_file)
     = Some (Inl (Error ''not valid parquet file''))"
  by (simp add: ParquetReader_openBuffer_def open_with_def readHeader_def io_read_def
      ParquetEnvelopeReader_openBuffer_def io_bind_simps PARQUET_MAGIC_def Buffer_slice_def
      bad_magic_file_def toString_is_def io_pure_def)

lemma buffer_reader_bad_magic:
  "map_option (map_sum id pbr_getSchema)
     (fst (new_ParquetBufferReader (example_lib []) bad_magic_file)) = Some (Inr [])"
  by code_simp

lemma buffer_reader_bad_magic_reads:
  "snd (new_ParquetBufferReader (example_lib []) bad_magic_file) = [(5, 8), (4, 1)]"
  by code_simp

text \<open>
  Claim C5. The claim does not hold of \<open>ParquetBufferReader\<close>: its constructor reads the
  footer only and never calls \<open>readHeader\<close>. On a buffer whose first four bytes are not
  \<open>PAR1\<close> and whose trailer is well formed, \<open>ParquetReader.openBuffer\<close> fails with \<open>not valid
  parquet file\<close>, while the constructor of \<open>ParquetBufferReader\<close> returns a reader, having
  read the trailer and the footer and nothing else.
\<close>

theorem buffer_reader_skips_header:
  "fst (ParquetReader_openBuffer (example_lib []) bad_magic_file)
     = Some (Inl (Error ''not valid parquet file''))
   \<and> map_option (map_sum id pbr_getSchema)
       (fst (new_ParquetBufferReader (example_lib []) bad_magic_file)) = Some (Inr [])
   \<and> snd (new_ParquetBufferReader (example_lib []) bad_magic_file) = [(5, 8), (4, 1)]"
  using openBuffer_bad_magic buffer_reader_bad_magic buffer_reader_bad_magic_reads by simp

subsection \<open>The asynchronous iterator\<close>

lemma next_exhausted: "exhausted c \<Longrightarrow> ParquetCursor_next lib c = (Some (Inr Null), c)"
  by (simp add: exhausted_def ParquetCursor_next_def)

lemma next_null:
  "fst (ParquetCursor_next lib c) = Some (Inr Null) \<Longrightarrow> exhausted c"
  by (auto simp: exhausted_def ParquetCursor_next_def take_row_def
      split: if_splits option.splits sum.splits)

lemma step_finished:
  assumes "it_done it \<or> exhausted (it_cursor it)"
  shows "fst (it_step lib call it) = Some (Inr \<lparr>ir_done = True, ir_value = Null\<rparr>)
         \<and> (it_done (snd (it_step lib call it))
            \<or> exhausted (it_cursor (snd (it_step lib call it))))"
  using assms
  by (cases call) (auto simp: it_next_def it_return_def it_throw_def next_exhausted)

lemma steps_finished:
  "it_done it \<or> exhausted (it_cursor it) \<Longrightarrow>
     \<forall>out \<in> set (it_steps lib calls it). out = Some (Inr \<lparr>ir_done = True, ir_value = Null\<rparr>)"
proof (induction calls arbitrary: it)
  case Nil
  show ?case by simp
next
  case (Cons call calls)
  from step_finished [OF Cons.prems, of lib call] Cons.IH [of "snd (it_step lib call it)"]
  show ?case by simp
qed

lemma step_done:
  assumes "fst (it_step lib call it) = Some (Inr res)" and "ir_done res"
  shows "it_done (snd (it_step lib call it)) \<or> exhausted (it_cursor (snd (it_step lib call it)))"
proof (cases call)
  case Next
  show ?thesis
  proof (cases "it_done it")
    case True
    then show ?thesis using Next by (simp add: it_next_def)
  next
    case False
    obtain out c where n: "ParquetCursor_next lib (it_cursor it) = (out, c)"
      by (cases "ParquetCursor_next lib (it_cursor it)")
    with assms Next False have "out = Some (Inr Null)"
      by (auto simp: it_next_def split: option.splits sum.splits if_splits)
    with n have "exhausted (it_cursor it)"
      using next_null [of lib "it_cursor it"] by simp
    with next_exhausted [of "it_cursor it" lib] Next False show ?thesis
      by (simp add: it_next_def)
  qed
next
  case Return
  then show ?thesis by (simp add: it_return_def)
next
  case Throw
  then show ?thesis by (simp add: it_throw_def)
qed

lemma step_value:
  "fst (it_step lib call it) = Some (Inr res) \<Longrightarrow> \<not> ir_done res \<Longrightarrow> ir_value res \<noteq> Null"
  by (cases call)
     (auto simp: it_next_def it_return_def it_throw_def
       split: if_splits option.splits sum.splits prod.splits)

lemma steps_value:
  "\<forall>out \<in> set (it_steps lib calls it).
     \<forall>res. out = Some (Inr res) \<longrightarrow> \<not> ir_done res \<longrightarrow> ir_value res \<noteq> Null"
proof (induction calls arbitrary: it)
  case Nil
  show ?case by simp
next
  case (Cons call calls)
  from step_value [of lib call it] Cons.IH [of "snd (it_step lib call it)"]
  show ?case by auto
qed

lemma steps_next:
  "\<not> it_done it \<Longrightarrow>
     it_steps lib (replicate n Next) it = map yielded (next_calls lib n (it_cursor it))"
proof (induction n arbitrary: it)
  case 0
  show ?case by simp
next
  case (Suc n)
  obtain out c where n: "ParquetCursor_next lib (it_cursor it) = (out, c)"
    by (cases "ParquetCursor_next lib (it_cursor it)")
  with Suc.prems have s: "fst (it_next lib it) = yielded out"
    and t: "snd (it_next lib it) = it\<lparr>it_cursor := c\<rparr>"
    by (auto simp: it_next_def yielded_def split: option.splits sum.splits)
  from Suc.IH [of "it\<lparr>it_cursor := c\<rparr>"] Suc.prems n s t show ?case by simp
qed

lemma length_it_steps: "length (it_steps lib calls it) = length calls"
  by (induction calls arbitrary: it) simp_all

lemma steps_after_done:
  "i < j \<Longrightarrow> j < length calls \<Longrightarrow> it_steps lib calls it ! i = Some (Inr res) \<Longrightarrow> ir_done res \<Longrightarrow>
     it_steps lib calls it ! j = Some (Inr \<lparr>ir_done = True, ir_value = Null\<rparr>)"
proof (induction calls arbitrary: it i j)
  case Nil
  then show ?case by simp
next
  case (Cons call calls)
  from Cons.prems obtain j' where j: "j = Suc j'" and j': "j' < length calls"
    by (cases j) auto
  show ?case
  proof (cases i)
    case 0
    with Cons.prems have "fst (it_step lib call it) = Some (Inr res)" by simp
    from step_done [OF this Cons.prems(4)]
    have "\<forall>out \<in> set (it_steps lib calls (snd (it_step lib call it))).
            out = Some (Inr \<lparr>ir_done = True, ir_value = Null\<rparr>)"
      by (rule steps_finished)
    then show ?thesis using j j' by (simp add: length_it_steps)
  next
    case (Suc i')
    with Cons.prems j j' Cons.IH [of i' j' "snd (it_step lib call it)"] show ?thesis by simp
  qed
qed

text \<open>
  Claim C10. For every cursor and every sequence of calls of the three methods of its
  iterator: a result that is not done never carries \<open>null\<close>; the results of \<open>n\<close> calls of
  \<open>next\<close> on a fresh iterator are the outcomes of \<open>n\<close> successive calls of \<open>cursor.next()\<close>,
  each yielded as a value until the first \<open>null\<close>, which is reported as done; and once a
  result was done (from \<open>next\<close>, \<open>return\<close> or \<open>throw\<close>), every later call reports done with
  the value \<open>null\<close>.
\<close>

theorem iterator_protocol:
  "(\<forall>out \<in> set (it_steps lib calls it).
      \<forall>res. out = Some (Inr res) \<longrightarrow> \<not> ir_done res \<longrightarrow> ir_value res \<noteq> Null)
   \<and> it_steps lib (replicate n Next) (asyncIterator c) = map yielded (next_calls lib n c)
   \<and> (\<forall>i j res. i < j \<longrightarrow> j < length calls \<longrightarrow>
         it_steps lib calls it ! i = Some (Inr res) \<longrightarrow> ir_done res \<longrightarrow>
         it_steps lib calls it ! j = Some (Inr \<lparr>ir_done = True, ir_value = Null\<rparr>))"
  using steps_value [of lib calls it] steps_next [of "asyncIterator c" lib n]
    steps_after_done [of _ _ calls lib it]
  by (simp add: asyncIterator_def)

lemma next_calls_pos:
  "0 < n \<Longrightarrow> next_calls lib n c =
     fst (ParquetCursor_next lib c) # next_calls lib (n - 1) (snd (ParquetCursor_next lib c))"
  by (cases n) simp_all

lemma two_rows_next_calls:
  "next_calls (example_lib []) 4 two_rows_cursor
     = [Some (Inr (Row (Obj []))), Some (Inr (Row (Obj []))), Some (Inr Null), Some (Inr Null)]"
  by (simp add: next_calls_pos two_rows_cursor_def two_rows_footer_def new_ParquetCursor_def
      ParquetCursor_next_def take_row_def readRowGroup_def io_pure_def example_lib_def
      ex_materializeRecords_def materializeRecords_def fieldList_def assemble_row_def)

theorem iterator_protocol_witness:
  "it_steps (example_lib []) (replicate 4 Next) (asyncIterator two_rows_cursor)
     = [Some (Inr \<lparr>ir_done = False, ir_value = Row (Obj [])\<rparr>),
        Some (Inr \<lparr>ir_done = False, ir_value = Row (Obj [])\<rparr>),
        Some (Inr \<lparr>ir_done = True, ir_value = Null\<rparr>),
        Some (Inr \<lparr>ir_done = True, ir_value = Null\<rparr>)]
   \<and> it_steps (example_lib []) [Next, Return, Next, Next] (asyncIterator two_rows_cursor) ! 1
       = Some (Inr \<lparr>ir_done = True, ir_value = Null\<rparr>)
   \<and> it_steps (example_lib []) [Next, Return, Next, Next] (asyncIterator two_rows_cursor) ! 3
       = Some (Inr \<lparr>ir_done = True, ir_value = Null\<rparr>)"
proof -
  let ?L = "example_lib [] :: (ParquetSchema, pvalue jsval) Imports"
  let ?calls = "[Next, Return, Next, Next]"
  let ?it = "asyncIterator two_rows_cursor"
  note t = iterator_protocol [of ?L ?calls ?it 4 two_rows_cursor]
  from t have "it_steps ?L (replicate 4 Next) ?it = map yielded (next_calls ?L 4 two_rows_cursor)"
    by blast
  then have a: "it_steps ?L (replicate 4 Next) ?it
     = [Some (Inr \<lparr>ir_done = False, ir_value = Row (Obj [])\<rparr>),
        Some (Inr \<lparr>ir_done = False, ir_value = Row (Obj [])\<rparr>),
        Some (Inr \<lparr>ir_done = True, ir_value = Null\<rparr>),
        Some (Inr \<lparr>ir_done = True, ir_value = Null\<rparr>)]"
    by (simp add: two_rows_next_calls yielded_def)
  have b: "it_steps ?L ?calls ?it ! 1 = Some (Inr \<lparr>ir_done = True, ir_value = Null\<rparr>)"
    by (simp add: it_return_def)
  from t have "\<forall>i j res. i < j \<longrightarrow> j < length ?calls \<longrightarrow>
         it_steps ?L ?calls ?it ! i = Some (Inr res) \<longrightarrow> ir_done res \<longrightarrow>
         it_steps ?L ?calls ?it ! j = Some (Inr \<lparr>ir_done = True, ir_value = Null\<rparr>)"
    by blast
  then have "(1::nat) < 3 \<longrightarrow> 3 < length ?calls \<longrightarrow>
         it_steps ?L ?calls ?it ! 1 = Some (Inr \<lparr>ir_done = True, ir_value = Null\<rparr>) \<longrightarrow>
         ir_done \<lparr>ir_done = True, ir_value = Null :: pvalue jsval row\<rparr> \<longrightarrow>
         it_steps ?L ?calls ?it ! 3 = Some (Inr \<lparr>ir_done = True, ir_value = Null\<rparr>)"
    by blast
  with b have c: "it_steps ?L ?calls ?it ! 3 = Some (Inr \<lparr>ir_done = True, ir_value = Null\<rparr>)"
    by simp
  from a b c show ?thesis by blast
qed


section \<open>Properties of the shredder, the assembler and the statistics\<close>

subsection \<open>The scenarios S1 and S2\<close>

lemma S1_schema_built: "buildSchema S1_definition = Inr S1_schema"
  by (simp add: buildSchema_def S1_definition_def S1_schema_def repetition_of_def
      check_leaf_def primitive_types_def logical_types_def)

lemma S1_shredded: "shred S1_schema [record_A, record_B] = Inr S1_buffer"
  by code_simp

lemma S1_materialized: "materializeRecords S1_schema S1_buffer = Inr [record_A, record_B]"
  by code_simp

text \<open>
  Claim C2. Under the schema of the Dremel example (scenario S1), which the schema
  description of the scenario builds, shredding record A and then record B into a fresh
  write buffer gives row count 2 and exactly the column streams the specification
  lists: for \<open>Name.Language.Country\<close> definition levels 3, 2, 1, 3, 1, repetition levels
  0, 2, 1, 1, 0 and values \<open>us\<close>, \<open>gb\<close>; for \<open>Links.Backward\<close> 1, 2, 2 and 0, 0, 1 and
  values 10, 30; for \<open>DocId\<close> 0, 0 and 0, 0 and values 10, 20; and so on for the other
  three columns.
\<close>

theorem S1_shred:
  "buildSchema S1_definition = Inr S1_schema
   \<and> shred S1_schema [record_A, record_B] = Inr S1_buffer
   \<and> wb_rowCount S1_buffer = 2
   \<and> map_of (wb_columnData S1_buffer) [''Name'', ''Language'', ''Country'']
       = Some \<lparr>cs_values = [Utf8 ''us'', Utf8 ''gb''], cs_dLevels = [3, 2, 1, 3, 1],
                cs_rLevels = [0, 2, 1, 1, 0], cs_count = 5\<rparr>
   \<and> map_of (wb_columnData S1_buffer) [''Links'', ''Backward'']
       = Some \<lparr>cs_values = [Int64 10, Int64 30], cs_dLevels = [1, 2, 2],
                cs_rLevels = [0, 0, 1], cs_count = 3\<rparr>
   \<and> map_of (wb_columnData S1_buffer) [''DocId'']
       = Some \<lparr>cs_values = [Int64 10, Int64 20], cs_dLevels = [0, 0], cs_rLevels = [0, 0],
                cs_count = 2\<rparr>"
  using S1_schema_built S1_shredded by (simp add: S1_buffer_def)

lemma S2_schema_built: "buildSchema S2_definition = Inr S2_schema"
  by (simp add: buildSchema_def S2_definition_def S2_schema_def repetition_of_def
      check_leaf_def primitive_types_def logical_types_def)

lemma S2_round_trip: "round_trip S2_schema S2_records = Inr S2_materialized"
  by code_simp

text \<open>
  Claim C3. Under the schema \<open>fruit {optional, color: UTF8 repeated, type: UTF8 optional}\<close>
  (scenario S2), shredding the four records \<open>{}\<close>, \<open>{fruit: {}}\<close>, \<open>{fruit: {color: []}}\<close>
  and \<open>{fruit: {color: ["red", "blue"], type: "x"}}\<close> and materializing them gives \<open>{}\<close>,
  \<open>{fruit: {}}\<close>, \<open>{fruit: {}}\<close> and the fourth record: the empty array comes back
  absent.
\<close>

theorem S2_optional_empty_nested:
  "buildSchema S2_definition = Inr S2_schema
   \<and> round_trip S2_schema S2_records = Inr S2_materialized
   \<and> S2_records ! 2 = Obj [(''fruit'', Obj [(''color'', Arr [])])]
   \<and> S2_materialized ! 2 = Obj [(''fruit'', Obj [])]"
  using S2_schema_built S2_round_trip by (simp add: S2_records_def S2_materialized_def)

subsection \<open>Statistics\<close>

lemma fold_feed_nulls:
  "acc_null_count (fold (feed dm) es acc)
     = acc_null_count acc + length (filter (\<lambda>(d, r, v). d < dm) es)"
  by (induction es arbitrary: acc) (auto simp: feed_def split: option.splits)

lemma fold_feed_distinct:
  "distinct (acc_distinct acc) \<Longrightarrow>
     distinct (acc_distinct (fold (feed dm) es acc))
     \<and> set (acc_distinct (fold (feed dm) es acc)) = set (acc_distinct acc) \<union> set (emitted es)"
proof (induction es arbitrary: acc)
  case Nil
  then show ?case by (simp add: emitted_def List.map_filter_def)
next
  case (Cons e es)
  obtain d r v where e: "e = (d, r, v)" by (cases e)
  have "distinct (acc_distinct (feed dm e acc))"
    using Cons.prems e by (cases v) (auto simp: feed_def)
  from Cons.IH [OF this] show ?case
    using e by (cases v) (auto simp: feed_def emitted_def List.map_filter_def)
qed

lemma fold_feed_min:
  "acc_min (fold (feed dm) es acc)
     = (if emitted es = [] then acc_min acc
        else Some (case acc_min acc of
                     None \<Rightarrow> Min (set (emitted es))
                   | Some m \<Rightarrow> min m (Min (set (emitted es)))))"
proof (induction es arbitrary: acc)
  case Nil
  show ?case by (simp add: emitted_def List.map_filter_def)
next
  case (Cons e es)
  obtain d r v where e: "e = (d, r, v)" by (cases e)
  show ?case
  proof (cases v)
    case None
    then have em: "emitted (e # es) = emitted es"
      using e by (simp add: emitted_def List.map_filter_def)
    have m: "acc_min (feed dm e acc) = acc_min acc"
      using e None by (simp add: feed_def)
    show ?thesis
      unfolding em using Cons.IH [of "feed dm e acc"] by (simp add: m)
  next
    case (Some x)
    then have em: "emitted (e # es) = x # emitted es"
      using e by (simp add: emitted_def List.map_filter_def)
    have m: "acc_min (feed dm e acc)
               = Some (case acc_min acc of None \<Rightarrow> x | Some m \<Rightarrow> min m x)"
      using e Some by (auto simp: feed_def min_def split: option.splits)
    show ?thesis
      using Cons.IH [of "feed dm e acc"] m em
      by (cases "emitted es = []"; cases "acc_min acc")
         (auto simp: min.assoc min.commute min.left_commute)
  qed
qed

lemma fold_feed_max:
  "acc_max (fold (feed dm) es acc)
     = (if emitted es = [] then acc_max acc
        else Some (case acc_max acc of
                     None \<Rightarrow> Max (set (emitted es))
                   | Some m \<Rightarrow> max m (Max (set (emitted es)))))"
proof (induction es arbitrary: acc)
  case Nil
  show ?case by (simp add: emitted_def List.map_filter_def)
next
  case (Cons e es)
  obtain d r v where e: "e = (d, r, v)" by (cases e)
  show ?case
  proof (cases v)
    case None
    then have em: "emitted (e # es) = emitted es"
      using e by (simp add: emitted_def List.map_filter_def)
    have m: "acc_max (feed dm e acc) = acc_max acc"
      using e None by (simp add: feed_def)
    show ?thesis
      unfolding em using Cons.IH [of "feed dm e acc"] by (simp add: m)
  next
    case (Some x)
    then have em: "emitted (e # es) = x # emitted es"
      using e by (simp add: emitted_def List.map_filter_def)
    have m: "acc_max (feed dm e acc)
               = Some (case acc_max acc of None \<Rightarrow> x | Some m \<Rightarrow> max m x)"
      using e Some by (auto simp: feed_def max_def split: option.splits)
    show ?thesis
      using Cons.IH [of "feed dm e acc"] m em
      by (cases "emitted es = []"; cases "acc_max acc")
         (auto simp: max.assoc max.commute max.left_commute)
  qed
qed

text \<open>
  Claim C8. The statistics of a \<open>UTF8\<close> column over the positions of a row group:
  \<open>null_count\<close> is the number of positions whose definition level is below
  \<open>dLevelMax\<close>, \<open>distinct_count\<close> the number of distinct emitted values, and, when a
  value was emitted, \<open>min_value\<close> and \<open>max_value\<close> are the PLAIN encodings, with the
  length prefix, of the smallest and the largest emitted string in the byte-wise
  lexicographic order.
\<close>

theorem statistics_exact:
  "null_count (column_statistics dm es) = length (filter (\<lambda>(d, r, v). d < dm) es)
   \<and> distinct_count (column_statistics dm es) = card (set (emitted es))
   \<and> (emitted es \<noteq> [] \<longrightarrow>
        min_value (column_statistics dm es) = Some (plain_BYTE_ARRAY (Min (set (emitted es))))
        \<and> max_value (column_statistics dm es)
            = Some (plain_BYTE_ARRAY (Max (set (emitted es)))))
   \<and> (emitted es = [] \<longrightarrow>
        min_value (column_statistics dm es) = None
        \<and> max_value (column_statistics dm es) = None)"
proof -
  have d: "distinct (acc_distinct new_StatisticsAccumulator)"
    by (simp add: new_StatisticsAccumulator_def)
  from fold_feed_distinct [OF d, of dm es]
  have "length (acc_distinct (fold (feed dm) es new_StatisticsAccumulator))
          = card (set (emitted es))"
    by (simp add: distinct_card [symmetric] new_StatisticsAccumulator_def)
  then show ?thesis
    by (simp add: column_statistics_def serialize_statistics_def fold_feed_nulls
        fold_feed_min fold_feed_max new_StatisticsAccumulator_def)
qed

lemma emitted_concat_replicate:
  "emitted (concat (replicate n xs)) = concat (replicate n (emitted xs))"
  by (induction n) (simp_all add: emitted_def List.map_filter_def)

lemma length_filter_concat_replicate:
  "length (filter P (concat (replicate n xs))) = n * length (filter P xs)"
  by (induction n) simp_all

lemma S5_emitted:
  "set (emitted S5_rows)
     = {utf8 ''apples'', utf8 ''oranges'', utf8 ''kiwi'', utf8 ''banana''}"
  by (simp add: S5_rows_def emitted_concat_replicate)
     (simp add: emitted_def List.map_filter_def)

theorem statistics_exact_witness:
  "length S5_rows = 4000
   \<and> null_count (column_statistics 1 S5_rows) = 2000
   \<and> distinct_count (column_statistics 1 S5_rows) = 4
   \<and> min_value (column_statistics 1 S5_rows) = Some ([6, 0, 0, 0] @ utf8 ''apples'')
   \<and> max_value (column_statistics 1 S5_rows) = Some ([7, 0, 0, 0] @ utf8 ''oranges'')"
proof -
  have len: "length S5_rows = 4000"
    by (simp add: S5_rows_def length_concat sum_list_replicate)
  have nulls: "length (filter (\<lambda>(d, r, v). d < 1) S5_rows) = 2000"
    by (simp add: S5_rows_def length_filter_concat_replicate)
  have ne: "emitted S5_rows \<noteq> []"
    using S5_emitted by auto
  have card: "card (set (emitted S5_rows)) = 4"
    by (simp add: S5_emitted utf8_def)
  have mn: "Min (set (emitted S5_rows)) = utf8 ''apples''"
    by (simp add: S5_emitted utf8_def min_def)
  have mx: "Max (set (emitted S5_rows)) = utf8 ''oranges''"
    by (simp add: S5_emitted utf8_def max_def)
  have a: "plain_BYTE_ARRAY (utf8 ''apples'') = [6, 0, 0, 0] @ utf8 ''apples''"
    and o: "plain_BYTE_ARRAY (utf8 ''oranges'') = [7, 0, 0, 0] @ utf8 ''oranges''"
    by (simp_all add: plain_BYTE_ARRAY_def utf8_def)
  from statistics_exact [of 1 S5_rows] len nulls ne card mn mx a o show ?thesis
    by simp
qed


section \<open>The round trip of the shredder and the assembler\<close>

subsection \<open>Association lists, counters and placing\<close>





lemma keys_update: "fst ` set (AList.update k v al) = insert k (fst ` set al)"
  by (induction al) auto

lemma bump_tl: "cs \<noteq> [] \<Longrightarrow> 0 < r \<Longrightarrow> tl (bump cs r) = bump (tl cs) (r - 1)"
  by (cases cs; cases r) (simp_all add: bump_def)

lemma bump_0: "bump cs 0 = (cs ! 0 + 1) # replicate (length cs - 1) 0"
  by (simp add: bump_def)

lemma bump_nonempty: "bump cs r \<noteq> []"
  by (simp add: bump_def)





lemma place_all_tl:
  "tl cs = tl cs' \<Longrightarrow> cs \<noteq> [] \<Longrightarrow> cs' \<noteq> [] \<Longrightarrow> place_all b cs es rec = place_all b cs' es rec"
proof (induction es arbitrary: cs cs' rec)
  case Nil
  show ?case by simp
next
  case (Cons e es)
  obtain d r v where e: "e = (d, r, v)" by (cases e)
  have len: "length cs = length cs'"
    using Cons.prems by (cases cs; cases cs') auto
  have t: "tl (bump cs r) = tl (bump cs' r)"
  proof (cases r)
    case 0
    then show ?thesis using len by (simp add: bump_0)
  next
    case (Suc k)
    then show ?thesis using Cons.prems by (simp add: bump_tl)
  qed
  from Cons.IH [OF t bump_nonempty bump_nonempty] t e show ?case by simp
qed

subsection \<open>The walk down a branch\<close>


lemma collect_single: "collect [x] = x"
  by (cases x) simp_all














lemma chunk_Nil [simp]: "\<not> chunk L r d rm dm []"
  by (simp add: chunk_def)








subsection \<open>Placing the positions of a group\<close>



lemma lower_append [simp]: "lower k (es1 @ es2) = lower k es1 @ lower k es2"
  by (simp add: lower_def)



lemma lower_0 [simp]: "lower 0 es = es"
  by (induction es) (auto simp: lower_def)









lemma place_all_first0:
  assumes "length cs = length cs'" "cs \<noteq> []"
  shows "place_all b cs ((d, 0, v) # es) rec = place_all b cs' ((d, 0, v) # es) rec"
proof -
  have t: "tl (bump cs 0) = tl (bump cs' 0)"
    using assms by (simp add: bump_0)
  from place_all_tl [OF t bump_nonempty bump_nonempty] t show ?thesis by simp
qed









subsection \<open>The fields of a node\<close>



















subsection \<open>The column streams of a sequence of records\<close>




















subsection \<open>The round trip\<close>







end
